theory Spec2Isabelle
  imports Complex_Main "HOL-Library.Word" "HOL-Library.Sublist"
begin

unbundle bit_operations_syntax

section \<open>Conventions of the embedding\<close>

text \<open>
  The theory embeds the parts of \<^verbatim>\<open>src/src/ppp.c\<close> (precise point positioning) that
  the specification makes claims about.

  \<^item> A C \<^verbatim>\<open>double\<close> is a \<^typ>\<open>real\<close>. Except in \<^verbatim>\<open>varerr\<close>, where every
    operation is followed by the rounding of the platform, the arithmetic is exact:
    rounding, infinities and NaN are not modelled. Where the source divides, the theorems
    assume the divisor is not zero whenever the quotient matters.
  \<^item> A C array is a function from the index (\<^typ>\<open>nat\<close>) to the element; the flat
    matrices \<^verbatim>\<open>P[i+j*nx]\<close> keep their flat index.
  \<^item> \<^verbatim>\<open>rtklib.h\<close> is not among the sources. Its numeric constants are the fields of
    the record \<open>rtklib_h\<close>, which every function that uses one takes as its first
    argument; its enumerations are datatypes whose constructors carry the names of the
    macros.
  \<^item> Library functions of RTKLIB that live outside \<^verbatim>\<open>ppp.c\<close> (\<^verbatim>\<open>satsys\<close>,
    \<^verbatim>\<open>testsnr\<close>, \<^verbatim>\<open>satno2id\<close>, \<^verbatim>\<open>time2gpst\<close>, \<^verbatim>\<open>sunmoonpos\<close>, \<^verbatim>\<open>sprintf\<close>)
    are arguments of the functions that call them, or fields of the record \<open>extern_t\<close>.
\<close>

subsection \<open>Constants of rtklib.h\<close>

record rtklib_h =
  MAXSAT :: nat
  MAXOBS :: nat
  NFREQ :: nat
  NSYS :: nat
  PI :: real
  R2D :: real
  CLIGHT :: real
  RE_WGS84 :: real
  EFACT_GPS :: real
  EFACT_GLO :: real
  EFACT_SBS :: real
  CODE_L1C :: int
  CODE_L1P :: int
  CODE_L1W :: int
  CODE_L2C :: int
  CODE_L2P :: int
  CODE_L2W :: int
  CODE_L2X :: int
  CODE_L2L :: int
  CODE_L2S :: int

text \<open>The values of the RTKLIB 2.4.3 distribution, used for concrete inputs only.\<close>

definition rtklib_h_std :: rtklib_h where
  "rtklib_h_std = \<lparr> MAXSAT = 132, MAXOBS = 64, NFREQ = 3, NSYS = 4,
     PI = pi, R2D = 180 / pi, CLIGHT = 299792458, RE_WGS84 = 6378137,
     EFACT_GPS = 1, EFACT_GLO = 3 / 2, EFACT_SBS = 3,
     CODE_L1C = 1, CODE_L1P = 2, CODE_L1W = 3, CODE_L2C = 14, CODE_L2P = 19, CODE_L2W = 20,
     CODE_L2X = 18, CODE_L2L = 17, CODE_L2S = 16 \<rparr>"

text \<open>Navigation systems: \<^verbatim>\<open>satsys\<close> returns exactly one of the \<^verbatim>\<open>SYS_*\<close> bits.\<close>

datatype navsys = SYS_NONE | SYS_GPS | SYS_SBS | SYS_GLO | SYS_GAL | SYS_QZS | SYS_CMP
  | SYS_IRN | SYS_LEO

datatype ionoopt_t = IONOOPT_OFF | IONOOPT_BRDC | IONOOPT_SBAS | IONOOPT_IFLC | IONOOPT_EST
  | IONOOPT_TEC | IONOOPT_QZS | IONOOPT_LEX | IONOOPT_STEC

datatype tropopt_t = TROPOPT_OFF | TROPOPT_SAAS | TROPOPT_SBAS | TROPOPT_EST | TROPOPT_ESTG
  | TROPOPT_ZTD

datatype armode_t = ARMODE_OFF | ARMODE_CONT | ARMODE_INST | ARMODE_FIXHOLD

datatype ephopt_t = EPHOPT_BRDC | EPHOPT_PREC | EPHOPT_SBAS | EPHOPT_SSRAPC | EPHOPT_SSRCOM
  | EPHOPT_LEX

datatype solq_t = SOLQ_NONE | SOLQ_FIX | SOLQ_FLOAT | SOLQ_SBAS | SOLQ_DGPS | SOLQ_SINGLE
  | SOLQ_PPP | SOLQ_DR

text \<open>\<^verbatim>\<open>weightmode\<close> is switched on with a default branch: any other value is kept.\<close>

datatype weightopt_t = WEIGHTOPT_ELEVATION | WEIGHTOPT_SNR | WEIGHTOPT_other int

subsection \<open>Processing options\<close>

record prcopt_t =
  nf :: int
  ionoopt :: ionoopt_t
  tropopt :: tropopt_t
  dynamics :: int
  modear :: armode_t
  sateph :: ephopt_t
  maxout :: int
  eratio :: "nat \<Rightarrow> real"
  err :: "nat \<Rightarrow> real"
  prn :: "nat \<Rightarrow> real"
  weightmode :: weightopt_t
  posopt :: "nat \<Rightarrow> int"
  thresslip :: real

subsection \<open>Macros of ppp.c\<close>

definition SQR :: "real \<Rightarrow> real" where
  "SQR x = x * x"

text \<open>\<^verbatim>\<open>SQRT(x) ((x)<=0.0||(x)!=(x)?0.0:sqrt(x))\<close>; a real is never NaN.\<close>

definition SQRT :: "real \<Rightarrow> real" where
  "SQRT x = (if x \<le> 0 then 0 else sqrt x)"

text \<open>\<^verbatim>\<open>MAX\<close> and \<^verbatim>\<open>MIN\<close> are binders of HOL, hence the suffix.\<close>

definition MAX_macro :: "real \<Rightarrow> real \<Rightarrow> real" where
  "MAX_macro x y = (if x > y then x else y)"

definition MIN_macro :: "real \<Rightarrow> real \<Rightarrow> real" where
  "MIN_macro x y = (if x < y then x else y)"

text \<open>\<^verbatim>\<open>ROUND(x) (int)floor((x)+0.5)\<close>\<close>

definition ROUND :: "real \<Rightarrow> int" where
  "ROUND x = \<lfloor>x + 1 / 2\<rfloor>"

definition EFACT_GPS_L5 :: real where
  "EFACT_GPS_L5 = 10"

subsection \<open>Observations, navigation data and library functions\<close>

text \<open>
  \<^verbatim>\<open>obsd_t\<close>: the satellite number (1-based), carrier phase (cycles) and pseudorange (m)
  per frequency, and the \<^verbatim>\<open>unsigned char\<close> arrays \<^verbatim>\<open>SNR\<close>, \<^verbatim>\<open>LLI\<close> and \<^verbatim>\<open>code\<close>.
\<close>

record obsd_t =
  obs_sat :: nat
  obs_L :: "nat \<Rightarrow> real"
  obs_P :: "nat \<Rightarrow> real"
  obs_SNR :: "nat \<Rightarrow> 8 word"
  obs_LLI :: "nat \<Rightarrow> 8 word"
  obs_code :: "nat \<Rightarrow> 8 word"

text \<open>
  \<^verbatim>\<open>nav_t\<close>: \<^verbatim>\<open>lam[sat-1][f]\<close>, \<^verbatim>\<open>cbias[sat-1][k]\<close>, \<^verbatim>\<open>ssr[sat-1].cbias[c]\<close> (the
  index \<^verbatim>\<open>code-1\<close> is an int, so the model keeps an int index) and \<^verbatim>\<open>pcvs[sat-1].type\<close>.
\<close>

record nav_t =
  nav_lam :: "nat \<Rightarrow> nat \<Rightarrow> real"
  nav_cbias :: "nat \<Rightarrow> nat \<Rightarrow> real"
  nav_ssr_cbias :: "nat \<Rightarrow> int \<Rightarrow> real"
  nav_pcvs_type :: "nat \<Rightarrow> string"

text \<open>
  Functions of RTKLIB defined outside \<^verbatim>\<open>ppp.c\<close>: \<^verbatim>\<open>satsys(sat,NULL)\<close>;
  \<^verbatim>\<open>testsnr(0,0,el,snr,&opt->snrmask)\<close> as a predicate of elevation and SNR;
  \<^verbatim>\<open>(int)str2num(id,1,2)\<close> after \<^verbatim>\<open>satno2id(sat,id)\<close>, the PRN of a satellite.
\<close>

record extern_t =
  satsys :: "nat \<Rightarrow> navsys"
  testsnr :: "real \<Rightarrow> real \<Rightarrow> bool"
  satprn :: "nat \<Rightarrow> int"

text \<open>The C cast \<^verbatim>\<open>(int)x\<close> of a double truncates towards zero.\<close>

definition int_cast :: "real \<Rightarrow> int" where
  "int_cast v = (if v \<ge> 0 then \<lfloor>v\<rfloor> else \<lceil>v\<rceil>)"

section \<open>BDS-2 code multipath\<close>

definition BDsType :: "string list" where
  "BDsType =
    [''BDS2-G'', ''BDS2-G'', ''BDS2-G'', ''BDS2-G'', ''BDS2-G'', ''BDS2-I'',
     ''BDS2-I'', ''BDS2-I'', ''BDS2-I'', ''BDS2-I'', ''BDS2-M'', ''BDS2-M'',
     ''BDS2-I'', ''BDS2-M'', [],         ''BDS2-I'', [],         ''BDS2-G'',
     ''BDS3-M'', ''BDS3-M'', ''BDS3-M'', ''BDS3-M'', ''BDS3-M'', ''BDS3-M'',
     ''BDS3-M'', ''BDS3-M'', ''BDS3-M'', ''BDS3-M'', ''BDS3-M'', ''BDS3-M'',
     ''BDS3-I'', ''BDS3-M'', ''BDS3-M'', ''BDS3-M'', ''BDS3-M'', ''BDS3-M'',
     ''BDS3-M'', ''BDS3-I'', ''BDS3-I'', ''BDS3-I'', ''BDS3-M'', ''BDS3-M'',
     ''BDS3-M'', ''BDS3-M'', ''BDS3-M'', ''BDS3-M'']"

text \<open>The table \<^verbatim>\<open>coef[10][6]\<close> of \<^verbatim>\<open>corr_bds2_multipath\<close>, in hundredths.\<close>

definition coef100 :: "int list list" where
  "coef100 =
    [[-55, -71, -27, -47, -40, -22],
     [-40, -36, -23, -38, -31, -15],
     [-34, -33, -21, -32, -26, -13],
     [-23, -19, -15, -23, -18, -10],
     [-15, -14, -11, -11,  -6,  -4],
     [ -4,  -3,  -4,   6,   9,   5],
     [  9,   8,   5,  34,  28,  14],
     [ 19,  17,  14,  69,  48,  27],
     [ 27,  24,  19,  97,  64,  36],
     [ 35,  33,  32, 105,  69,  47]]"

definition coef :: "nat \<Rightarrow> nat \<Rightarrow> real" where
  "coef r c = real_of_int (coef100 ! r ! c) / 100"

text \<open>
  Lines 372-384 for one code \<^verbatim>\<open>i\<close>: the value added to \<^verbatim>\<open>obs->P[i]\<close>, from the
  elevation in degrees \<^verbatim>\<open>azel[1]*R2D\<close> and the column block \<^verbatim>\<open>nType\<close>. In the last
  branch the elevation is strictly between 0 and 90, so \<^verbatim>\<open>idx\<close> is between 0 and 8.
\<close>

definition bds2_mp_value :: "real \<Rightarrow> nat \<Rightarrow> nat \<Rightarrow> real" where
  "bds2_mp_value eldeg nType i =
    (if eldeg \<le> 0 then coef 0 ((nType - 1) * 3 + i)
     else if eldeg \<ge> 90 then coef 9 ((nType - 1) * 3 + i)
     else
       (let idx = int_cast (eldeg / 10);
            alpha = (coef (nat (idx + 1)) ((nType - 1) * 3 + i)
                     - coef (nat idx) ((nType - 1) * 3 + i)) / 10
        in alpha * (eldeg - real_of_int ((idx - 1) * 10)) + coef (nat idx) ((nType - 1) * 3 + i)))"

definition bds2_mp_add :: "rtklib_h \<Rightarrow> nat \<Rightarrow> obsd_t \<Rightarrow> (nat \<Rightarrow> real) \<Rightarrow> obsd_t" where
  "bds2_mp_add h nType obs azel =
     fold (\<lambda>i ob. ob\<lparr>obs_P := (obs_P ob)(i := obs_P ob i + bds2_mp_value (azel 1 * R2D h) nType i)\<rparr>)
       [0, 1, 2] obs"

text \<open>
  \<^verbatim>\<open>corr_bds2_multipath\<close>, lines 347-385. The read \<^verbatim>\<open>BDsType[prn-1]\<close> is outside the
  table unless \<open>1 \<le> prn \<le> 46\<close>; the model returns \<open>None\<close> there.
\<close>

definition corr_bds2_multipath :: "rtklib_h \<Rightarrow> extern_t \<Rightarrow> obsd_t \<Rightarrow> (nat \<Rightarrow> real) \<Rightarrow> obsd_t option" where
  "corr_bds2_multipath h ext obs azel =
    (let prn = satprn ext (obs_sat obs) in
     if prn < 1 \<or> prn > 46 then None
     else if BDsType ! nat (prn - 1) = ''BDS2-I'' then Some (bds2_mp_add h 1 obs azel)
     else if BDsType ! nat (prn - 1) = ''BDS2-M'' then Some (bds2_mp_add h 2 obs azel)
     else if BDsType ! nat (prn - 1) = ''BDS2-G'' then Some (bds2_mp_add h 2 obs azel)
     else Some obs)"

text \<open>
  The interpolation the specification describes: between the rows of the 10-degree bin
  that holds the elevation, row \<open>idx\<close> at \<open>10 * idx\<close> degrees and row \<open>idx + 1\<close> at
  \<open>10 * idx + 10\<close> degrees, evaluated at the elevation.
\<close>

definition bds2_mp_spec :: "real \<Rightarrow> nat \<Rightarrow> nat \<Rightarrow> real" where
  "bds2_mp_spec eldeg nType i =
    (if eldeg \<le> 0 then coef 0 ((nType - 1) * 3 + i)
     else if eldeg \<ge> 90 then coef 9 ((nType - 1) * 3 + i)
     else
       (let idx = nat \<lfloor>eldeg / 10\<rfloor>;
            lo = coef idx ((nType - 1) * 3 + i);
            hi = coef (idx + 1) ((nType - 1) * 3 + i)
        in lo + (hi - lo) * (eldeg - 10 * real idx) / 10))"

section \<open>Corrected measurements and linear combinations\<close>

text \<open>
  The second frequency of the combinations:
  \<^verbatim>\<open>(sys&(SYS_GAL|SYS_SBS|SYS_CMP))?2:1\<close> (an array index, so frequency 3 or 2).
\<close>

definition lc_index :: "navsys \<Rightarrow> nat" where
  "lc_index sys = (if sys = SYS_GAL \<or> sys = SYS_SBS \<or> sys = SYS_CMP then 2 else 1)"

text \<open>\<^verbatim>\<open>gfmeas\<close>, lines 431-438.\<close>

definition gfmeas :: "extern_t \<Rightarrow> obsd_t \<Rightarrow> nav_t \<Rightarrow> real" where
  "gfmeas ext obs nav =
    (let lam = nav_lam nav (obs_sat obs - 1);
         i = lc_index (satsys ext (obs_sat obs))
     in if lam 0 = 0 \<or> lam i = 0 \<or> obs_L obs 0 = 0 \<or> obs_L obs i = 0 then 0
        else lam 0 * obs_L obs 0 - lam i * obs_L obs i)"

text \<open>\<^verbatim>\<open>mwmeas\<close>, lines 440-449.\<close>

definition mwmeas :: "extern_t \<Rightarrow> obsd_t \<Rightarrow> nav_t \<Rightarrow> real" where
  "mwmeas ext obs nav =
    (let lam = nav_lam nav (obs_sat obs - 1);
         i = lc_index (satsys ext (obs_sat obs))
     in if lam 0 = 0 \<or> lam i = 0 \<or> obs_L obs 0 = 0 \<or> obs_L obs i = 0 \<or>
           obs_P obs 0 = 0 \<or> obs_P obs i = 0 then 0
        else lam 0 * lam i * (obs_L obs 0 - obs_L obs i) / (lam i - lam 0) -
             (lam i * obs_P obs 0 + lam 0 * obs_P obs i) / (lam i + lam 0))"

text \<open>
  The loop body of \<^verbatim>\<open>corr_meas\<close> (lines 462-492) for frequency index \<open>i\<close>, on the
  output arrays \<open>L\<close>, \<open>P\<close> and the variable \<^verbatim>\<open>ix\<close>, which keeps its value from one
  frequency to the next.
\<close>

definition corr_meas_freq ::
  "rtklib_h \<Rightarrow> extern_t \<Rightarrow> obsd_t \<Rightarrow> nav_t \<Rightarrow> (nat \<Rightarrow> real) \<Rightarrow> prcopt_t \<Rightarrow> (nat \<Rightarrow> real) \<Rightarrow>
   (nat \<Rightarrow> real) \<Rightarrow> real \<Rightarrow> nat \<Rightarrow> (nat \<Rightarrow> real) \<times> (nat \<Rightarrow> real) \<times> int \<Rightarrow>
   (nat \<Rightarrow> real) \<times> (nat \<Rightarrow> real) \<times> int" where
  "corr_meas_freq h ext obs nav azel opt dantr dants phw i st =
    (case st of (L0, P0, ix0) \<Rightarrow>
      (let lam = nav_lam nav (obs_sat obs - 1);
           sys = satsys ext (obs_sat obs);
           L1 = L0(i := 0);
           P1 = P0(i := 0)
       in if lam i = 0 \<or> obs_L obs i = 0 \<or> obs_P obs i = 0 then (L1, P1, ix0)
          else if testsnr ext (azel 1) (real (unat (obs_SNR obs i)) * 0.25) then (L1, P1, ix0)
          else
            (let L2 = (if obs_L obs i \<noteq> 0
                       then L1(i := obs_L obs i * lam i - dants i - dantr i - phw * lam i) else L1);
                 P2 = (if obs_P obs i \<noteq> 0
                       then P1(i := obs_P obs i - dants i - dantr i) else P1)
             in if sateph opt = EPHOPT_SSRAPC \<or> sateph opt = EPHOPT_SSRCOM then
                  (let ix1 = (if sys = SYS_GPS then (if i = 0 then CODE_L1W h - 1 else CODE_L2W h - 1)
                              else if sys = SYS_GLO then (if i = 0 then CODE_L1P h - 1 else CODE_L2P h - 1)
                              else ix0)
                   in (L2, P2(i := P2 i + (nav_ssr_cbias nav (obs_sat obs - 1) (uint (obs_code obs i) - 1)
                                          - nav_ssr_cbias nav (obs_sat obs - 1) ix1)), ix1))
                else if uint (obs_code obs i) = CODE_L1C h then
                  (L2, P2(i := P2 i + nav_cbias nav (obs_sat obs - 1) 1), ix0)
                else if uint (obs_code obs i) = CODE_L2C h \<or> uint (obs_code obs i) = CODE_L2X h \<or>
                        uint (obs_code obs i) = CODE_L2L h \<or> uint (obs_code obs i) = CODE_L2S h then
                  (L2, P2(i := P2 i + nav_cbias nav (obs_sat obs - 1) 2), ix0)
                else (L2, P2, ix0))))"

text \<open>
  \<^verbatim>\<open>corr_meas\<close>, lines 451-511. The caller's arrays \<^verbatim>\<open>L\<close> and \<^verbatim>\<open>P\<close> have
  \<^verbatim>\<open>NFREQ\<close> entries, all of which the loop writes; the model starts from arrays of
  zeros, so an index beyond \<^verbatim>\<open>NFREQ\<close> reads as an absent measurement. The result is
  \<open>(L, P, Lc, Pc)\<close>.
\<close>

definition corr_meas ::
  "rtklib_h \<Rightarrow> extern_t \<Rightarrow> obsd_t \<Rightarrow> nav_t \<Rightarrow> (nat \<Rightarrow> real) \<Rightarrow> prcopt_t \<Rightarrow> (nat \<Rightarrow> real) \<Rightarrow>
   (nat \<Rightarrow> real) \<Rightarrow> real \<Rightarrow> (nat \<Rightarrow> real) \<times> (nat \<Rightarrow> real) \<times> real \<times> real" where
  "corr_meas h ext obs nav azel opt dantr dants phw =
    (case fold (corr_meas_freq h ext obs nav azel opt dantr dants phw) [0..<NFREQ h]
            (\<lambda>_. 0, \<lambda>_. 0, 0) of
       (L, P, ix) \<Rightarrow>
        (let lam = nav_lam nav (obs_sat obs - 1);
             i = lc_index (satsys ext (obs_sat obs))
         in if lam 0 = 0 \<or> lam i = 0 then (L, P, 0, 0)
            else
              (let C1 = SQR (lam i) / (SQR (lam i) - SQR (lam 0));
                   C2 = - SQR (lam 0) / (SQR (lam i) - SQR (lam 0));
                   Lc = (if L 0 \<noteq> 0 \<and> L i \<noteq> 0 then C1 * L 0 + C2 * L i else 0);
                   Pc = (if P 0 \<noteq> 0 \<and> P i \<noteq> 0 then C1 * P 0 + C2 * P i else 0)
               in (L, P, Lc, Pc))))"

section \<open>Measurement error variance\<close>

text \<open>
  The claim about \<^verbatim>\<open>varerr\<close> compares two results of the same double computation, so
  there the arithmetic of doubles is explicit. The platform is a parameter: \<open>fp_round\<close> maps
  the exact result of an operation to the double that the operation returns, \<open>fp_sin\<close> and
  \<open>fp_pow\<close> are \<^verbatim>\<open>sin\<close> and \<^verbatim>\<open>pow\<close> of the math library. Overflow is not
  modelled; a division by zero makes the result of the function \<open>None\<close> (an infinity or a
  NaN in the source).
\<close>

record fp_t =
  fp_round :: "real \<Rightarrow> real"
  fp_sin :: "real \<Rightarrow> real"
  fp_pow :: "real \<Rightarrow> real \<Rightarrow> real"

text \<open>
  \<^verbatim>\<open>varerr\<close>, lines 387-420. \<^verbatim>\<open>freq\<close> and \<^verbatim>\<open>type\<close> are C ints. Every product,
  quotient, sum and difference of the source is rounded; the products are evaluated from
  left to right, \<^verbatim>\<open>fact * SQR(a) * pow(..)\<close> is \<^verbatim>\<open>(fact * (a * a)) * pow(..)\<close>, and
  the literal \<^verbatim>\<open>0.1\<close> is the double next to 1/10.
\<close>

definition varerr ::
  "fp_t \<Rightarrow> rtklib_h \<Rightarrow> int \<Rightarrow> navsys \<Rightarrow> real \<Rightarrow> real \<Rightarrow> int \<Rightarrow> int \<Rightarrow> prcopt_t \<Rightarrow> real option" where
  "varerr fp h sat sys el snr_rover freq type opt =
    (let rnd = fp_round fp;
         fact0 = (1::real);
         sinel = fp_sin fp el;
         fact1 = (if type = 1 then rnd (fact0 * eratio opt (if freq = 0 then 0 else 1)) else fact0);
         fact2 = (case sys of
                    SYS_GPS \<Rightarrow> rnd (fact1 * EFACT_GPS h)
                  | SYS_GLO \<Rightarrow> rnd (fact1 * EFACT_GLO h)
                  | SYS_SBS \<Rightarrow> rnd (fact1 * EFACT_SBS h)
                  | _ \<Rightarrow> rnd (fact1 * EFACT_GPS h));
         fact3 = (if sys = SYS_GPS \<or> sys = SYS_QZS
                  then (if freq = 2 then rnd (fact2 * EFACT_GPS_L5) else fact2) else fact2);
         a = rnd (fact3 * err opt 1);
         b = rnd (fact3 * err opt 2);
         snr_max = err opt 5;
         fact = (if ionoopt opt = IONOOPT_IFLC then rnd (SQR 3) else 1)
     in case weightmode opt of
          WEIGHTOPT_ELEVATION \<Rightarrow>
            if sinel = 0 then None
            else Some (rnd (fact * rnd (rnd (SQR a) + rnd (SQR (rnd (b / sinel))))))
        | WEIGHTOPT_SNR \<Rightarrow>
            Some (rnd (rnd (fact * rnd (SQR a)) *
                       fp_pow fp 10 (rnd (rnd (1 / 10) * MAX_macro (rnd (snr_max - snr_rover)) 0))))
        | WEIGHTOPT_other _ \<Rightarrow> Some 0)"

text \<open>
  A platform for concrete evaluation: IEEE 754 binary64 with rounding to nearest, ties to
  even, and an unbounded exponent range; \<open>rne\<close> rounds a real to the nearest integer, ties to
  even, and \<open>fl64\<close> rounds to 53 significant bits. Its \<open>sin\<close> and \<open>pow\<close> are correctly
  rounded.
\<close>

definition rne :: "real \<Rightarrow> int" where
  "rne y = (let f = \<lfloor>y\<rfloor>; r = y - of_int f
            in if r < 1 / 2 then f else if r > 1 / 2 then f + 1 else if even f then f else f + 1)"

definition fl64 :: "real \<Rightarrow> real" where
  "fl64 x = (if x = 0 then 0
             else (let q = 2 powr (of_int \<lfloor>log 2 \<bar>x\<bar>\<rfloor> - 52)
                   in sgn x * of_int (rne (\<bar>x\<bar> / q)) * q))"

definition ieee_double :: fp_t where
  "ieee_double = \<lparr> fp_round = fl64, fp_sin = (\<lambda>x. fl64 (sin x)),
                     fp_pow = (\<lambda>x y. fl64 (x powr y)) \<rparr>"

text \<open>An input for concrete evaluation: elevation weighting, unit error terms.\<close>

definition opt_example :: prcopt_t where
  "opt_example = \<lparr> nf = 2, ionoopt = IONOOPT_OFF, tropopt = TROPOPT_OFF, dynamics = 0,
     modear = ARMODE_OFF, sateph = EPHOPT_PREC, maxout = 5,
     eratio = (\<lambda>_. 100), err = (\<lambda>_. 1), prn = (\<lambda>_. 0),
     weightmode = WEIGHTOPT_ELEVATION, posopt = (\<lambda>_. 0), thresslip = 1 / 20 \<rparr>"

text \<open>
  An input for concrete evaluation: SNR weighting with the phase error term
  \<open>1 + 5 / 2\<^sup>2\<^sup>7\<close> (a double) and a maximum SNR of 20 dBHz.
\<close>

definition opt_snr :: prcopt_t where
  "opt_snr = opt_example\<lparr> weightmode := WEIGHTOPT_SNR,
     err := (\<lambda>i. if i = 1 then 134217733 / 134217728 else if i = 5 then 20 else 1) \<rparr>"

text \<open>Inputs for concrete evaluation: a BDS-2 IGSO satellite (C06) with three frequencies.\<close>

definition ext_example :: extern_t where
  "ext_example = \<lparr> satsys = (\<lambda>_. SYS_CMP), testsnr = (\<lambda>_ _. False), satprn = (\<lambda>s. int s) \<rparr>"

definition obs_example :: obsd_t where
  "obs_example = \<lparr> obs_sat = 6, obs_L = (\<lambda>_. 100), obs_P = (\<lambda>_. 20000000),
     obs_SNR = (\<lambda>_. 160), obs_LLI = (\<lambda>_. 0), obs_code = (\<lambda>_. 0) \<rparr>"

definition nav_example :: nav_t where
  "nav_example = \<lparr> nav_lam = (\<lambda>_ f. if f = 0 then 1 / 5 else if f = 1 then 1 / 4 else 3 / 10),
     nav_cbias = (\<lambda>_ _. 0), nav_ssr_cbias = (\<lambda>_ _. 0), nav_pcvs_type = (\<lambda>_. []) \<rparr>"

subsection \<open>Receiver state\<close>

text \<open>
  \<^verbatim>\<open>ssat_t\<close>, the per-satellite status: \<^verbatim>\<open>azel\<close>, the \<^verbatim>\<open>unsigned char\<close> flags
  \<^verbatim>\<open>vs\<close>, \<^verbatim>\<open>vsat[f]\<close> and \<^verbatim>\<open>slip[f]\<close>, the detector flags \<^verbatim>\<open>slipLLI\<close>, \<^verbatim>\<open>slipMW\<close>
  and \<^verbatim>\<open>slipGF\<close>, the \<^verbatim>\<open>unsigned int\<close> outage counter \<^verbatim>\<open>outc[f]\<close>, the previous
  geometry-free value \<^verbatim>\<open>gf\<close>, and the Melbourne-Wubbena statistics \<^verbatim>\<open>mw\<close>,
  \<^verbatim>\<open>mwmean\<close>, \<^verbatim>\<open>mwmean2\<close> and \<^verbatim>\<open>mwarc\<close>.
\<close>

record ssat_t =
  ssat_azel :: "nat \<Rightarrow> real"
  vs :: "8 word"
  vsat :: "nat \<Rightarrow> 8 word"
  slip :: "nat \<Rightarrow> 8 word"
  slipLLI :: "nat \<Rightarrow> int"
  slipMW :: "nat \<Rightarrow> int"
  slipGF :: "nat \<Rightarrow> int"
  outc :: "nat \<Rightarrow> 32 word"
  gf :: real
  mw :: real
  mwmean :: real
  mwmean2 :: real
  mwarc :: int

text \<open>
  \<^verbatim>\<open>sol_t\<close>: the status, the position \<^verbatim>\<open>rr\<close>, and the GPS week and time of week that
  \<^verbatim>\<open>time2gpst(sol.time,&week)\<close> returns.
\<close>

record sol_t =
  sol_stat :: solq_t
  sol_rr :: "nat \<Rightarrow> real"
  sol_week :: int
  sol_tow :: real

text \<open>
  \<^verbatim>\<open>rtk_t\<close>: float states \<^verbatim>\<open>x\<close>, \<^verbatim>\<open>P\<close> and fixed states \<^verbatim>\<open>xa\<close>, \<^verbatim>\<open>Pa\<close> (flat,
  \<^verbatim>\<open>nx\<close> by \<^verbatim>\<open>nx\<close>), the time step \<^verbatim>\<open>tt\<close>, the options, the satellite status
  \<^verbatim>\<open>ssat[sat-1]\<close> and the ambiguity flags \<^verbatim>\<open>ambc[sat-1].flags[k]\<close>.
\<close>

record rtk_t =
  rtk_sol :: sol_t
  rtk_x :: "nat \<Rightarrow> real"
  rtk_P :: "nat \<Rightarrow> real"
  rtk_xa :: "nat \<Rightarrow> real"
  rtk_Pa :: "nat \<Rightarrow> real"
  rtk_nx :: nat
  rtk_tt :: real
  rtk_opt :: prcopt_t
  rtk_ssat :: "nat \<Rightarrow> ssat_t"
  rtk_ambc_flags :: "nat \<Rightarrow> nat \<Rightarrow> 8 word"

section \<open>Cycle-slip detectors\<close>

definition THRES_MW_JUMP :: real where
  "THRES_MW_JUMP = 10"

definition MWGAPMAX :: real where
  "MWGAPMAX = 5"

definition MWARCMAX :: real where
  "MWARCMAX = 100"

definition MWCSMIN :: real where
  "MWCSMIN = 0.8"

text \<open>The loops \<^verbatim>\<open>for (j=0;j<nf;j++) a[j]=...\<close> over one array.\<close>

definition for_freq :: "int \<Rightarrow> (nat \<Rightarrow> 'a \<Rightarrow> 'a) \<Rightarrow> 'a \<Rightarrow> 'a" where
  "for_freq nfreq body st = fold body [0..<nat nfreq] st"

text \<open>
  The body of the loop of \<^verbatim>\<open>detslp_ll\<close> (lines 521-534) on the status of the
  observed satellite.
\<close>

definition detslp_ll_sat :: "int \<Rightarrow> obsd_t \<Rightarrow> ssat_t \<Rightarrow> ssat_t" where
  "detslp_ll_sat nfreq ob st =
     for_freq nfreq
       (\<lambda>j s. if obs_L ob j = 0 \<or> obs_LLI ob j AND 3 = 0 then s
               else s\<lparr>slip := (slip s)(j := 1), slipLLI := (slipLLI s)(j := 1)\<rparr>) st"

definition on_ssat :: "nat \<Rightarrow> (ssat_t \<Rightarrow> ssat_t) \<Rightarrow> rtk_t \<Rightarrow> rtk_t" where
  "on_ssat s f rtk = rtk\<lparr>rtk_ssat := (rtk_ssat rtk)(s := f (rtk_ssat rtk s))\<rparr>"

text \<open>The observations are \<^verbatim>\<open>obs[0..n-1]\<close>; the detectors read at most \<^verbatim>\<open>MAXOBS\<close>.\<close>

definition obs_range :: "rtklib_h \<Rightarrow> int \<Rightarrow> nat list" where
  "obs_range h n = [0..<min (nat n) (MAXOBS h)]"

definition detslp_ll :: "rtklib_h \<Rightarrow> rtk_t \<Rightarrow> (nat \<Rightarrow> obsd_t) \<Rightarrow> int \<Rightarrow> rtk_t" where
  "detslp_ll h rtk obs n =
     fold (\<lambda>i r. on_ssat (obs_sat (obs i) - 1) (detslp_ll_sat (nf (rtk_opt r)) (obs i)) r)
       (obs_range h n) rtk"

text \<open>\<^verbatim>\<open>detslp_gf\<close>, lines 537-568: the loop body, given \<^verbatim>\<open>g1 = gfmeas(obs+i,nav)\<close>.\<close>

definition detslp_gf_sat :: "int \<Rightarrow> real \<Rightarrow> real \<Rightarrow> ssat_t \<Rightarrow> ssat_t" where
  "detslp_gf_sat nfreq thres g1 st =
    (if g1 = 0 then st
     else
       (let g0 = gf st;
            st1 = st\<lparr>gf := g1\<rparr>
        in if g0 \<noteq> 0 \<and> \<bar>g1 - g0\<bar> > thres
           then for_freq nfreq
                  (\<lambda>j s. s\<lparr>slip := (slip s)(j := slip s j OR 1), slipGF := (slipGF s)(j := 1)\<rparr>) st1
           else st1))"

definition detslp_gf :: "rtklib_h \<Rightarrow> extern_t \<Rightarrow> rtk_t \<Rightarrow> (nat \<Rightarrow> obsd_t) \<Rightarrow> int \<Rightarrow> nav_t \<Rightarrow> rtk_t" where
  "detslp_gf h ext rtk obs n nav =
     fold (\<lambda>i r. on_ssat (obs_sat (obs i) - 1)
                    (detslp_gf_sat (nf (rtk_opt r)) (thresslip (rtk_opt r)) (gfmeas ext (obs i) nav)) r)
       (obs_range h n) rtk"

text \<open>
  The three places of \<^verbatim>\<open>detslp_mw\<close> that restart the statistics:
  \<^verbatim>\<open>mwmean = mw1; mwmean2 = lamW/2; mwarc = 1\<close>.
\<close>

definition mw_reset :: "real \<Rightarrow> real \<Rightarrow> ssat_t \<Rightarrow> ssat_t" where
  "mw_reset lamW mw1 st = st\<lparr>mwmean := mw1, mwmean2 := lamW / 2, mwarc := 1\<rparr>"

text \<open>Lines 611-614 and 633-636: \<^verbatim>\<open>slip[j] |= 1; slipMW[j] = 1\<close> for every \<^verbatim>\<open>j < nf\<close>.\<close>

definition mw_mark :: "int \<Rightarrow> ssat_t \<Rightarrow> ssat_t" where
  "mw_mark nfreq st =
     for_freq nfreq
       (\<lambda>j s. s\<lparr>slip := (slip s)(j := slip s j OR 1), slipMW := (slipMW s)(j := 1)\<rparr>) st"

text \<open>
  The body of the loop of \<^verbatim>\<open>detslp_mw\<close> (lines 585-651) on the status of the observed
  satellite, given \<^verbatim>\<open>mw1 = mwmeas(obs+i,nav)\<close>. \<^verbatim>\<open>arclength\<close> is an int that is
  compared with, and assigned from, the double \<^verbatim>\<open>MWARCMAX\<close>.
\<close>

definition detslp_mw_sat :: "int \<Rightarrow> real \<Rightarrow> real \<Rightarrow> ssat_t \<Rightarrow> ssat_t" where
  "detslp_mw_sat nfreq lamW mw1 st =
    (if mw1 = 0 then st
     else
       (let mw0 = mw st;
            st1 = st\<lparr>mw := mw1\<rparr>
        in if mwarc st1 = 0 \<or> mw0 = 0 then mw_reset lamW mw1 st1
           else if slip st1 0 = 1 \<or> slip st1 1 = 1 then
             mw_reset lamW mw1
               (for_freq nfreq (\<lambda>j s. s\<lparr>slip := (slip s)(j := slip s j OR 1)\<rparr>) st1)
           else if \<bar>mw1 - mw0\<bar> > MWGAPMAX then mw_reset lamW mw1 (mw_mark nfreq st1)
           else
             (let mwmean_v = mwmean st1;
                  mwmean2_v = mwmean2 st1;
                  mwdiff = mw1 - mwmean_v;
                  mwdiffThres = MIN_macro MWGAPMAX (MAX_macro (4 * sqrt mwmean2_v) MWCSMIN)
              in if mwarc st1 \<ge> 4 \<and> \<bar>mwdiff\<bar> > mwdiffThres
                 then mw_reset lamW mw1 (mw_mark nfreq st1)
                 else
                   (let arclength0 = mwarc st1 + 1;
                        arclength = (if real_of_int arclength0 \<ge> MWARCMAX
                                     then int_cast MWARCMAX else arclength0)
                    in st1\<lparr>mwmean := (real_of_int (arclength - 1) * mwmean_v + mw1)
                                        / real_of_int arclength,
                           mwmean2 := (real_of_int (arclength - 1) * mwmean2_v
                                         + (mw1 - mwmean_v) * (mw1 - mwmean_v))
                                        / real_of_int arclength,
                           mwarc := arclength\<rparr>))))"

text \<open>
  \<^verbatim>\<open>detslp_mw\<close>, lines 570-652. The wide-lane wavelength is that of the first
  satellite, \<^verbatim>\<open>nav->lam[0]\<close>.
\<close>

definition detslp_mw :: "rtklib_h \<Rightarrow> extern_t \<Rightarrow> rtk_t \<Rightarrow> (nat \<Rightarrow> obsd_t) \<Rightarrow> int \<Rightarrow> nav_t \<Rightarrow> rtk_t" where
  "detslp_mw h ext rtk obs n nav =
    (let lam = nav_lam nav 0;
         lamW = lam 0 * lam 1 / (lam 1 - lam 0)
     in fold (\<lambda>i r. on_ssat (obs_sat (obs i) - 1)
                       (detslp_mw_sat (nf (rtk_opt r)) lamW (mwmeas ext (obs i) nav)) r)
          (obs_range h n) rtk)"

text \<open>
  The wide-lane wavelength of line 582, \<^verbatim>\<open>lam[0]*lam[1]/(lam[1]-lam[0])\<close> with
  \<^verbatim>\<open>lam = nav->lam[0]\<close>, the wavelengths of satellite 1.
\<close>

definition wide_lane :: "nav_t \<Rightarrow> real" where
  "wide_lane nav = nav_lam nav 0 0 * nav_lam nav 0 1 / (nav_lam nav 0 1 - nav_lam nav 0 0)"

text \<open>A satellite status for concrete evaluation: an arc of 10 epochs around 3 m.\<close>

definition ssat_example :: ssat_t where
  "ssat_example = \<lparr> ssat_azel = (\<lambda>_. pi / 4), vs = 1, vsat = (\<lambda>_. 1), slip = (\<lambda>_. 0),
     slipLLI = (\<lambda>_. 0), slipMW = (\<lambda>_. 0), slipGF = (\<lambda>_. 0), outc = (\<lambda>_. 0),
     gf = 1, mw = 3, mwmean = 3, mwmean2 = 1 / 100, mwarc = 10 \<rparr>"

text \<open>
  Inputs for concrete evaluation: a GPS receiver environment, and an observation of
  satellite 1 whose Melbourne-Wubbena combination is \<open>v\<close> with the wavelengths of
  \<open>nav_example\<close>.
\<close>

definition ext_gps :: extern_t where
  "ext_gps = \<lparr> satsys = (\<lambda>_. SYS_GPS), testsnr = (\<lambda>_ _. False), satprn = (\<lambda>s. int s) \<rparr>"

definition obs_mw :: "real \<Rightarrow> obsd_t" where
  "obs_mw v = \<lparr> obs_sat = 1, obs_L = (\<lambda>f. if f = 0 then 30 + v else 10), obs_P = (\<lambda>_. 20),
     obs_SNR = (\<lambda>_. 160), obs_LLI = (\<lambda>_. 0), obs_code = (\<lambda>_. 0) \<rparr>"

section \<open>Eclipse test\<close>

text \<open>
  Modelled from the spec: \<^verbatim>\<open>dot\<close>, \<^verbatim>\<open>norm\<close> and \<^verbatim>\<open>normv3\<close> are functions of
  \<^verbatim>\<open>rtkcmn.c\<close>, which is not among the sources: the inner product and the Euclidean
  norm of the first \<open>n\<close> components (the spec writes \<open>r = \<parallel>rs - rr\<parallel>\<close>), and the
  normalisation of a 3-vector, which leaves its output untouched and returns 0 when the
  norm is not positive.
\<close>

definition dot :: "(nat \<Rightarrow> real) \<Rightarrow> (nat \<Rightarrow> real) \<Rightarrow> nat \<Rightarrow> real" where
  "dot a b n = sum_list (map (\<lambda>i. a i * b i) [0..<n])"

definition norm_v :: "(nat \<Rightarrow> real) \<Rightarrow> nat \<Rightarrow> real" where
  "norm_v a n = sqrt (dot a a n)"

definition normv3 :: "(nat \<Rightarrow> real) \<Rightarrow> (nat \<Rightarrow> real) \<Rightarrow> int \<times> (nat \<Rightarrow> real)" where
  "normv3 a b =
    (let r = norm_v a 3
     in if r \<le> 0 then (0, b) else (1, (\<lambda>i. if i < 3 then a i / r else b i)))"

text \<open>\<^verbatim>\<open>strstr(s,t)\<close> as a truth value: \<open>t\<close> occurs in \<open>s\<close>.\<close>

fun strstr :: "string \<Rightarrow> string \<Rightarrow> bool" where
  "strstr [] t = (t = [])"
| "strstr (c # s) t = (prefix t (c # s) \<or> strstr s t)"

text \<open>
  The body of the loop of \<^verbatim>\<open>testeclipse\<close> (lines 235-255) for observation \<open>i\<close>;
  \<^verbatim>\<open>rs+i*6\<close> is the row of satellite \<open>i\<close> (position, then velocity).
\<close>

definition testeclipse_sat ::
  "rtklib_h \<Rightarrow> (nat \<Rightarrow> obsd_t) \<Rightarrow> nav_t \<Rightarrow> (nat \<Rightarrow> real) \<Rightarrow> nat \<Rightarrow> (nat \<Rightarrow> real) \<Rightarrow> (nat \<Rightarrow> real)" where
  "testeclipse_sat h obs nav esun i rs =
    (let type = nav_pcvs_type nav (obs_sat (obs i) - 1);
         r = norm_v (\<lambda>j. rs (j + i * 6)) 3
     in if r \<le> 0 then rs
        else if type \<noteq> [] \<and> \<not> strstr type ''BLOCK IIA'' then rs
        else
          (let cosa0 = dot (\<lambda>j. rs (j + i * 6)) esun 3 / r;
               cosa = (if cosa0 < - 1 then - 1 else if cosa0 > 1 then 1 else cosa0);
               ang = arccos cosa
           in if ang < PI h / 2 \<or> r * sin ang > RE_WGS84 h then rs
              else fold (\<lambda>j a. a(j + i * 6 := 0)) [0, 1, 2] rs))"

text \<open>
  \<^verbatim>\<open>testeclipse\<close>, lines 223-256. \<open>rsun\<close> is the sun position that \<^verbatim>\<open>sunmoonpos\<close>
  returns; \<open>esun0\<close> is the content of the local array \<^verbatim>\<open>esun\<close> before \<^verbatim>\<open>normv3\<close>
  writes it.
\<close>

definition testeclipse ::
  "rtklib_h \<Rightarrow> (nat \<Rightarrow> obsd_t) \<Rightarrow> int \<Rightarrow> nav_t \<Rightarrow> (nat \<Rightarrow> real) \<Rightarrow> (nat \<Rightarrow> real) \<Rightarrow> (nat \<Rightarrow> real) \<Rightarrow>
   (nat \<Rightarrow> real)" where
  "testeclipse h obs n nav rs rsun esun0 =
    (let esun = snd (normv3 rsun esun0)
     in fold (testeclipse_sat h obs nav esun) [0..<nat n] rs)"

text \<open>
  The condition under which the loop body zeroes the position of observation \<open>i\<close>, read
  off the three \<^verbatim>\<open>continue\<close> statements.
\<close>

definition eclipse_excluded ::
  "rtklib_h \<Rightarrow> (nat \<Rightarrow> obsd_t) \<Rightarrow> nav_t \<Rightarrow> (nat \<Rightarrow> real) \<Rightarrow> (nat \<Rightarrow> real) \<Rightarrow> nat \<Rightarrow> bool" where
  "eclipse_excluded h obs nav esun rs i =
    (let type = nav_pcvs_type nav (obs_sat (obs i) - 1);
         r = norm_v (\<lambda>j. rs (j + i * 6)) 3;
         cosa0 = dot (\<lambda>j. rs (j + i * 6)) esun 3 / r;
         ang = arccos (if cosa0 < - 1 then - 1 else if cosa0 > 1 then 1 else cosa0)
     in r > 0 \<and> (type = [] \<or> strstr type ''BLOCK IIA'') \<and>
        \<not> (ang < PI h / 2 \<or> r * sin ang > RE_WGS84 h))"

text \<open>
  Inputs for concrete evaluation: one satellite on the far side of the earth from the
  sun, and navigation data with an empty and with a Block IIR antenna type.
\<close>

definition rs_example :: "nat \<Rightarrow> real" where
  "rs_example = (\<lambda>j. if j = 0 then - 26000000 else 0)"

definition rsun_example :: "nat \<Rightarrow> real" where
  "rsun_example = (\<lambda>j. if j = 0 then 149597870700 else 0)"

definition nav_iia :: nav_t where
  "nav_iia = nav_example\<lparr>nav_pcvs_type := (\<lambda>_. ''BLOCK IIA'')\<rparr>"

definition nav_iir :: nav_t where
  "nav_iir = nav_example\<lparr>nav_pcvs_type := (\<lambda>_. ''BLOCK IIR-M'')\<rparr>"

section \<open>State indices\<close>

text \<open>
  The macros \<^verbatim>\<open>NF\<close> ... \<^verbatim>\<open>IB\<close> of lines 106-119. \<^verbatim>\<open>NT\<close> compares \<^verbatim>\<open>tropopt\<close> with
  \<^verbatim>\<open>TROPOPT_EST\<close> by order; the order of the options is that of their declaration.
\<close>

fun tropopt_rank :: "tropopt_t \<Rightarrow> nat" where
  "tropopt_rank TROPOPT_OFF = 0"
| "tropopt_rank TROPOPT_SAAS = 1"
| "tropopt_rank TROPOPT_SBAS = 2"
| "tropopt_rank TROPOPT_EST = 3"
| "tropopt_rank TROPOPT_ESTG = 4"
| "tropopt_rank TROPOPT_ZTD = 5"

definition NF :: "prcopt_t \<Rightarrow> int" where
  "NF opt = (if ionoopt opt = IONOOPT_IFLC then 1 else nf opt)"

definition NP :: "prcopt_t \<Rightarrow> nat" where
  "NP opt = (if dynamics opt \<noteq> 0 then 9 else 3)"

definition NC :: "rtklib_h \<Rightarrow> prcopt_t \<Rightarrow> nat" where
  "NC h opt = NSYS h"

definition NT :: "prcopt_t \<Rightarrow> nat" where
  "NT opt = (if tropopt_rank (tropopt opt) < tropopt_rank TROPOPT_EST then 0
             else if tropopt opt = TROPOPT_EST then 1 else 3)"

definition NI :: "rtklib_h \<Rightarrow> prcopt_t \<Rightarrow> nat" where
  "NI h opt = (if ionoopt opt = IONOOPT_EST then MAXSAT h else 0)"

definition ND :: "prcopt_t \<Rightarrow> nat" where
  "ND opt = (if nf opt \<ge> 3 then 1 else 0)"

definition NR :: "rtklib_h \<Rightarrow> prcopt_t \<Rightarrow> nat" where
  "NR h opt = NP opt + NC h opt + NT opt + NI h opt + ND opt"

definition NB :: "rtklib_h \<Rightarrow> prcopt_t \<Rightarrow> nat" where
  "NB h opt = nat (NF opt) * MAXSAT h"

definition NX :: "rtklib_h \<Rightarrow> prcopt_t \<Rightarrow> nat" where
  "NX h opt = NR h opt + NB h opt"

definition IC :: "nat \<Rightarrow> prcopt_t \<Rightarrow> nat" where
  "IC s opt = NP opt + s"

definition IT :: "rtklib_h \<Rightarrow> prcopt_t \<Rightarrow> nat" where
  "IT h opt = NP opt + NC h opt"

definition II :: "rtklib_h \<Rightarrow> nat \<Rightarrow> prcopt_t \<Rightarrow> nat" where
  "II h s opt = NP opt + NC h opt + NT opt + s - 1"

definition ID :: "rtklib_h \<Rightarrow> prcopt_t \<Rightarrow> nat" where
  "ID h opt = NP opt + NC h opt + NT opt + NI h opt"

definition IB :: "rtklib_h \<Rightarrow> nat \<Rightarrow> nat \<Rightarrow> prcopt_t \<Rightarrow> nat" where
  "IB h s f opt = NR h opt + MAXSAT h * f + s - 1"

section \<open>Solution status output\<close>

text \<open>
  The arguments of a \<^verbatim>\<open>sprintf\<close> call: an int, a double, a string, or the solution
  status (printed with \<^verbatim>\<open>%d\<close>).
\<close>

datatype fmt_arg = A_int int | A_dbl real | A_str string | A_stat solq_t

text \<open>
  The library functions \<^verbatim>\<open>pppoutstat\<close> calls: \<^verbatim>\<open>sprintf\<close> as the text it produces
  from a format and its arguments (its return value is the length of that text),
  \<^verbatim>\<open>satno2id\<close>, \<^verbatim>\<open>ecef2pos\<close> and \<^verbatim>\<open>ecef2enu\<close>.
\<close>

record libs_t =
  sprintf :: "string \<Rightarrow> fmt_arg list \<Rightarrow> string"
  satno2id :: "nat \<Rightarrow> string"
  ecef2pos :: "(nat \<Rightarrow> real) \<Rightarrow> (nat \<Rightarrow> real)"
  ecef2enu :: "(nat \<Rightarrow> real) \<Rightarrow> (nat \<Rightarrow> real) \<Rightarrow> (nat \<Rightarrow> real)"

text \<open>\<^verbatim>\<open>STD\<close>, lines 132-136.\<close>

definition STD :: "rtk_t \<Rightarrow> nat \<Rightarrow> real" where
  "STD rtk i =
    (if sol_stat (rtk_sol rtk) = SOLQ_FIX then SQRT (rtk_Pa rtk (i + i * rtk_nx rtk))
     else SQRT (rtk_P rtk (i + i * rtk_nx rtk)))"

text \<open>
  \<^verbatim>\<open>p+=sprintf(p,fmt,...)\<close>: the text written so far grows by the output, and the
  offset \<^verbatim>\<open>p-buff\<close> by its length.
\<close>

definition emit :: "libs_t \<Rightarrow> string \<Rightarrow> fmt_arg list \<Rightarrow> string \<times> int \<Rightarrow> string \<times> int" where
  "emit lb fmt args st =
    (case st of (text, p) \<Rightarrow>
       (text @ sprintf lb fmt args, p + int (length (sprintf lb fmt args))))"

definition nl :: string where
  "nl = [CHR 0x0A]"

text \<open>Line 151: \<^verbatim>\<open>x=rtk->sol.stat==SOLQ_FIX?rtk->xa:rtk->x\<close>.\<close>

definition outstat_x :: "rtk_t \<Rightarrow> nat \<Rightarrow> real" where
  "outstat_x rtk = (if sol_stat (rtk_sol rtk) = SOLQ_FIX then rtk_xa rtk else rtk_x rtk)"

text \<open>
  The fields every record starts with: \<^verbatim>\<open>week\<close>, \<^verbatim>\<open>tow\<close> (from \<^verbatim>\<open>time2gpst\<close>) and
  \<^verbatim>\<open>rtk->sol.stat\<close>.
\<close>

definition outstat_head :: "rtk_t \<Rightarrow> fmt_arg list" where
  "outstat_head rtk =
     [A_int (sol_week (rtk_sol rtk)), A_dbl (sol_tow (rtk_sol rtk)), A_stat (sol_stat (rtk_sol rtk))]"

text \<open>Lines 153-155, the receiver position.\<close>

definition outstat_pos :: "libs_t \<Rightarrow> rtk_t \<Rightarrow> string \<times> int \<Rightarrow> string \<times> int" where
  "outstat_pos lb rtk st =
     emit lb (''$POS,%d,%.3f,%d,%.4f,%.4f,%.4f,%.4f,%.4f,%.4f'' @ nl)
       (outstat_head rtk @
        [A_dbl (outstat_x rtk 0), A_dbl (outstat_x rtk 1), A_dbl (outstat_x rtk 2),
         A_dbl (STD rtk 0), A_dbl (STD rtk 1), A_dbl (STD rtk 2)]) st"

text \<open>Lines 157-165, velocity and acceleration, read from the float state \<^verbatim>\<open>rtk->x\<close>.\<close>

definition outstat_velacc :: "libs_t \<Rightarrow> rtk_t \<Rightarrow> string \<times> int \<Rightarrow> string \<times> int" where
  "outstat_velacc lb rtk st =
    (if dynamics (rtk_opt rtk) \<noteq> 0 then
       (let pos = ecef2pos lb (sol_rr (rtk_sol rtk));
            vel = ecef2enu lb pos (\<lambda>i. rtk_x rtk (i + 3));
            acc = ecef2enu lb pos (\<lambda>i. rtk_x rtk (i + 6))
        in emit lb (''$VELACC,%d,%.3f,%d,%.4f,%.4f,%.4f,%.5f,%.5f,%.5f,%.4f,%.4f,''
                    @ ''%.4f,%.5f,%.5f,%.5f'' @ nl)
             (outstat_head rtk @
              [A_dbl (vel 0), A_dbl (vel 1), A_dbl (vel 2), A_dbl (acc 0), A_dbl (acc 1), A_dbl (acc 2),
               A_dbl 0, A_dbl 0, A_dbl 0, A_dbl 0, A_dbl 0, A_dbl 0]) st)
     else st)"

text \<open>Lines 166-172, the receiver clocks.\<close>

definition outstat_clk :: "rtklib_h \<Rightarrow> libs_t \<Rightarrow> rtk_t \<Rightarrow> string \<times> int \<Rightarrow> string \<times> int" where
  "outstat_clk h lb rtk st =
    (let i = IC 0 (rtk_opt rtk);
         xs = outstat_x rtk
     in emit lb (''$CLK,%d,%.3f,%d,%d,%.3f,%.3f,%.3f,%.3f,%.3f,%.3f,%.3f,%.3f'' @ nl)
          (outstat_head rtk @
           [A_int 1, A_dbl (xs i * 1000000000 / CLIGHT h), A_dbl (xs (i + 1) * 1000000000 / CLIGHT h),
            A_dbl (xs (i + 2) * 1000000000 / CLIGHT h), A_dbl (xs (i + 3) * 1000000000 / CLIGHT h),
            A_dbl (STD rtk i * 1000000000 / CLIGHT h), A_dbl (STD rtk (i + 1) * 1000000000 / CLIGHT h),
            A_dbl (STD rtk (i + 2) * 1000000000 / CLIGHT h),
            A_dbl (STD rtk (i + 3) * 1000000000 / CLIGHT h)]) st)"

text \<open>Lines 174-184, the tropospheric parameters.\<close>

definition outstat_trop :: "rtklib_h \<Rightarrow> libs_t \<Rightarrow> rtk_t \<Rightarrow> string \<times> int \<Rightarrow> string \<times> int" where
  "outstat_trop h lb rtk st =
    (let opt = rtk_opt rtk;
         xs = outstat_x rtk;
         i = IT h opt;
         st1 = (if tropopt opt = TROPOPT_EST \<or> tropopt opt = TROPOPT_ESTG then
                  emit lb (''$TROP,%d,%.3f,%d,%d,%.4f,%.4f'' @ nl)
                    (outstat_head rtk @ [A_int 1, A_dbl (xs i), A_dbl (STD rtk i)]) st
                else st)
     in if tropopt opt = TROPOPT_ESTG then
          emit lb (''$TRPG,%d,%.3f,%d,%d,%.5f,%.5f,%.5f,%.5f'' @ nl)
            (outstat_head rtk @
             [A_int 1, A_dbl (xs (i + 1)), A_dbl (xs (i + 2)), A_dbl (STD rtk (i + 1)), A_dbl (STD rtk (i + 2))]) st1
        else st1)"

text \<open>The body of the loop of lines 187-198 (\<^verbatim>\<open>$ION\<close> records).\<close>

definition outstat_ion :: "rtklib_h \<Rightarrow> libs_t \<Rightarrow> rtk_t \<Rightarrow> nat \<Rightarrow> string \<times> int \<Rightarrow> string \<times> int" where
  "outstat_ion h lb rtk i st =
    (let ssat = rtk_ssat rtk i
     in if vsat ssat 0 \<noteq> 0 \<and> vs ssat \<noteq> 0 then
          (let j = II h (i + 1) (rtk_opt rtk)
           in if rtk_x rtk j = 0 then st
              else emit lb (''$ION,%d,%.3f,%d,%s,%.1f,%.1f,%.4f,%.4f'' @ nl)
                     (outstat_head rtk @
                      [A_str (satno2id lb (i + 1)),
                       A_dbl (ssat_azel (rtk_ssat rtk i) 0 * R2D h),
                       A_dbl (ssat_azel (rtk_ssat rtk i) 1 * R2D h),
                       A_dbl (outstat_x rtk j), A_dbl (STD rtk j)]) st)
        else st)"

text \<open>Lines 200-202, the receiver DCB.\<close>

definition outstat_dcb :: "rtklib_h \<Rightarrow> libs_t \<Rightarrow> rtk_t \<Rightarrow> string \<times> int \<Rightarrow> string \<times> int" where
  "outstat_dcb h lb rtk st =
    (let j = ID h (rtk_opt rtk)
     in emit lb (''$DCB,%5d,%10.3f,%d,%d,%8.4f,%8.4f'' @ nl)
          (outstat_head rtk @ [A_int 1, A_dbl (outstat_x rtk j), A_dbl (STD rtk j)]) st)"

text \<open>The body of the loops of lines 206-218 (\<^verbatim>\<open>$AMB\<close> records) for satellite \<open>i + 1\<close>.\<close>

definition outstat_amb :: "rtklib_h \<Rightarrow> libs_t \<Rightarrow> rtk_t \<Rightarrow> nat \<Rightarrow> string \<times> int \<Rightarrow> string \<times> int" where
  "outstat_amb h lb rtk i st =
    fold (\<lambda>j s.
            (let k = IB h (i + 1) j (rtk_opt rtk)
             in if vsat (rtk_ssat rtk i) 0 \<noteq> 0 \<and> vs (rtk_ssat rtk i) \<noteq> 0 then
                  emit lb (''$AMB,%d,%.3f,%d,%s,%d,%.4f,%.4f'' @ nl)
                    (outstat_head rtk @
                     [A_str (satno2id lb (i + 1)), A_int (int j + 1), A_dbl (outstat_x rtk k), A_dbl (STD rtk k)]) s
                else s))
      [0..<nat (NF (rtk_opt rtk))] st"

text \<open>
  \<^verbatim>\<open>pppoutstat\<close>, lines 138-221, from the content of the buffer before the call to its
  content after the call and the return value. The records are written one after the
  other from the start of the buffer.
\<close>

definition pppoutstat :: "rtklib_h \<Rightarrow> libs_t \<Rightarrow> rtk_t \<Rightarrow> string \<Rightarrow> string \<times> int" where
  "pppoutstat h lb rtk buff =
    (if sol_stat (rtk_sol rtk) = SOLQ_NONE then (buff, 0)
     else
       (fold (outstat_amb h lb rtk) [0..<MAXSAT h] \<circ>
        outstat_dcb h lb rtk \<circ>
        (if ionoopt (rtk_opt rtk) = IONOOPT_EST
         then fold (outstat_ion h lb rtk) [0..<MAXSAT h] else id) \<circ>
        outstat_trop h lb rtk \<circ>
        outstat_clk h lb rtk \<circ>
        outstat_velacc lb rtk \<circ>
        outstat_pos lb rtk) ([], 0))"

text \<open>
  Inputs for concrete evaluation: a header with two satellite slots, formats echoed as
  the output text, and a receiver state with a fixed solution.
\<close>

definition rtklib_h_small :: rtklib_h where
  "rtklib_h_small = rtklib_h_std\<lparr>MAXSAT := 2\<rparr>"

definition libs_example :: libs_t where
  "libs_example = \<lparr> sprintf = (\<lambda>fmt args. fmt), satno2id = (\<lambda>s. ''G01''),
     ecef2pos = (\<lambda>r. r), ecef2enu = (\<lambda>p v. v) \<rparr>"

definition rtk_example :: rtk_t where
  "rtk_example = \<lparr> rtk_sol = \<lparr> sol_stat = SOLQ_FIX, sol_rr = (\<lambda>_. 0), sol_week = 2100,
                                sol_tow = 86400 \<rparr>,
     rtk_x = (\<lambda>_. 1), rtk_P = (\<lambda>_. 4), rtk_xa = (\<lambda>_. 2), rtk_Pa = (\<lambda>_. 9), rtk_nx = 11,
     rtk_tt = 30, rtk_opt = opt_example, rtk_ssat = (\<lambda>_. ssat_example),
     rtk_ambc_flags = (\<lambda>_ _. 0) \<rparr>"

section \<open>Time update of the phase biases\<close>

definition VAR_BIAS :: real where
  "VAR_BIAS = SQR 60"

text \<open>
  \<^verbatim>\<open>initx\<close>, lines 422-429: the state \<open>i\<close> gets the value \<open>xi\<close>, and row and column
  \<open>i\<close> of \<open>P\<close> are cleared but for the diagonal, which gets \<open>var\<close>.
\<close>

definition initx :: "rtk_t \<Rightarrow> real \<Rightarrow> real \<Rightarrow> nat \<Rightarrow> rtk_t" where
  "initx rtk xi var i =
     rtk\<lparr>rtk_x := (rtk_x rtk)(i := xi),
         rtk_P := fold (\<lambda>j Pm. Pm(j + i * rtk_nx rtk := (if i = j then var else 0),
                                   i + j * rtk_nx rtk := (if i = j then var else 0)))
                    [0..<rtk_nx rtk] (rtk_P rtk)\<rparr>"

text \<open>\<^verbatim>\<open>CausedByOneSat\<close>, lines 833-847; \<^verbatim>\<open>2*sum/n\<close> divides by the int \<open>n\<close>.\<close>

definition CausedByOneSat :: "(nat \<Rightarrow> real) \<Rightarrow> int \<Rightarrow> int" where
  "CausedByOneSat a n =
    (case fold (\<lambda>i st. case st of (mx, sm) \<Rightarrow> ((if a i > mx then a i else mx), sm + a i))
            [0..<nat n] (a 0, a 0) of
       (mx, sm) \<Rightarrow> if mx > 2 * sm / real_of_int n then 0 else 1)"

text \<open>The C remainder \<^verbatim>\<open>a % b\<close> of two ints truncates towards zero.\<close>

definition c_rem :: "int \<Rightarrow> int \<Rightarrow> int" where
  "c_rem a b = sgn a * (\<bar>a\<bar> mod \<bar>b\<bar>)"

text \<open>
  The local arrays of \<^verbatim>\<open>udbias_ppp\<close> that live across the frequencies:
  \<^verbatim>\<open>bias[MAXOBS]\<close>, \<^verbatim>\<open>offset\<close>, \<^verbatim>\<open>offseti[MAXOBS]\<close> and \<^verbatim>\<open>slip[MAXOBS]\<close>.
\<close>

record udb_t =
  ub_bias :: "nat \<Rightarrow> real"
  ub_offset :: real
  ub_offseti :: "nat \<Rightarrow> real"
  ub_slip :: "nat \<Rightarrow> int"

text \<open>
  Lines 882-887, the reset of the biases of frequency \<open>f\<close>: the outage counter of every
  satellite is incremented, then compared with \<^verbatim>\<open>(unsigned int)maxout\<close>.
\<close>

definition udbias_reset_sat :: "rtklib_h \<Rightarrow> bool \<Rightarrow> nat \<Rightarrow> nat \<Rightarrow> rtk_t \<Rightarrow> rtk_t" where
  "udbias_reset_sat h clk_jump f i r =
    (let r1 = on_ssat i (\<lambda>s. s\<lparr>outc := (outc s)(f := outc s f + 1)\<rparr>) r
     in if outc (rtk_ssat r1 i) f > word_of_int (maxout (rtk_opt r1)) \<or>
           modear (rtk_opt r1) = ARMODE_INST \<or> clk_jump
        then initx r1 0 0 (IB h (i + 1) f (rtk_opt r1))
        else r1)"

definition udbias_reset :: "rtklib_h \<Rightarrow> bool \<Rightarrow> nat \<Rightarrow> rtk_t \<Rightarrow> rtk_t" where
  "udbias_reset h clk_jump f rtk = fold (udbias_reset_sat h clk_jump f) [0..<MAXSAT h] rtk"

text \<open>
  Lines 889-909 for one observation, given the options and the status \<open>ss\<close> of its
  satellite (\<^verbatim>\<open>rtk->ssat[sat-1]\<close>): the bias computed from the corrected measurements
  (\<^verbatim>\<open>dantr\<close>, \<^verbatim>\<open>dants\<close> and the phase windup are 0) and the new value of \<^verbatim>\<open>slip[i]\<close>,
  which keeps its old value \<open>slip_old\<close> when neither branch assigns it.
\<close>

definition udbias_meas ::
  "rtklib_h \<Rightarrow> extern_t \<Rightarrow> prcopt_t \<Rightarrow> ssat_t \<Rightarrow> nav_t \<Rightarrow> obsd_t \<Rightarrow> nat \<Rightarrow> int \<Rightarrow> real \<times> int" where
  "udbias_meas h ext opt ss nav ob f slip_old =
    (case corr_meas h ext ob nav (ssat_azel ss) opt (\<lambda>_. 0) (\<lambda>_. 0) 0 of
       (L, P, Lc, Pc) \<Rightarrow>
         if ionoopt opt = IONOOPT_IFLC then
           (Lc - Pc, if slip ss 0 \<noteq> 0 \<or> slip ss 1 \<noteq> 0 then 1 else 0)
         else if L f \<noteq> 0 \<and> P f \<noteq> 0 then
           (let l = lc_index (satsys ext (obs_sat ob));
                lam = nav_lam nav (obs_sat ob - 1);
                ion = (if obs_P ob 0 = 0 \<or> obs_P ob l = 0 \<or> lam 0 = 0 \<or> lam l = 0 \<or> lam f = 0
                       then 0
                       else (obs_P ob 0 - obs_P ob l) / (1 - SQR (lam l / lam 0)))
            in (L f - P f + 2 * ion * SQR (lam f / lam 0), uint (slip ss f)))
         else (0, slip_old))"

text \<open>
  Lines 888-914, the body of the loop that collects the offsets of frequency \<open>f\<close>; the
  state is the local arrays and the counter \<^verbatim>\<open>k\<close>.
\<close>

definition udbias_collect ::
  "rtklib_h \<Rightarrow> extern_t \<Rightarrow> rtk_t \<Rightarrow> nav_t \<Rightarrow> (nat \<Rightarrow> obsd_t) \<Rightarrow> nat \<Rightarrow> nat \<Rightarrow> udb_t \<times> int \<Rightarrow>
   udb_t \<times> int" where
  "udbias_collect h ext rtk nav obs f i st =
    (case st of (loc, k) \<Rightarrow>
      (let j = IB h (obs_sat (obs i)) f (rtk_opt rtk);
           m = udbias_meas h ext (rtk_opt rtk) (rtk_ssat rtk (obs_sat (obs i) - 1)) nav (obs i) f
                 (ub_slip loc i);
           loc1 = loc\<lparr>ub_bias := (ub_bias loc)(i := fst m), ub_slip := (ub_slip loc)(i := snd m)\<rparr>
       in if rtk_x rtk j = 0 \<or> snd m \<noteq> 0 \<or> fst m = 0 then (loc1, k)
          else (loc1\<lparr>ub_offseti := (ub_offseti loc1)(i := fst m - rtk_x rtk j),
                     ub_offset := ub_offset loc1 + (fst m - rtk_x rtk j)\<rparr>, k + 1)))"

text \<open>
  Lines 915-924, the correction of a common phase-code jump: \<open>d\<close> is \<^verbatim>\<open>offset/k\<close>, added
  to the bias of every satellite that has one.
\<close>

definition udbias_jump_sat :: "rtklib_h \<Rightarrow> nat \<Rightarrow> real \<Rightarrow> nat \<Rightarrow> rtk_t \<Rightarrow> rtk_t" where
  "udbias_jump_sat h f d i r =
    (let j = IB h (i + 1) f (rtk_opt r)
     in if rtk_x r j \<noteq> 0 then r\<lparr>rtk_x := (rtk_x r)(j := rtk_x r j + d)\<rparr> else r)"

definition udbias_jump :: "rtklib_h \<Rightarrow> nat \<Rightarrow> udb_t \<Rightarrow> int \<Rightarrow> rtk_t \<Rightarrow> rtk_t" where
  "udbias_jump h f loc k rtk =
    (if k \<ge> 2 \<and> \<bar>ub_offset loc / real_of_int k\<bar> > 0.0005 * CLIGHT h \<and>
        CausedByOneSat (ub_offseti loc) k \<noteq> 0
     then fold (udbias_jump_sat h f (ub_offset loc / real_of_int k)) [0..<MAXSAT h] rtk
     else rtk)"

text \<open>Lines 925-940, the body of the loop that reinitialises the biases.\<close>

definition udbias_reinit :: "rtklib_h \<Rightarrow> (nat \<Rightarrow> obsd_t) \<Rightarrow> nat \<Rightarrow> udb_t \<Rightarrow> nat \<Rightarrow> rtk_t \<Rightarrow> rtk_t" where
  "udbias_reinit h obs f loc i rtk =
    (let sat = obs_sat (obs i);
         j = IB h sat f (rtk_opt rtk);
         r1 = rtk\<lparr>rtk_P := (rtk_P rtk)(j + j * rtk_nx rtk :=
                     rtk_P rtk (j + j * rtk_nx rtk) + SQR (prn (rtk_opt rtk) 0) * \<bar>rtk_tt rtk\<bar>)\<rparr>
     in if ub_bias loc i = 0 \<or> (rtk_x r1 j \<noteq> 0 \<and> ub_slip loc i = 0) then r1
        else (let r2 = initx r1 (ub_bias loc i) VAR_BIAS (IB h sat f (rtk_opt r1))
              in r2\<lparr>rtk_ambc_flags := (rtk_ambc_flags r2)
                      (sat - 1 := (\<lambda>k. if k < MAXSAT h then 0 else rtk_ambc_flags r2 (sat - 1) k))\<rparr>))"

text \<open>Lines 879-941, the body of the loop over the frequencies.\<close>

definition udbias_freq ::
  "rtklib_h \<Rightarrow> extern_t \<Rightarrow> nav_t \<Rightarrow> (nat \<Rightarrow> obsd_t) \<Rightarrow> int \<Rightarrow> bool \<Rightarrow> nat \<Rightarrow> rtk_t \<times> udb_t \<Rightarrow>
   rtk_t \<times> udb_t" where
  "udbias_freq h ext nav obs n clk_jump f st =
    (case st of (rtk, loc) \<Rightarrow>
      (let rtk1 = udbias_reset h clk_jump f rtk;
           c = fold (udbias_collect h ext rtk1 nav obs f) (obs_range h n) (loc, 0);
           rtk2 = udbias_jump h f (fst c) (snd c) rtk1
       in (fold (udbias_reinit h obs f (fst c)) (obs_range h n) rtk2, fst c)))"

text \<open>
  Lines 858-861, the day-boundary clock jump: \<^verbatim>\<open>clk_jump\<close> is 0 unless \<^verbatim>\<open>posopt[5]\<close>
  is set; \<open>tow\<close> is \<^verbatim>\<open>time2gpst(obs[0].time,NULL)\<close>.
\<close>

definition udbias_clk_jump :: "prcopt_t \<Rightarrow> real \<Rightarrow> bool" where
  "udbias_clk_jump opt tow = (posopt opt 5 \<noteq> 0 \<and> c_rem (ROUND (tow * 10)) 864000 = 0)"

text \<open>Lines 862-867: every slip flag of the first \<^verbatim>\<open>nf\<close> frequencies is cleared.\<close>

definition udbias_clear :: "rtklib_h \<Rightarrow> rtk_t \<Rightarrow> rtk_t" where
  "udbias_clear h rtk =
     fold (\<lambda>i r. on_ssat i
                    (for_freq (nf (rtk_opt r))
                       (\<lambda>j s. s\<lparr>slip := (slip s)(j := 0), slipLLI := (slipLLI s)(j := 0),
                                slipMW := (slipMW s)(j := 0), slipGF := (slipGF s)(j := 0)\<rparr>)) r)
       [0..<MAXSAT h] rtk"

text \<open>
  \<^verbatim>\<open>udbias_ppp\<close>, lines 849-942. The array \<^verbatim>\<open>bias\<close> is not initialised in the
  source; every entry is written before it is read.
\<close>

definition udbias_ppp ::
  "rtklib_h \<Rightarrow> extern_t \<Rightarrow> real \<Rightarrow> rtk_t \<Rightarrow> (nat \<Rightarrow> obsd_t) \<Rightarrow> int \<Rightarrow> nav_t \<Rightarrow> rtk_t" where
  "udbias_ppp h ext tow rtk obs n nav =
    (let clk_jump = udbias_clk_jump (rtk_opt rtk) tow;
         rtk0 = udbias_clear h rtk;
         rtk1 = detslp_ll h rtk0 obs n;
         rtk2 = detslp_mw h ext rtk1 obs n nav;
         rtk3 = detslp_gf h ext rtk2 obs n nav
     in fst (fold (udbias_freq h ext nav obs n clk_jump) [0..<nat (NF (rtk_opt rtk3))]
               (rtk3, \<lparr>ub_bias = (\<lambda>_. 0), ub_offset = 0, ub_offseti = (\<lambda>_. 0),
                       ub_slip = (\<lambda>_. 0)\<rparr>)))"


subsection \<open>Notions used in the statements about the bias update\<close>

text \<open>
  The part of the receiver state that the time update of the biases never changes.
\<close>

definition static :: "rtk_t \<Rightarrow> prcopt_t \<times> nat \<times> real" where
  "static r = (rtk_opt r, rtk_nx r, rtk_tt r)"

text \<open>
  The condition of line 883 for satellite \<open>i + 1\<close>, on the state before the outage counter is
  incremented.
\<close>

definition reset_cond :: "bool \<Rightarrow> nat \<Rightarrow> rtk_t \<Rightarrow> nat \<Rightarrow> bool" where
  "reset_cond clk_jump f r i =
     (outc (rtk_ssat r i) f + 1 > word_of_int (maxout (rtk_opt r)) \<or>
      modear (rtk_opt r) = ARMODE_INST \<or> clk_jump)"

text \<open>
  \<open>udbias_meas\<close> for observation \<open>i\<close>, on the options and the satellite status of a state.
\<close>

definition meas_at :: "rtklib_h \<Rightarrow> extern_t \<Rightarrow> rtk_t \<Rightarrow> nav_t \<Rightarrow> (nat \<Rightarrow> obsd_t) \<Rightarrow> nat \<Rightarrow> nat \<Rightarrow> int \<Rightarrow> real \<times> int" where
  "meas_at h ext r nav obs f i so =
     udbias_meas h ext (rtk_opt r) (rtk_ssat r (obs_sat (obs i) - 1)) nav (obs i) f so"

text \<open>
  The condition of line 931 under which the bias \<open>j\<close> of observation \<open>i\<close> is reinitialised.
\<close>

definition reinit_cond :: "udb_t \<Rightarrow> nat \<Rightarrow> rtk_t \<Rightarrow> nat \<Rightarrow> bool" where
  "reinit_cond loc i r j = (\<not> (ub_bias loc i = 0 \<or> (rtk_x r j \<noteq> 0 \<and> ub_slip loc i = 0)))"

text \<open>
  Two states with the same options and dimensions, and the same slip flags and
  azimuth/elevation for every satellite.
\<close>

definition same_sats :: "rtk_t \<Rightarrow> rtk_t \<Rightarrow> bool" where
  "same_sats r r0 = (static r = static r0 \<and>
     (\<forall>i. slip (rtk_ssat r i) = slip (rtk_ssat r0 i) \<and> ssat_azel (rtk_ssat r i) = ssat_azel (rtk_ssat r0 i)))"

text \<open>
  The observations of an epoch: satellite numbers between 1 and \<^verbatim>\<open>MAXSAT\<close>, one
  observation per satellite.
\<close>

definition obs_ok :: "rtklib_h \<Rightarrow> (nat \<Rightarrow> obsd_t) \<Rightarrow> nat \<Rightarrow> bool" where
  "obs_ok h obs N =
    ((\<forall>i<N. 1 \<le> obs_sat (obs i) \<and> obs_sat (obs i) \<le> MAXSAT h) \<and>
     (\<forall>i<N. \<forall>i'<N. obs_sat (obs i) = obs_sat (obs i') \<longrightarrow> i = i'))"

text \<open>
  Lines 862-874 of \<^verbatim>\<open>udbias_ppp\<close>: the slip flags are cleared, then the three detectors
  run.
\<close>

definition udbias_detect :: "rtklib_h \<Rightarrow> extern_t \<Rightarrow> rtk_t \<Rightarrow> (nat \<Rightarrow> obsd_t) \<Rightarrow> int \<Rightarrow> nav_t \<Rightarrow> rtk_t" where
  "udbias_detect h ext rtk obs n nav =
     detslp_gf h ext (detslp_mw h ext (detslp_ll h (udbias_clear h rtk) obs n) obs n nav) obs n nav"

text \<open>The local arrays of \<^verbatim>\<open>udbias_ppp\<close> before the loop over the frequencies.\<close>

definition udb_init :: udb_t where
  "udb_init = \<lparr>ub_bias = (\<lambda>_. 0), ub_offset = 0, ub_offseti = (\<lambda>_. 0), ub_slip = (\<lambda>_. 0)\<rparr>"

text \<open>The condition of line 917 under which the phase-code jump is corrected.\<close>

definition jump_cond :: "rtklib_h \<Rightarrow> udb_t \<Rightarrow> int \<Rightarrow> bool" where
  "jump_cond h loc k = (k \<ge> 2 \<and> \<bar>ub_offset loc / real_of_int k\<bar> > 0.0005 * CLIGHT h \<and>
                        CausedByOneSat (ub_offseti loc) k \<noteq> 0)"

text \<open>
  Inputs for concrete evaluation of the bias update, with two satellites
  (\<open>rtklib_h_small\<close>) and one frequency, so that the state has 9 entries and the bias of
  satellite \<open>s\<close> is the entry \<open>6 + s\<close>: a satellite status without history, the options
  without and with the day-boundary test, a receiver state whose entries are all 100 with
  variance 4, and an observation of satellite \<open>s\<close> with the loss-of-lock indicator \<open>lli\<close>
  and the code \<open>p0\<close> on the first frequency, whose bias on the first frequency is 200100
  with the wavelengths of \<open>nav_example\<close> when \<open>p0\<close> is 20000000.
\<close>

definition ssat_fresh :: ssat_t where
  "ssat_fresh = ssat_example\<lparr>gf := 0, mw := 0, mwmean := 0, mwmean2 := 0, mwarc := 0\<rparr>"

definition opt_single :: prcopt_t where
  "opt_single = opt_example\<lparr>nf := 1\<rparr>"

definition opt_day :: prcopt_t where
  "opt_day = opt_single\<lparr>posopt := (\<lambda>i. if i = 5 then 1 else 0)\<rparr>"

definition rtk_epoch :: "prcopt_t \<Rightarrow> rtk_t" where
  "rtk_epoch opt = rtk_example\<lparr>rtk_x := (\<lambda>_. 100), rtk_nx := 9, rtk_opt := opt,
                                 rtk_ssat := (\<lambda>_. ssat_fresh)\<rparr>"

definition obs_epoch :: "nat \<Rightarrow> 8 word \<Rightarrow> real \<Rightarrow> obsd_t" where
  "obs_epoch s lli p0 =
     \<lparr> obs_sat = s, obs_L = (\<lambda>f. if f = 0 then 101000500 else 80000400),
       obs_P = (\<lambda>f. if f = 0 then p0 else 20000000), obs_SNR = (\<lambda>_. 160),
       obs_LLI = (\<lambda>_. lli), obs_code = (\<lambda>_. 0) \<rparr>"

text \<open>
  The invariant of the output state: the offset is the length of the text, and the text
  starts with \<open>pre\<close>.
\<close>

definition out_inv :: "string \<Rightarrow> string \<times> int \<Rightarrow> bool" where
  "out_inv pre st = (snd st = int (length (fst st)) \<and> prefix pre (fst st))"

section \<open>Theorems\<close>

subsection \<open>C6: BDS-2 multipath correction\<close>

text \<open>
  C6. The claim asks, for an elevation strictly between 0 and 90 degrees, for the linear
  interpolation between the two rows that surround the elevation's 10-degree bin. The
  source computes \<^verbatim>\<open>alpha*(el - (idx-1)*10) + coef[idx]\<close>, which is the interpolant
  shifted by one bin. For the IGSO satellite C06 at 45 degrees the source adds 0.015 m to
  the first pseudorange, where the interpolation between rows 4 and 5 gives -0.095 m.
\<close>

theorem corr_bds2_multipath_at_45_degrees:
  "map_option (\<lambda>ob. obs_P ob 0 - obs_P obs_example 0)
       (corr_bds2_multipath rtklib_h_std ext_example obs_example (\<lambda>_. pi / 4)) = Some (3 / 200)
   \<and> bds2_mp_spec (pi / 4 * R2D rtklib_h_std) 1 0 = - 19 / 200"
  by (simp add: corr_bds2_multipath_def ext_example_def obs_example_def BDsType_def
      bds2_mp_add_def rtklib_h_std_def bds2_mp_value_def bds2_mp_spec_def int_cast_def
      coef_def coef100_def Let_def)

subsection \<open>C7: the iono-free combinations of corr\_meas\<close>

lemma upt_0_3: "[0..<3] = [0, 1, 2::nat]"
  by code_simp

lemma corr_meas_fold_example:
  "fold (corr_meas_freq rtklib_h_std ext_example obs_example nav_example (\<lambda>_. pi / 4)
           opt_example (\<lambda>_. 0) (\<lambda>_. 0) 0) [0..<NFREQ rtklib_h_std] (\<lambda>_. 0, \<lambda>_. 0, 0)
   = ((\<lambda>_. 0)(0 := 20, 1 := 25, 2 := 30),
      (\<lambda>_. 0)(0 := 20000000, 1 := 20000000, 2 := 20000000), 0)"
  by (simp add: rtklib_h_std_def upt_0_3 corr_meas_freq_def ext_example_def obs_example_def
      nav_example_def opt_example_def Let_def)

lemma corr_meas_example:
  "corr_meas rtklib_h_std ext_example obs_example nav_example (\<lambda>_. pi / 4) opt_example
      (\<lambda>_. 0) (\<lambda>_. 0) 0
    = ((\<lambda>_. 0)(0 := 20, 1 := 25, 2 := 30),
       (\<lambda>_. 0)(0 := 20000000, 1 := 20000000, 2 := 20000000), 12, 20000000)"
  unfolding corr_meas_def corr_meas_fold_example
  by (simp add: ext_example_def obs_example_def nav_example_def lc_index_def SQR_def Let_def)

text \<open>
  C7. \<open>corr_meas\<close> forms \<open>Lc\<close> and \<open>Pc\<close> from the corrected measurements of frequency 1
  (index 0) and frequency \<open>k + 1\<close>, where the index \<open>k\<close> is 1 (frequency 2) for GPS, QZS
  and GLONASS and 2 (frequency 3) for Galileo, SBAS and BDS, with the coefficients
  \<open>C1 = lam\<^sub>k\<^sup>2 / (lam\<^sub>k\<^sup>2 - lam\<^sub>0\<^sup>2)\<close> and \<open>C2 = - lam\<^sub>0\<^sup>2 / (lam\<^sub>k\<^sup>2 - lam\<^sub>0\<^sup>2)\<close>; a combination
  is 0 when one of the two wavelengths or one of its two constituent measurements is 0.
  The two wavelengths are assumed to differ in magnitude, so that the coefficients are
  defined.
\<close>

theorem corr_meas_iono_free:
  assumes cm: "corr_meas h ext obs nav azel opt dantr dants phw = (Lo, Po, Lc, Pc)"
    and lam: "lam = nav_lam nav (obs_sat obs - 1)"
    and k: "k = lc_index (satsys ext (obs_sat obs))"
    and ne: "SQR (lam k) \<noteq> SQR (lam 0)"
  shows "(satsys ext (obs_sat obs) \<in> {SYS_GPS, SYS_QZS, SYS_GLO} \<longrightarrow> k = 1) \<and>
         (satsys ext (obs_sat obs) \<in> {SYS_GAL, SYS_SBS, SYS_CMP} \<longrightarrow> k = 2) \<and>
         Lc = (if lam 0 = 0 \<or> lam k = 0 \<or> Lo 0 = 0 \<or> Lo k = 0 then 0
               else SQR (lam k) / (SQR (lam k) - SQR (lam 0)) * Lo 0
                    + (- SQR (lam 0) / (SQR (lam k) - SQR (lam 0))) * Lo k) \<and>
         Pc = (if lam 0 = 0 \<or> lam k = 0 \<or> Po 0 = 0 \<or> Po k = 0 then 0
               else SQR (lam k) / (SQR (lam k) - SQR (lam 0)) * Po 0
                    + (- SQR (lam 0) / (SQR (lam k) - SQR (lam 0))) * Po k)"
proof -
  obtain L P ix where f:
    "fold (corr_meas_freq h ext obs nav azel opt dantr dants phw) [0..<NFREQ h]
       (\<lambda>_. 0, \<lambda>_. 0, 0) = (L, P, ix)"
    by (cases "fold (corr_meas_freq h ext obs nav azel opt dantr dants phw) [0..<NFREQ h]
            (\<lambda>_. 0, \<lambda>_. 0, 0)") auto
  from cm have cm':
    "(let lam = nav_lam nav (obs_sat obs - 1);
          i = lc_index (satsys ext (obs_sat obs))
      in if lam 0 = 0 \<or> lam i = 0 then (L, P, 0, 0)
         else
           (let C1 = SQR (lam i) / (SQR (lam i) - SQR (lam 0));
                C2 = - SQR (lam 0) / (SQR (lam i) - SQR (lam 0));
                Lc = (if L 0 \<noteq> 0 \<and> L i \<noteq> 0 then C1 * L 0 + C2 * L i else 0);
                Pc = (if P 0 \<noteq> 0 \<and> P i \<noteq> 0 then C1 * P 0 + C2 * P i else 0)
            in (L, P, Lc, Pc))) = (Lo, Po, Lc, Pc)"
    unfolding corr_meas_def f by simp
  have k12: "(satsys ext (obs_sat obs) \<in> {SYS_GPS, SYS_QZS, SYS_GLO} \<longrightarrow> k = 1) \<and>
         (satsys ext (obs_sat obs) \<in> {SYS_GAL, SYS_SBS, SYS_CMP} \<longrightarrow> k = 2)"
    unfolding k lc_index_def by auto
  define C1 where "C1 = SQR (lam k) / (SQR (lam k) - SQR (lam 0))"
  define C2 where "C2 = - SQR (lam 0) / (SQR (lam k) - SQR (lam 0))"
  from cm' have cm2:
    "(if lam 0 = 0 \<or> lam k = 0 then (L, P, 0, 0)
      else (L, P, (if L 0 \<noteq> 0 \<and> L k \<noteq> 0 then C1 * L 0 + C2 * L k else 0),
                  (if P 0 \<noteq> 0 \<and> P k \<noteq> 0 then C1 * P 0 + C2 * P k else 0)))
     = (Lo, Po, Lc, Pc)"
    unfolding Let_def lam k C1_def C2_def .
  have LP:
    "Lc = (if lam 0 = 0 \<or> lam k = 0 \<or> Lo 0 = 0 \<or> Lo k = 0 then 0 else C1 * Lo 0 + C2 * Lo k) \<and>
     Pc = (if lam 0 = 0 \<or> lam k = 0 \<or> Po 0 = 0 \<or> Po k = 0 then 0 else C1 * Po 0 + C2 * Po k)"
  proof (cases "lam 0 = 0 \<or> lam k = 0")
    case True
    with cm2 have "Lc = 0" "Pc = 0"
      by auto
    with True show ?thesis by auto
  next
    case False
    with cm2 have "Lo = L" "Po = P"
      "Lc = (if L 0 \<noteq> 0 \<and> L k \<noteq> 0 then C1 * L 0 + C2 * L k else 0)"
      "Pc = (if P 0 \<noteq> 0 \<and> P k \<noteq> 0 then C1 * P 0 + C2 * P k else 0)"
      by auto
    with False show ?thesis
      by auto
  qed
  from k12 LP show ?thesis
    unfolding C1_def C2_def by blast
qed

theorem corr_meas_iono_free_witness:
  "corr_meas rtklib_h_std ext_example obs_example nav_example (\<lambda>_. pi / 4) opt_example
      (\<lambda>_. 0) (\<lambda>_. 0) 0
    = ((\<lambda>_. 0)(0 := 20, 1 := 25, 2 := 30),
       (\<lambda>_. 0)(0 := 20000000, 1 := 20000000, 2 := 20000000), 12, 20000000)
   \<and> lc_index (satsys ext_example (obs_sat obs_example)) = 2
   \<and> SQR (3 / 10 :: real) \<noteq> SQR (1 / 5)
   \<and> (12 :: real) = SQR (3 / 10) / (SQR (3 / 10) - SQR (1 / 5)) * 20
                    + (- SQR (1 / 5) / (SQR (3 / 10) - SQR (1 / 5))) * 30"
proof -
  have ne: "SQR (nav_lam nav_example (obs_sat obs_example - 1)
                  (lc_index (satsys ext_example (obs_sat obs_example))))
            \<noteq> SQR (nav_lam nav_example (obs_sat obs_example - 1) 0)"
    by (simp add: nav_example_def obs_example_def ext_example_def lc_index_def SQR_def)
  from corr_meas_iono_free [OF corr_meas_example refl refl ne] corr_meas_example
  show ?thesis
    by (simp add: nav_example_def obs_example_def ext_example_def lc_index_def SQR_def)
qed

subsection \<open>C9: eclipse exclusion\<close>

lemma dot_3: "dot a b 3 = a 0 * b 0 + a 1 * b 1 + a 2 * b 2"
  by (simp add: dot_def upt_0_3)

lemma row_div: "c < 6 \<Longrightarrow> (c + i * 6) div 6 = i" for c i :: nat
  by simp
lemma row_mod: "c < 6 \<Longrightarrow> (c + i * 6) mod 6 = c" for c i :: nat
  by simp
lemma row_index: "(q div 6 = i \<and> q mod 6 < 3) = (q = i * 6 \<or> q = Suc (i * 6) \<or> q = Suc (Suc (i * 6)))"
  for q i :: nat
proof
  assume a: "q div 6 = i \<and> q mod 6 < 3"
  have "q = q div 6 * 6 + q mod 6" by simp
  with a have "q = i * 6 + q mod 6" by simp
  moreover from a have "q mod 6 = 0 \<or> q mod 6 = 1 \<or> q mod 6 = 2" by linarith
  ultimately show "q = i * 6 \<or> q = Suc (i * 6) \<or> q = Suc (Suc (i * 6))" by linarith
next
  assume "q = i * 6 \<or> q = Suc (i * 6) \<or> q = Suc (Suc (i * 6))"
  then have "q = 0 + i * 6 \<or> q = 1 + i * 6 \<or> q = 2 + i * 6" by simp
  then show "q div 6 = i \<and> q mod 6 < 3"
    by (elim disjE) (simp_all only: row_div row_mod, simp_all)
qed

lemma testeclipse_sat_eq:
  "testeclipse_sat h obs nav esun i rs =
     (\<lambda>q. if q div 6 = i \<and> q mod 6 < 3 \<and> eclipse_excluded h obs nav esun rs i then 0 else rs q)"
proof -
  define ty where "ty = nav_pcvs_type nav (obs_sat (obs i) - 1)"
  define r where "r = norm_v (\<lambda>j. rs (j + i * 6)) 3"
  define cosa0 where "cosa0 = dot (\<lambda>j. rs (j + i * 6)) esun 3 / r"
  define ang where "ang = arccos (if cosa0 < - 1 then - 1 else if cosa0 > 1 then 1 else cosa0)"
  define zeroed where "zeroed = fold (\<lambda>j a. a(j + i * 6 := 0)) [0, 1, 2] rs"
  have z: "zeroed = (\<lambda>q. if q div 6 = i \<and> q mod 6 < 3 then 0 else rs q)"
    unfolding row_index zeroed_def by (auto simp: fun_eq_iff)
  have t: "testeclipse_sat h obs nav esun i rs =
      (if r \<le> 0 then rs
       else if ty \<noteq> [] \<and> \<not> strstr ty ''BLOCK IIA'' then rs
       else if ang < PI h / 2 \<or> r * sin ang > RE_WGS84 h then rs else zeroed)"
    unfolding testeclipse_sat_def Let_def ty_def r_def cosa0_def ang_def zeroed_def ..
  have e: "eclipse_excluded h obs nav esun rs i =
      (r > 0 \<and> (ty = [] \<or> strstr ty ''BLOCK IIA'') \<and> \<not> (ang < PI h / 2 \<or> r * sin ang > RE_WGS84 h))"
    unfolding eclipse_excluded_def Let_def ty_def r_def cosa0_def ang_def ..
  show ?thesis
    unfolding t e z by (auto simp: fun_eq_iff)
qed

lemma eclipse_excluded_cong:
  assumes "\<And>j. j < 3 \<Longrightarrow> rs' (j + i * 6) = rs (j + i * 6)"
  shows "eclipse_excluded h obs nav esun rs' i = eclipse_excluded h obs nav esun rs i"
proof -
  have a: "rs' (0 + i * 6) = rs (0 + i * 6)"
    by (rule assms) simp
  have b: "rs' (1 + i * 6) = rs (1 + i * 6)"
    by (rule assms) simp
  have c: "rs' (2 + i * 6) = rs (2 + i * 6)"
    by (rule assms) simp
  show ?thesis
    unfolding eclipse_excluded_def norm_v_def dot_3 a b c ..
qed

lemma testeclipse_fold:
  "fold (testeclipse_sat h obs nav esun) [0..<m] rs =
     (\<lambda>q. if q div 6 < m \<and> q mod 6 < 3 \<and> eclipse_excluded h obs nav esun rs (q div 6) then 0 else rs q)"
proof (induction m)
  case 0
  show ?case by simp
next
  case (Suc m)
  define E where "E = eclipse_excluded h obs nav esun rs"
  let ?rm = "\<lambda>q. if q div 6 < m \<and> q mod 6 < 3 \<and> E (q div 6) then 0 else rs q"
  have ex: "eclipse_excluded h obs nav esun ?rm m = E m"
    unfolding E_def by (rule eclipse_excluded_cong) simp
  have s1: "fold (testeclipse_sat h obs nav esun) [0..<Suc m] rs = testeclipse_sat h obs nav esun m ?rm"
    unfolding upt_Suc_append [OF le0] fold_append o_apply Suc E_def by simp
  have s2: "testeclipse_sat h obs nav esun m ?rm
      = (\<lambda>q. if q div 6 = m \<and> q mod 6 < 3 \<and> E m then 0 else ?rm q)"
    unfolding testeclipse_sat_eq ex ..
  have s3: "(\<lambda>q. if q div 6 = m \<and> q mod 6 < 3 \<and> E m then 0 else ?rm q)
      = (\<lambda>q. if q div 6 < Suc m \<and> q mod 6 < 3 \<and> E (q div 6) then 0 else rs q)"
  proof (rule ext)
    fix q :: nat
    consider "q div 6 = m" | "q div 6 < m" | "m < q div 6"
      by (cases "q div 6" m rule: linorder_cases) auto
    then show "(if q div 6 = m \<and> q mod 6 < 3 \<and> E m then 0 else ?rm q)
      = (if q div 6 < Suc m \<and> q mod 6 < 3 \<and> E (q div 6) then 0 else rs q)"
    proof cases
      case 1
      then show ?thesis by simp
    next
      case 2
      then show ?thesis by simp
    next
      case 3
      then show ?thesis by simp
    qed
  qed
  have "fold (testeclipse_sat h obs nav esun) [0..<Suc m] rs
      = (\<lambda>q. if q div 6 < Suc m \<and> q mod 6 < 3 \<and> E (q div 6) then 0 else rs q)"
    by (simp only: s1 s2 s3)
  then show ?case
    unfolding E_def .
qed


lemma norm_v_axis: "norm_v (\<lambda>j. if j = 0 then a else 0) 3 = \<bar>a\<bar>"
  by (simp add: norm_v_def dot_3)

lemma esun_example: "snd (normv3 rsun_example (\<lambda>_. 0)) = (\<lambda>i. if i = 0 then 1 else 0)"
  unfolding normv3_def rsun_example_def norm_v_axis Let_def by (auto simp: fun_eq_iff)

lemma rs_example_row: "(\<lambda>j. rs_example (j + 0 * 6)) = (\<lambda>j. if j = 0 then - 26000000 else 0)"
  by (simp add: rs_example_def)

lemma excluded_example:
  "eclipse_excluded rtklib_h_std obs nav (\<lambda>i. if i = 0 then 1 else 0) rs_example 0
     = (nav_pcvs_type nav (obs_sat (obs 0) - 1) = [] \<or> strstr (nav_pcvs_type nav (obs_sat (obs 0) - 1)) ''BLOCK IIA'')"
  unfolding eclipse_excluded_def rs_example_row norm_v_axis Let_def
  by (simp add: dot_3 rtklib_h_std_def)

text \<open>
  C9 (amended). For every observation \<open>i < n\<close> the eclipse test zeroes the three position
  components of row \<open>i\<close> of \<open>rs\<close> exactly when the position has a positive norm \<open>r\<close>, the
  antenna type of the satellite is the empty string or contains \<open>BLOCK IIA\<close>, and neither
  \<open>ang < PI / 2\<close> nor \<open>r * sin ang > RE_WGS84\<close> holds, where \<open>ang\<close> is the sun-earth-satellite
  angle; the velocity components, and the rows of satellites whose non-empty type does
  not contain \<open>BLOCK IIA\<close>, are never modified.
\<close>

theorem testeclipse_rows:
  assumes i: "i < nat n" and j: "j < 6"
  shows "let type = nav_pcvs_type nav (obs_sat (obs i) - 1);
             r = norm_v (\<lambda>j. rs (j + i * 6)) 3;
             cosa0 = dot (\<lambda>j. rs (j + i * 6)) (snd (normv3 rsun esun0)) 3 / r;
             ang = arccos (if cosa0 < - 1 then - 1 else if cosa0 > 1 then 1 else cosa0)
         in testeclipse h obs n nav rs rsun esun0 (j + i * 6)
            = (if j < 3 \<and> r > 0 \<and> (type = [] \<or> strstr type ''BLOCK IIA'') \<and>
                  \<not> (ang < PI h / 2 \<or> r * sin ang > RE_WGS84 h)
               then 0 else rs (j + i * 6))"
proof -
  from j have d: "(j + i * 6) div 6 = i" and m: "(j + i * 6) mod 6 = j"
    by (rule row_div, rule row_mod)
  have "testeclipse h obs n nav rs rsun esun0 (j + i * 6)
     = (if j < 3 \<and> eclipse_excluded h obs nav (snd (normv3 rsun esun0)) rs i then 0 else rs (j + i * 6))"
    unfolding testeclipse_def Let_def testeclipse_fold d m using i by simp
  then show ?thesis
    unfolding eclipse_excluded_def Let_def by simp
qed

theorem testeclipse_rows_witness:
  "testeclipse rtklib_h_std (\<lambda>_. obs_example) 1 nav_iia rs_example rsun_example (\<lambda>_. 0) 0 = 0 \<and>
   testeclipse rtklib_h_std (\<lambda>_. obs_example) 1 nav_iir rs_example rsun_example (\<lambda>_. 0) 0 = - 26000000 \<and>
   rs_example 0 = - 26000000"
proof -
  have i: "(0::nat) < nat 1" and j: "(0::nat) < 6"
    by simp_all
  from testeclipse_rows [OF i j, of nav_iia "\<lambda>_. obs_example" rs_example rsun_example "\<lambda>_. 0" rtklib_h_std]
       testeclipse_rows [OF i j, of nav_iir "\<lambda>_. obs_example" rs_example rsun_example "\<lambda>_. 0" rtklib_h_std]
  show ?thesis
    unfolding esun_example rs_example_row norm_v_axis Let_def
    by (simp add: dot_3 rtklib_h_std_def nav_iia_def nav_iir_def rs_example_def)
qed

text \<open>
  C9 as stated fails: a satellite without antenna type (the empty string, so not a
  Block IIA satellite) on the far side of the earth from the sun has its position zeroed.
\<close>

theorem testeclipse_empty_type_counterexample:
  "nav_pcvs_type nav_example (obs_sat obs_example - 1) = [] \<and>
   \<not> strstr (nav_pcvs_type nav_example (obs_sat obs_example - 1)) ''BLOCK IIA'' \<and>
   rs_example 0 \<noteq> 0 \<and>
   testeclipse rtklib_h_std (\<lambda>_. obs_example) 1 nav_example rs_example rsun_example (\<lambda>_. 0) 0 = 0"
proof -
  have "testeclipse rtklib_h_std (\<lambda>_. obs_example) 1 nav_example rs_example rsun_example (\<lambda>_. 0) 0 = 0"
    unfolding testeclipse_def Let_def testeclipse_fold esun_example
    by (simp add: excluded_example, simp add: nav_example_def)
  then show ?thesis
    by (simp add: nav_example_def rs_example_def)
qed

subsection \<open>C10: the solution status writer\<close>

lemma out_inv_emit: "out_inv pre st \<Longrightarrow> out_inv pre (emit lb fmt args st)"
  by (cases st) (auto simp: out_inv_def emit_def prefix_def)

lemma out_inv_first: "out_inv (sprintf lb fmt args) (emit lb fmt args ([], 0))"
  by (simp add: out_inv_def emit_def)

lemma out_inv_fold:
  assumes "\<And>i s. out_inv pre s \<Longrightarrow> out_inv pre (f i s)"
  shows "out_inv pre st \<Longrightarrow> out_inv pre (fold f is st)"
  by (induction "is" arbitrary: st) (simp_all add: assms)

lemma out_inv_ion: "out_inv pre st \<Longrightarrow> out_inv pre (outstat_ion h lb rtk i st)"
  unfolding outstat_ion_def Let_def by (simp add: out_inv_emit)

lemma out_inv_amb: "out_inv pre st \<Longrightarrow> out_inv pre (outstat_amb h lb rtk i st)"
  unfolding outstat_amb_def by (rule out_inv_fold) (simp_all add: Let_def out_inv_emit)

lemma out_inv_velacc: "out_inv pre st \<Longrightarrow> out_inv pre (outstat_velacc lb rtk st)"
  unfolding outstat_velacc_def Let_def by (simp add: out_inv_emit)

lemma out_inv_clk: "out_inv pre st \<Longrightarrow> out_inv pre (outstat_clk h lb rtk st)"
  unfolding outstat_clk_def Let_def by (rule out_inv_emit)

lemma out_inv_trop: "out_inv pre st \<Longrightarrow> out_inv pre (outstat_trop h lb rtk st)"
  unfolding outstat_trop_def Let_def by (simp add: out_inv_emit)

lemma out_inv_dcb: "out_inv pre st \<Longrightarrow> out_inv pre (outstat_dcb h lb rtk st)"
  unfolding outstat_dcb_def Let_def by (rule out_inv_emit)

lemma out_inv_pos:
  "out_inv (sprintf lb (''$POS,%d,%.3f,%d,%.4f,%.4f,%.4f,%.4f,%.4f,%.4f'' @ nl)
       (outstat_head rtk @
        [A_dbl (outstat_x rtk 0), A_dbl (outstat_x rtk 1), A_dbl (outstat_x rtk 2),
         A_dbl (STD rtk 0), A_dbl (STD rtk 1), A_dbl (STD rtk 2)])) (outstat_pos lb rtk ([], 0))"
  unfolding outstat_pos_def by (rule out_inv_first)

lemma out_inv_pppoutstat:
  assumes "sol_stat (rtk_sol rtk) \<noteq> SOLQ_NONE"
  shows "out_inv (sprintf lb (''$POS,%d,%.3f,%d,%.4f,%.4f,%.4f,%.4f,%.4f,%.4f'' @ nl)
       (outstat_head rtk @
        [A_dbl (outstat_x rtk 0), A_dbl (outstat_x rtk 1), A_dbl (outstat_x rtk 2),
         A_dbl (STD rtk 0), A_dbl (STD rtk 1), A_dbl (STD rtk 2)])) (pppoutstat h lb rtk buff)"
proof -
  note s1 = out_inv_pos [of lb rtk]
  note s2 = out_inv_velacc [OF s1]
  note s3 = out_inv_clk [OF s2, of h]
  note s4 = out_inv_trop [OF s3, of h]
  have s5: "out_inv pre st \<Longrightarrow> out_inv pre ((if ionoopt (rtk_opt rtk) = IONOOPT_EST
         then fold (outstat_ion h lb rtk) [0..<MAXSAT h] else id) st)" for pre st
    by (simp add: out_inv_fold out_inv_ion)
  note s6 = out_inv_dcb [OF s5 [OF s4], of h]
  have s7: "out_inv pre st \<Longrightarrow> out_inv pre (fold (outstat_amb h lb rtk) [0..<MAXSAT h] st)" for pre st
    by (rule out_inv_fold) (rule out_inv_amb)
  from s7 [OF s6] assms show ?thesis
    unfolding pppoutstat_def o_apply by (simp only: if_False)
qed

text \<open>
  C10. When the solution status is \<open>SOLQ_NONE\<close> (0), \<open>pppoutstat\<close> leaves the buffer as it
  was and returns 0. For every other status it returns the number of characters it wrote,
  and the text starts with the \<open>$POS\<close> record, whose position is read from \<open>xa\<close> and whose
  standard deviations are read from the diagonal of \<open>Pa\<close> when the status is \<open>SOLQ_FIX\<close>,
  and from \<open>x\<close> and \<open>P\<close> otherwise.
\<close>

theorem pppoutstat_status:
  "(sol_stat (rtk_sol rtk) = SOLQ_NONE \<longrightarrow> pppoutstat h lb rtk buff = (buff, 0)) \<and>
   (sol_stat (rtk_sol rtk) \<noteq> SOLQ_NONE \<longrightarrow>
      (let stat = sol_stat (rtk_sol rtk);
           xs = (if stat = SOLQ_FIX then rtk_xa rtk else rtk_x rtk);
           Ps = (if stat = SOLQ_FIX then rtk_Pa rtk else rtk_P rtk);
           sd = (\<lambda>i. SQRT (Ps (i + i * rtk_nx rtk)));
           out = pppoutstat h lb rtk buff
       in snd out = int (length (fst out)) \<and>
          prefix (sprintf lb (''$POS,%d,%.3f,%d,%.4f,%.4f,%.4f,%.4f,%.4f,%.4f'' @ nl)
                    [A_int (sol_week (rtk_sol rtk)), A_dbl (sol_tow (rtk_sol rtk)), A_stat stat,
                     A_dbl (xs 0), A_dbl (xs 1), A_dbl (xs 2), A_dbl (sd 0), A_dbl (sd 1), A_dbl (sd 2)])
                 (fst out)))"
proof (cases "sol_stat (rtk_sol rtk) = SOLQ_NONE")
  case True
  then show ?thesis by (simp add: pppoutstat_def)
next
  case False
  have sd: "STD rtk i = SQRT ((if sol_stat (rtk_sol rtk) = SOLQ_FIX then rtk_Pa rtk else rtk_P rtk)
                          (i + i * rtk_nx rtk))" for i
    by (simp add: STD_def)
  from out_inv_pppoutstat [OF False, of lb h buff] False show ?thesis
    unfolding out_inv_def outstat_head_def outstat_x_def sd Let_def by simp
qed



lemma upt_0_2: "[0..<2] = [0, 1::nat]"
  by code_simp

lemma pppoutstat_example_len:
  "snd (pppoutstat rtklib_h_small libs_example rtk_example ''old'') = 267"
  by (simp add: pppoutstat_def rtklib_h_small_def rtklib_h_std_def libs_example_def rtk_example_def
      opt_example_def ssat_example_def outstat_amb_def outstat_dcb_def outstat_trop_def outstat_clk_def
      outstat_velacc_def outstat_pos_def emit_def nl_def NF_def Let_def upt_0_2)


theorem pppoutstat_status_witness:
  "pppoutstat rtklib_h_small libs_example
     (rtk_example\<lparr>rtk_sol := (rtk_sol rtk_example)\<lparr>sol_stat := SOLQ_NONE\<rparr>\<rparr>) ''old'' = (''old'', 0) \<and>
   sol_stat (rtk_sol rtk_example) = SOLQ_FIX \<and>
   snd (pppoutstat rtklib_h_small libs_example rtk_example ''old'') = 267 \<and>
   length (fst (pppoutstat rtklib_h_small libs_example rtk_example ''old'')) = 267 \<and>
   prefix (''$POS,%d,%.3f,%d,%.4f,%.4f,%.4f,%.4f,%.4f,%.4f'' @ nl)
     (fst (pppoutstat rtklib_h_small libs_example rtk_example ''old''))"
proof -
  have n: "sol_stat (rtk_sol (rtk_example\<lparr>rtk_sol := (rtk_sol rtk_example)\<lparr>sol_stat := SOLQ_NONE\<rparr>\<rparr>)) = SOLQ_NONE"
    by simp
  have f: "sol_stat (rtk_sol rtk_example) = SOLQ_FIX"
    by (simp add: rtk_example_def)
  have s: "sprintf libs_example fmt args = fmt" for fmt args
    by (simp add: libs_example_def)
  from pppoutstat_status [of "rtk_example\<lparr>rtk_sol := (rtk_sol rtk_example)\<lparr>sol_stat := SOLQ_NONE\<rparr>\<rparr>"
         rtklib_h_small libs_example "''old''"] n
  have a: "pppoutstat rtklib_h_small libs_example
     (rtk_example\<lparr>rtk_sol := (rtk_sol rtk_example)\<lparr>sol_stat := SOLQ_NONE\<rparr>\<rparr>) ''old'' = (''old'', 0)"
    by blast
  from pppoutstat_status [of rtk_example rtklib_h_small libs_example "''old''"] f
  have b: "snd (pppoutstat rtklib_h_small libs_example rtk_example ''old'')
             = int (length (fst (pppoutstat rtklib_h_small libs_example rtk_example ''old''))) \<and>
           prefix (''$POS,%d,%.3f,%d,%.4f,%.4f,%.4f,%.4f,%.4f,%.4f'' @ nl)
             (fst (pppoutstat rtklib_h_small libs_example rtk_example ''old''))"
    unfolding Let_def s by simp
  from a b f pppoutstat_example_len show ?thesis
    by simp
qed

subsection \<open>C3, C4, C5: the time update of the phase biases\<close>

lemma flat_index_unique:
  fixes i j m k nx :: nat
  assumes "i < nx" "m < nx" "i + j * nx = m + k * nx"
  shows "i = m \<and> j = k"
proof -
  from assms(3) have "(i + j * nx) mod nx = (m + k * nx) mod nx" by simp
  with assms(1,2) have im: "i = m" by simp
  with assms(3) have "j * nx = k * nx" by simp
  with assms(1) have "j = k" by simp
  with im show ?thesis by simp
qed

lemma fold_frame:
  assumes "\<And>j P. j \<in> set js \<Longrightarrow> F j P q = P q"
  shows "fold F js P0 q = P0 q"
  using assms by (induction js arbitrary: P0) simp_all

lemma fold_hit:
  assumes "\<And>j P. j \<in> set js \<Longrightarrow> F j P q = (if hit j then c else P q)"
    and "\<exists>j\<in>set js. hit j"
  shows "fold F js P0 q = c"
  using assms
proof (induction js arbitrary: P0)
  case Nil
  then show ?case by simp
next
  case (Cons j js)
  have step: "\<And>i P. i \<in> set js \<Longrightarrow> F i P q = (if hit i then c else P q)"
    using Cons.prems(1) by simp
  show ?case
  proof (cases "\<exists>i\<in>set js. hit i")
    case True
    from Cons.IH [OF step True] show ?thesis by simp
  next
    case False
    with Cons.prems(2) have hj: "hit j" by auto
    from False step have "\<And>i P. i \<in> set js \<Longrightarrow> F i P q = P q" by auto
    then have "fold F js (F j P0) q = F j P0 q" by (rule fold_frame)
    also have "\<dots> = c" using Cons.prems(1) [of j P0] hj by simp
    finally show ?thesis by simp
  qed
qed

lemma fold_upd2_other:
  assumes "\<forall>j\<in>set js. q \<noteq> a j \<and> q \<noteq> b j"
  shows "fold (\<lambda>j Pm. Pm(a j := v j, b j := v j)) js P0 q = P0 q"
  by (rule fold_frame) (use assms in auto)

lemma fold_upd2_hit:
  assumes "\<exists>j\<in>set js. q = a j \<or> q = b j"
    and "\<forall>j\<in>set js. (q = a j \<or> q = b j) \<longrightarrow> v j = c"
  shows "fold (\<lambda>j Pm. Pm(a j := v j, b j := v j)) js P0 q = c"
proof (rule fold_hit [where hit = "\<lambda>j. q = a j \<or> q = b j"])
  show "\<exists>j\<in>set js. q = a j \<or> q = b j" by (rule assms(1))
  fix j P assume "j \<in> set js"
  with assms(2) show "(P(a j := v j, b j := v j)) q = (if q = a j \<or> q = b j then c else P q)"
    by auto
qed

lemma initx_x: "rtk_x (initx rtk xi var i) = (rtk_x rtk)(i := xi)"
  by (simp add: initx_def)

lemma initx_frame:
  "rtk_ssat (initx rtk xi var i) = rtk_ssat rtk" "rtk_opt (initx rtk xi var i) = rtk_opt rtk"
  "rtk_nx (initx rtk xi var i) = rtk_nx rtk" "rtk_tt (initx rtk xi var i) = rtk_tt rtk"
  "rtk_ambc_flags (initx rtk xi var i) = rtk_ambc_flags rtk"
  by (simp_all add: initx_def)

lemma initx_P_diag:
  assumes "i < rtk_nx rtk" "m < rtk_nx rtk"
  shows "rtk_P (initx rtk xi var i) (m + m * rtk_nx rtk)
           = (if m = i then var else rtk_P rtk (m + m * rtk_nx rtk))"
proof (cases "m = i")
  case True
  have "fold (\<lambda>j Pm. Pm(j + i * rtk_nx rtk := (if i = j then var else 0),
                        i + j * rtk_nx rtk := (if i = j then var else 0)))
          [0..<rtk_nx rtk] (rtk_P rtk) (i + i * rtk_nx rtk) = var"
  proof (rule fold_upd2_hit)
    show "\<exists>j\<in>set [0..<rtk_nx rtk]. i + i * rtk_nx rtk = j + i * rtk_nx rtk \<or>
            i + i * rtk_nx rtk = i + j * rtk_nx rtk"
      using assms(1) by auto
    show "\<forall>j\<in>set [0..<rtk_nx rtk]. (i + i * rtk_nx rtk = j + i * rtk_nx rtk \<or>
            i + i * rtk_nx rtk = i + j * rtk_nx rtk) \<longrightarrow> (if i = j then var else 0) = var"
      using assms(1) by auto
  qed
  with True show ?thesis by (simp add: initx_def)
next
  case False
  have "fold (\<lambda>j Pm. Pm(j + i * rtk_nx rtk := (if i = j then var else 0),
                        i + j * rtk_nx rtk := (if i = j then var else 0)))
          [0..<rtk_nx rtk] (rtk_P rtk) (m + m * rtk_nx rtk) = rtk_P rtk (m + m * rtk_nx rtk)"
  proof (rule fold_upd2_other, rule ballI)
    fix j assume "j \<in> set [0..<rtk_nx rtk]"
    then have j: "j < rtk_nx rtk" by simp
    from flat_index_unique [OF assms(2) j, of m i] False
    have 1: "m + m * rtk_nx rtk \<noteq> j + i * rtk_nx rtk" by auto
    from flat_index_unique [OF assms(2) assms(1), of m j] False
    have 2: "m + m * rtk_nx rtk \<noteq> i + j * rtk_nx rtk" by auto
    from 1 2 show "m + m * rtk_nx rtk \<noteq> j + i * rtk_nx rtk \<and> m + m * rtk_nx rtk \<noteq> i + j * rtk_nx rtk"
      by simp
  qed
  with False show ?thesis by (simp add: initx_def)
qed

lemma fold_inv:
  assumes "\<And>j r. j \<in> set js \<Longrightarrow> I r \<Longrightarrow> I (F j r) \<and> g (F j r) = g r"
    and "I r0"
  shows "I (fold F js r0) \<and> g (fold F js r0) = g r0"
  using assms
proof (induction js arbitrary: r0)
  case Nil
  then show ?case by simp
next
  case (Cons j js)
  from Cons.prems(1) [of j r0] Cons.prems(2) have 1: "I (F j r0)" "g (F j r0) = g r0"
    by simp_all
  have "I (fold F js (F j r0)) \<and> g (fold F js (F j r0)) = g (F j r0)"
    by (rule Cons.IH) (use Cons.prems(1) 1 in simp_all)
  with 1 show ?case by simp
qed

lemma IB_eq: "1 \<le> s \<Longrightarrow> IB h s f opt = NR h opt + MAXSAT h * f + (s - 1)"
  by (simp add: IB_def)

lemma IB_Suc: "IB h (i + 1) f opt = NR h opt + MAXSAT h * f + i"
  by (simp add: IB_def)

lemma IB_less_NX:
  assumes "1 \<le> s" "s \<le> MAXSAT h" "f < nat (NF opt)"
  shows "IB h s f opt < NX h opt"
proof -
  from assms(3) have "Suc f \<le> nat (NF opt)" by simp
  then have "MAXSAT h * Suc f \<le> MAXSAT h * nat (NF opt)" by (rule mult_le_mono2)
  then have "MAXSAT h * f + MAXSAT h \<le> nat (NF opt) * MAXSAT h" by (simp add: mult.commute)
  with assms(1,2) show ?thesis
    unfolding IB_eq [OF assms(1)] NX_def NB_def by linarith
qed

lemma IB_inj:
  assumes "1 \<le> s" "s \<le> MAXSAT h" "1 \<le> s'" "s' \<le> MAXSAT h"
    and "IB h s f opt = IB h s' f' opt"
  shows "s = s' \<and> f = f'"
proof -
  from assms have e: "(s - 1) + f * MAXSAT h = (s' - 1) + f' * MAXSAT h"
    unfolding IB_eq [OF assms(1)] IB_eq [OF assms(3)] by (simp add: mult.commute)
  from assms have "s - 1 < MAXSAT h" "s' - 1 < MAXSAT h" by simp_all
  from flat_index_unique [OF this e] assms(1,3) show ?thesis by auto
qed

lemma on_ssat_simps:
  "rtk_ssat (on_ssat s g r) = (rtk_ssat r)(s := g (rtk_ssat r s))"
  "rtk_opt (on_ssat s g r) = rtk_opt r" "rtk_nx (on_ssat s g r) = rtk_nx r"
  "rtk_tt (on_ssat s g r) = rtk_tt r" "rtk_x (on_ssat s g r) = rtk_x r"
  "rtk_P (on_ssat s g r) = rtk_P r" "rtk_ambc_flags (on_ssat s g r) = rtk_ambc_flags r"
  by (simp_all add: on_ssat_def)

lemma reset_sat_eq:
  "udbias_reset_sat h c f i r =
     (if reset_cond c f r i
      then initx (on_ssat i (\<lambda>s. s\<lparr>outc := (outc s)(f := outc s f + 1)\<rparr>) r) 0 0 (IB h (i + 1) f (rtk_opt r))
      else on_ssat i (\<lambda>s. s\<lparr>outc := (outc s)(f := outc s f + 1)\<rparr>) r)"
  by (simp add: udbias_reset_sat_def reset_cond_def Let_def on_ssat_simps)

lemma reset_sat_static: "static (udbias_reset_sat h c f i r) = static r"
  by (simp add: reset_sat_eq static_def initx_frame on_ssat_simps)

lemma reset_sat_ssat:
  "rtk_ssat (udbias_reset_sat h c f i r) = (rtk_ssat r)(i := (rtk_ssat r i)\<lparr>outc := (outc (rtk_ssat r i))(f := outc (rtk_ssat r i) f + 1)\<rparr>)"
  by (simp add: reset_sat_eq initx_frame on_ssat_simps)

lemma reset_sat_x:
  "rtk_x (udbias_reset_sat h c f i r) m
     = (if m = IB h (i + 1) f (rtk_opt r) \<and> reset_cond c f r i then 0 else rtk_x r m)"
  by (simp add: reset_sat_eq initx_x on_ssat_simps)

lemma reset_sat_P:
  assumes "IB h (i + 1) f (rtk_opt r) < rtk_nx r" "m < rtk_nx r"
  shows "rtk_P (udbias_reset_sat h c f i r) (m + m * rtk_nx r)
     = (if m = IB h (i + 1) f (rtk_opt r) \<and> reset_cond c f r i then 0 else rtk_P r (m + m * rtk_nx r))"
proof -
  define J where "J = IB h (i + 1) f (rtk_opt r)"
  define r1 where "r1 = on_ssat i (\<lambda>s. s\<lparr>outc := (outc s)(f := outc s f + 1)\<rparr>) r"
  have r1: "rtk_nx r1 = rtk_nx r" "rtk_P r1 = rtk_P r"
    by (simp_all add: r1_def on_ssat_simps)
  from assms have "J < rtk_nx r1" "m < rtk_nx r1"
    by (simp_all add: J_def r1)
  from initx_P_diag [OF this, of 0 0]
  have i: "rtk_P (initx r1 0 0 J) (m + m * rtk_nx r) = (if m = J then 0 else rtk_P r (m + m * rtk_nx r))"
    by (simp add: r1)
  have e: "udbias_reset_sat h c f i r = (if reset_cond c f r i then initx r1 0 0 J else r1)"
    unfolding reset_sat_eq J_def r1_def ..
  show ?thesis
    unfolding e J_def [symmetric] using i by (auto simp: r1)
qed

lemma reset_cond_cong:
  "rtk_opt r = rtk_opt r' \<Longrightarrow> rtk_ssat r i = rtk_ssat r' i \<Longrightarrow> reset_cond c f r i = reset_cond c f r' i"
  by (simp add: reset_cond_def)

lemma reset_fold:
  assumes nx: "rtk_nx r0 = NX h (rtk_opt r0)" and f: "f < nat (NF (rtk_opt r0))"
    and m: "m < rtk_nx r0"
  shows "M \<le> MAXSAT h \<Longrightarrow>
     static (fold (udbias_reset_sat h c f) [0..<M] r0) = static r0 \<and>
     (\<forall>i\<ge>M. rtk_ssat (fold (udbias_reset_sat h c f) [0..<M] r0) i = rtk_ssat r0 i) \<and>
     (\<forall>i. slip (rtk_ssat (fold (udbias_reset_sat h c f) [0..<M] r0) i) = slip (rtk_ssat r0 i) \<and>
          ssat_azel (rtk_ssat (fold (udbias_reset_sat h c f) [0..<M] r0) i) = ssat_azel (rtk_ssat r0 i)) \<and>
     rtk_x (fold (udbias_reset_sat h c f) [0..<M] r0) m
       = (if \<exists>i<M. m = IB h (i + 1) f (rtk_opt r0) \<and> reset_cond c f r0 i then 0 else rtk_x r0 m) \<and>
     rtk_P (fold (udbias_reset_sat h c f) [0..<M] r0) (m + m * rtk_nx r0)
       = (if \<exists>i<M. m = IB h (i + 1) f (rtk_opt r0) \<and> reset_cond c f r0 i then 0
          else rtk_P r0 (m + m * rtk_nx r0))"
proof (induction M)
  case 0
  show ?case by simp
next
  case (Suc M)
  define rM where "rM = fold (udbias_reset_sat h c f) [0..<M] r0"
  from Suc have IH:
    "static rM = static r0"
    "\<forall>i\<ge>M. rtk_ssat rM i = rtk_ssat r0 i"
    "\<forall>i. slip (rtk_ssat rM i) = slip (rtk_ssat r0 i) \<and> ssat_azel (rtk_ssat rM i) = ssat_azel (rtk_ssat r0 i)"
    "rtk_x rM m = (if \<exists>i<M. m = IB h (i + 1) f (rtk_opt r0) \<and> reset_cond c f r0 i then 0 else rtk_x r0 m)"
    "rtk_P rM (m + m * rtk_nx r0)
       = (if \<exists>i<M. m = IB h (i + 1) f (rtk_opt r0) \<and> reset_cond c f r0 i then 0
          else rtk_P r0 (m + m * rtk_nx r0))"
    unfolding rM_def by simp_all
  from IH(1) have st: "rtk_opt rM = rtk_opt r0" "rtk_nx rM = rtk_nx r0"
    by (simp_all add: static_def)
  have step: "fold (udbias_reset_sat h c f) [0..<Suc M] r0 = udbias_reset_sat h c f M rM"
    unfolding rM_def by simp
  have cond: "reset_cond c f rM M = reset_cond c f r0 M"
    by (rule reset_cond_cong) (use st IH(2) in simp_all)
  from Suc.prems have "1 \<le> M + 1" "M + 1 \<le> MAXSAT h" by simp_all
  from IB_less_NX [OF this, where f = f and opt = "rtk_opt r0"] f nx
  have J: "IB h (M + 1) f (rtk_opt rM) < rtk_nx rM"
    by (simp add: st)
  have ex: "(\<exists>i<Suc M. m = IB h (i + 1) f (rtk_opt r0) \<and> reset_cond c f r0 i)
        = ((\<exists>i<M. m = IB h (i + 1) f (rtk_opt r0) \<and> reset_cond c f r0 i) \<or>
           (m = IB h (M + 1) f (rtk_opt r0) \<and> reset_cond c f r0 M))"
    by (auto simp: less_Suc_eq)
  have 1: "static (udbias_reset_sat h c f M rM) = static r0"
    by (simp add: reset_sat_static IH(1))
  have 2: "\<forall>i\<ge>Suc M. rtk_ssat (udbias_reset_sat h c f M rM) i = rtk_ssat r0 i"
    using IH(2) by (simp add: reset_sat_ssat)
  have 3: "\<forall>i. slip (rtk_ssat (udbias_reset_sat h c f M rM) i) = slip (rtk_ssat r0 i) \<and>
          ssat_azel (rtk_ssat (udbias_reset_sat h c f M rM) i) = ssat_azel (rtk_ssat r0 i)"
    using IH(3) by (simp add: reset_sat_ssat)
  have 4: "rtk_x (udbias_reset_sat h c f M rM) m
       = (if \<exists>i<Suc M. m = IB h (i + 1) f (rtk_opt r0) \<and> reset_cond c f r0 i then 0 else rtk_x r0 m)"
  proof -
    have "rtk_x (udbias_reset_sat h c f M rM) m
       = (if m = IB h (M + 1) f (rtk_opt r0) \<and> reset_cond c f r0 M then 0 else rtk_x rM m)"
      by (simp only: reset_sat_x cond st)
    then show ?thesis
      unfolding ex IH(4) by (simp only: split: if_split) blast
  qed
  from m have m': "m < rtk_nx rM" by (simp add: st)
  have 5: "rtk_P (udbias_reset_sat h c f M rM) (m + m * rtk_nx r0)
       = (if \<exists>i<Suc M. m = IB h (i + 1) f (rtk_opt r0) \<and> reset_cond c f r0 i then 0
          else rtk_P r0 (m + m * rtk_nx r0))"
  proof -
    from reset_sat_P [OF J m', of c]
    have "rtk_P (udbias_reset_sat h c f M rM) (m + m * rtk_nx r0)
       = (if m = IB h (M + 1) f (rtk_opt r0) \<and> reset_cond c f r0 M then 0
          else rtk_P rM (m + m * rtk_nx r0))"
      by (simp only: cond st)
    then show ?thesis
      unfolding ex IH(5) by (simp only: split: if_split) blast
  qed
  from 1 2 3 4 5 show ?case
    unfolding step by blast
qed

lemma udbias_reset_view:
  assumes nx: "rtk_nx r0 = NX h (rtk_opt r0)" and f: "f < nat (NF (rtk_opt r0))"
    and m: "m < rtk_nx r0"
  shows "static (udbias_reset h c f r0) = static r0"
    and "slip (rtk_ssat (udbias_reset h c f r0) i) = slip (rtk_ssat r0 i)"
    and "ssat_azel (rtk_ssat (udbias_reset h c f r0) i) = ssat_azel (rtk_ssat r0 i)"
    and "rtk_x (udbias_reset h c f r0) m
       = (if \<exists>i<MAXSAT h. m = IB h (i + 1) f (rtk_opt r0) \<and> reset_cond c f r0 i then 0 else rtk_x r0 m)"
    and "rtk_P (udbias_reset h c f r0) (m + m * rtk_nx r0)
       = (if \<exists>i<MAXSAT h. m = IB h (i + 1) f (rtk_opt r0) \<and> reset_cond c f r0 i then 0
          else rtk_P r0 (m + m * rtk_nx r0))"
  using reset_fold [OF nx f m, where M = "MAXSAT h" and c = c] unfolding udbias_reset_def by simp_all

lemma IB_Suc': "IB h (Suc i) f opt = NR h opt + MAXSAT h * f + i"
  by (simp add: IB_def)

lemma jump_sat_static: "static (udbias_jump_sat h f d i r) = static r"
  by (simp add: udbias_jump_sat_def static_def Let_def)

lemma jump_sat_frame:
  "rtk_ssat (udbias_jump_sat h f d i r) = rtk_ssat r" "rtk_P (udbias_jump_sat h f d i r) = rtk_P r"
  "rtk_opt (udbias_jump_sat h f d i r) = rtk_opt r" "rtk_nx (udbias_jump_sat h f d i r) = rtk_nx r"
  "rtk_ambc_flags (udbias_jump_sat h f d i r) = rtk_ambc_flags r"
  by (simp_all add: udbias_jump_sat_def Let_def)

lemma jump_sat_x:
  "rtk_x (udbias_jump_sat h f d i r) m
    = (if m = IB h (i + 1) f (rtk_opt r) \<and> rtk_x r m \<noteq> 0 then rtk_x r m + d else rtk_x r m)"
  by (auto simp: udbias_jump_sat_def Let_def)

lemma jump_fold:
  "rtk_opt (fold (udbias_jump_sat h f d) [0..<M] r0) = rtk_opt r0 \<and>
   rtk_nx (fold (udbias_jump_sat h f d) [0..<M] r0) = rtk_nx r0 \<and>
   rtk_tt (fold (udbias_jump_sat h f d) [0..<M] r0) = rtk_tt r0 \<and>
   rtk_ssat (fold (udbias_jump_sat h f d) [0..<M] r0) = rtk_ssat r0 \<and>
   rtk_P (fold (udbias_jump_sat h f d) [0..<M] r0) = rtk_P r0 \<and>
   rtk_ambc_flags (fold (udbias_jump_sat h f d) [0..<M] r0) = rtk_ambc_flags r0 \<and>
   (\<forall>m. rtk_x (fold (udbias_jump_sat h f d) [0..<M] r0) m
        = (if (\<exists>i<M. m = IB h (i + 1) f (rtk_opt r0)) \<and> rtk_x r0 m \<noteq> 0 then rtk_x r0 m + d
           else rtk_x r0 m))"
proof (induction M)
  case 0
  show ?case by simp
next
  case (Suc M)
  define rM where "rM = fold (udbias_jump_sat h f d) [0..<M] r0"
  from Suc have IH: "rtk_opt rM = rtk_opt r0" "rtk_nx rM = rtk_nx r0" "rtk_tt rM = rtk_tt r0"
    "rtk_ssat rM = rtk_ssat r0" "rtk_P rM = rtk_P r0" "rtk_ambc_flags rM = rtk_ambc_flags r0"
    "\<And>m. rtk_x rM m = (if (\<exists>i<M. m = IB h (i + 1) f (rtk_opt r0)) \<and> rtk_x r0 m \<noteq> 0
                         then rtk_x r0 m + d else rtk_x r0 m)"
    unfolding rM_def by simp_all
  have step: "fold (udbias_jump_sat h f d) [0..<Suc M] r0 = udbias_jump_sat h f d M rM"
    unfolding rM_def by simp
  have new: "\<not> (\<exists>i<M. IB h (M + 1) f (rtk_opt r0) = IB h (i + 1) f (rtk_opt r0))"
    by (simp add: IB_Suc')
  have x: "rtk_x (udbias_jump_sat h f d M rM) m
        = (if (\<exists>i<Suc M. m = IB h (i + 1) f (rtk_opt r0)) \<and> rtk_x r0 m \<noteq> 0 then rtk_x r0 m + d
           else rtk_x r0 m)" for m
  proof (cases "m = IB h (M + 1) f (rtk_opt r0)")
    case True
    with new have "rtk_x rM m = rtk_x r0 m"
      unfolding IH(7) by auto
    with True show ?thesis
      by (auto simp: jump_sat_x IH(1))
  next
    case False
    then have "(\<exists>i<Suc M. m = IB h (i + 1) f (rtk_opt r0)) = (\<exists>i<M. m = IB h (i + 1) f (rtk_opt r0))"
      by (auto simp: less_Suc_eq)
    with False show ?thesis
      by (simp add: jump_sat_x IH(1) IH(7))
  qed
  from x show ?case
    unfolding step by (simp add: jump_sat_frame udbias_jump_sat_def [of h f d M rM, THEN arg_cong [of _ _ rtk_tt]] IH Let_def)
qed

lemma meas_cong:
  "ssat_azel ss = ssat_azel ss' \<Longrightarrow> slip ss = slip ss' \<Longrightarrow>
   udbias_meas h ext opt ss nav ob f so = udbias_meas h ext opt ss' nav ob f so"
  by (simp add: udbias_meas_def split: prod.split)

lemma meas_fst_indep:
  "fst (udbias_meas h ext opt ss nav ob f so) = fst (udbias_meas h ext opt ss nav ob f so')"
  by (simp add: udbias_meas_def Let_def split: prod.split)

lemma meas_slip:
  assumes "fst (udbias_meas h ext opt ss nav ob f so) \<noteq> 0" "slip ss f \<noteq> 0" "f < nat (NF opt)"
  shows "snd (udbias_meas h ext opt ss nav ob f so) \<noteq> 0"
proof (cases "ionoopt opt = IONOOPT_IFLC")
  case True
  with assms(3) have "f = 0" by (simp add: NF_def)
  with assms(2) True show ?thesis
    by (simp add: udbias_meas_def split: prod.split)
next
  case False
  obtain L P Lc Pc where cm: "corr_meas h ext ob nav (ssat_azel ss) opt (\<lambda>_. 0) (\<lambda>_. 0) 0 = (L, P, Lc, Pc)"
    by (cases "corr_meas h ext ob nav (ssat_azel ss) opt (\<lambda>_. 0) (\<lambda>_. 0) 0") auto
  from assms(1) False have "L f \<noteq> 0 \<and> P f \<noteq> 0"
    unfolding udbias_meas_def cm by (auto split: if_splits)
  with False assms(2) show ?thesis
    unfolding udbias_meas_def cm by (simp add: Let_def uint_0_iff)
qed

lemma collect_step:
  "ub_bias (fst (udbias_collect h ext r nav obs f i st))
     = (ub_bias (fst st))(i := fst (meas_at h ext r nav obs f i (ub_slip (fst st) i)))"
  "ub_slip (fst (udbias_collect h ext r nav obs f i st))
     = (ub_slip (fst st))(i := snd (meas_at h ext r nav obs f i (ub_slip (fst st) i)))"
  by (cases st; simp add: udbias_collect_def meas_at_def Let_def)+

lemma collect_fold:
  "\<forall>i. ub_bias (fst (fold (udbias_collect h ext r nav obs f) [0..<N] st)) i
     = (if i < N then fst (meas_at h ext r nav obs f i (ub_slip (fst st) i)) else ub_bias (fst st) i) \<and>
   ub_slip (fst (fold (udbias_collect h ext r nav obs f) [0..<N] st)) i
     = (if i < N then snd (meas_at h ext r nav obs f i (ub_slip (fst st) i)) else ub_slip (fst st) i)"
proof (induction N)
  case 0
  show ?case by simp
next
  case (Suc N)
  define sN where "sN = fold (udbias_collect h ext r nav obs f) [0..<N] st"
  have step: "fold (udbias_collect h ext r nav obs f) [0..<Suc N] st = udbias_collect h ext r nav obs f N sN"
    unfolding sN_def by simp
  from Suc have IH:
    "\<And>i. ub_bias (fst sN) i = (if i < N then fst (meas_at h ext r nav obs f i (ub_slip (fst st) i))
                              else ub_bias (fst st) i)"
    "\<And>i. ub_slip (fst sN) i = (if i < N then snd (meas_at h ext r nav obs f i (ub_slip (fst st) i))
                              else ub_slip (fst st) i)"
    unfolding sN_def by simp_all
  have sl: "ub_slip (fst sN) N = ub_slip (fst st) N"
    by (simp add: IH(2))
  show ?case
    unfolding step collect_step sl by (simp add: IH less_Suc_eq)
qed

lemma reinit_static: "static (udbias_reinit h obs f loc i r) = static r"
  by (simp add: udbias_reinit_def static_def initx_frame Let_def)

lemma reinit_ssat: "rtk_ssat (udbias_reinit h obs f loc i r) = rtk_ssat r"
  by (simp add: udbias_reinit_def initx_frame Let_def)

lemma reinit_x:
  "rtk_x (udbias_reinit h obs f loc i r) m
     = (if m = IB h (obs_sat (obs i)) f (rtk_opt r) \<and> reinit_cond loc i r m then ub_bias loc i
        else rtk_x r m)"
  by (auto simp: udbias_reinit_def reinit_cond_def initx_x Let_def)

lemma reinit_P:
  assumes "IB h (obs_sat (obs i)) f (rtk_opt r) < rtk_nx r" "m < rtk_nx r"
  shows "rtk_P (udbias_reinit h obs f loc i r) (m + m * rtk_nx r)
     = (if m = IB h (obs_sat (obs i)) f (rtk_opt r)
        then (if reinit_cond loc i r m then VAR_BIAS
              else rtk_P r (m + m * rtk_nx r) + SQR (prn (rtk_opt r) 0) * \<bar>rtk_tt r\<bar>)
        else rtk_P r (m + m * rtk_nx r))"
proof -
  define J where "J = IB h (obs_sat (obs i)) f (rtk_opt r)"
  define r1 where "r1 = r\<lparr>rtk_P := (rtk_P r)(J + J * rtk_nx r :=
                     rtk_P r (J + J * rtk_nx r) + SQR (prn (rtk_opt r) 0) * \<bar>rtk_tt r\<bar>)\<rparr>"
  have r1: "rtk_nx r1 = rtk_nx r" "rtk_x r1 = rtk_x r" "rtk_opt r1 = rtk_opt r"
    by (simp_all add: r1_def)
  from assms have "J < rtk_nx r1" "m < rtk_nx r1"
    by (simp_all add: J_def r1)
  from initx_P_diag [OF this, of "ub_bias loc i" VAR_BIAS]
  have i: "rtk_P (initx r1 (ub_bias loc i) VAR_BIAS J) (m + m * rtk_nx r)
       = (if m = J then VAR_BIAS else rtk_P r1 (m + m * rtk_nx r))"
    by (simp add: r1)
  have d: "m \<noteq> J \<Longrightarrow> m + m * rtk_nx r \<noteq> J + J * rtk_nx r"
    using flat_index_unique [of m "rtk_nx r" J m J] assms by (auto simp: J_def)
  have p1: "rtk_P r1 (m + m * rtk_nx r)
       = (if m = J then rtk_P r (m + m * rtk_nx r) + SQR (prn (rtk_opt r) 0) * \<bar>rtk_tt r\<bar>
          else rtk_P r (m + m * rtk_nx r))"
    using d by (auto simp: r1_def)
  have e: "udbias_reinit h obs f loc i r =
      (if reinit_cond loc i r J
       then (initx r1 (ub_bias loc i) VAR_BIAS J)\<lparr>rtk_ambc_flags :=
               (rtk_ambc_flags (initx r1 (ub_bias loc i) VAR_BIAS J))
                 (obs_sat (obs i) - 1 := (\<lambda>k. if k < MAXSAT h then 0
                     else rtk_ambc_flags (initx r1 (ub_bias loc i) VAR_BIAS J) (obs_sat (obs i) - 1) k))\<rparr>
       else r1)"
    unfolding udbias_reinit_def Let_def reinit_cond_def J_def [symmetric] r1_def [symmetric] r1
    by simp
  show ?thesis
    unfolding e J_def [symmetric] using i p1 by auto
qed

lemma static_sel: "static r = static r' \<Longrightarrow> rtk_opt r = rtk_opt r' \<and> rtk_nx r = rtk_nx r' \<and> rtk_tt r = rtk_tt r'"
  by (simp add: static_def)

lemma reinit_fold_static:
  "static (fold (udbias_reinit h obs f loc) js r0) = static r0 \<and>
   rtk_ssat (fold (udbias_reinit h obs f loc) js r0) = rtk_ssat r0"
proof -
  have "True \<and> (\<lambda>r. (static r, rtk_ssat r)) (fold (udbias_reinit h obs f loc) js r0)
        = (\<lambda>r. (static r, rtk_ssat r)) r0"
    by (rule fold_inv [where I = "\<lambda>_. True"]) (simp_all add: reinit_static reinit_ssat)
  then show ?thesis by simp
qed

lemma reinit_fold_frame:
  assumes m: "m < rtk_nx r0"
    and js: "\<And>i. i \<in> set js \<Longrightarrow> IB h (obs_sat (obs i)) f (rtk_opt r0) < rtk_nx r0 \<and>
                                 IB h (obs_sat (obs i)) f (rtk_opt r0) \<noteq> m"
  shows "rtk_x (fold (udbias_reinit h obs f loc) js r0) m = rtk_x r0 m \<and>
         rtk_P (fold (udbias_reinit h obs f loc) js r0) (m + m * rtk_nx r0) = rtk_P r0 (m + m * rtk_nx r0)"
proof -
  have "static (fold (udbias_reinit h obs f loc) js r0) = static r0 \<and>
        (\<lambda>r. (rtk_x r m, rtk_P r (m + m * rtk_nx r0))) (fold (udbias_reinit h obs f loc) js r0)
        = (\<lambda>r. (rtk_x r m, rtk_P r (m + m * rtk_nx r0))) r0"
  proof (rule fold_inv [where I = "\<lambda>r. static r = static r0"])
    show "static r0 = static r0" ..
    fix i r assume i: "i \<in> set js" and st: "static r = static r0"
    from static_sel [OF st] have s: "rtk_opt r = rtk_opt r0" "rtk_nx r = rtk_nx r0"
      by simp_all
    from js [OF i] s m have a: "IB h (obs_sat (obs i)) f (rtk_opt r) < rtk_nx r" "m < rtk_nx r"
      and ne: "m \<noteq> IB h (obs_sat (obs i)) f (rtk_opt r)"
      by auto
    from reinit_P [where h = h and obs = obs and i = i and f = f and r = r and m = m and loc = loc, OF a] ne have "rtk_P (udbias_reinit h obs f loc i r) (m + m * rtk_nx r0)
        = rtk_P r (m + m * rtk_nx r0)"
      by (simp add: s)
    moreover from ne have "rtk_x (udbias_reinit h obs f loc i r) m = rtk_x r m"
      by (simp add: reinit_x)
    ultimately show "static (udbias_reinit h obs f loc i r) = static r0 \<and>
         (rtk_x (udbias_reinit h obs f loc i r) m,
          rtk_P (udbias_reinit h obs f loc i r) (m + m * rtk_nx r0)) =
         (rtk_x r m, rtk_P r (m + m * rtk_nx r0))"
      by (simp add: reinit_static st)
  qed
  then show ?thesis by simp
qed

lemma upt_split: "i0 < N \<Longrightarrow> [0..<N] = [0..<i0] @ i0 # [Suc i0..<N]"
  by (metis le0 le_add_diff_inverse less_imp_le upt_add_eq_append upt_conv_Cons)

lemma reinit_fold_hit:
  assumes i0: "i0 < N"
    and ok: "\<And>i. i < N \<Longrightarrow> IB h (obs_sat (obs i)) f (rtk_opt r0) < rtk_nx r0"
    and dist: "\<And>i. i < N \<Longrightarrow> i \<noteq> i0 \<Longrightarrow>
                 IB h (obs_sat (obs i)) f (rtk_opt r0) \<noteq> IB h (obs_sat (obs i0)) f (rtk_opt r0)"
    and b: "ub_bias loc i0 \<noteq> 0" and s: "ub_slip loc i0 \<noteq> 0"
    and J: "J = IB h (obs_sat (obs i0)) f (rtk_opt r0)"
  shows "rtk_x (fold (udbias_reinit h obs f loc) [0..<N] r0) J = ub_bias loc i0 \<and>
         rtk_P (fold (udbias_reinit h obs f loc) [0..<N] r0) (J + J * rtk_nx r0) = VAR_BIAS"
proof -
  define r1 where "r1 = fold (udbias_reinit h obs f loc) [0..<i0] r0"
  define r2 where "r2 = udbias_reinit h obs f loc i0 r1"
  have f: "fold (udbias_reinit h obs f loc) [0..<N] r0
           = fold (udbias_reinit h obs f loc) [Suc i0..<N] r2"
    unfolding upt_split [OF i0] r1_def r2_def by simp
  from reinit_fold_static [of h obs f loc "[0..<i0]" r0] have "static r1 = static r0"
    unfolding r1_def by simp
  from static_sel [OF this] have s1: "rtk_opt r1 = rtk_opt r0" "rtk_nx r1 = rtk_nx r0"
    by simp_all
  from reinit_static [of h obs f loc i0 r1] \<open>static r1 = static r0\<close> have "static r2 = static r0"
    unfolding r2_def by simp
  from static_sel [OF this] have s2: "rtk_opt r2 = rtk_opt r0" "rtk_nx r2 = rtk_nx r0"
    by simp_all
  from ok [OF i0] have Jn: "J < rtk_nx r0"
    by (simp add: J)
  from b s have c: "reinit_cond loc i0 r1 J"
    by (simp add: reinit_cond_def)
  have x2: "rtk_x r2 J = ub_bias loc i0"
    unfolding r2_def reinit_x s1 J [symmetric] using c by simp
  from Jn have a: "IB h (obs_sat (obs i0)) f (rtk_opt r1) < rtk_nx r1" "J < rtk_nx r1"
    by (simp_all add: s1 J)
  from reinit_P [where h = h and obs = obs and i = i0 and f = f and r = r1 and m = J and loc = loc, OF a] c have P2: "rtk_P r2 (J + J * rtk_nx r0) = VAR_BIAS"
    unfolding r2_def by (simp add: s1 J)
  have "rtk_x (fold (udbias_reinit h obs f loc) [Suc i0..<N] r2) J = rtk_x r2 J \<and>
        rtk_P (fold (udbias_reinit h obs f loc) [Suc i0..<N] r2) (J + J * rtk_nx r2)
          = rtk_P r2 (J + J * rtk_nx r2)"
  proof (rule reinit_fold_frame)
    show "J < rtk_nx r2" using Jn by (simp add: s2)
    fix i assume "i \<in> set [Suc i0..<N]"
    then have "i < N" "i \<noteq> i0" by simp_all
    from ok [OF this(1)] dist [OF this]
    show "IB h (obs_sat (obs i)) f (rtk_opt r2) < rtk_nx r2 \<and> IB h (obs_sat (obs i)) f (rtk_opt r2) \<noteq> J"
      by (simp add: s2 J)
  qed
  with x2 P2 show ?thesis
    unfolding f by (simp add: s2)
qed

lemma same_sats_refl: "same_sats r r"
  by (simp add: same_sats_def)

lemma same_sats_trans: "same_sats r r1 \<Longrightarrow> same_sats r1 r0 \<Longrightarrow> same_sats r r0"
  by (simp add: same_sats_def)

lemma same_sats_sel:
  "same_sats r r0 \<Longrightarrow> rtk_opt r = rtk_opt r0 \<and> rtk_nx r = rtk_nx r0 \<and> rtk_tt r = rtk_tt r0"
  by (simp add: same_sats_def static_def)

lemma meas_at_cong:
  assumes "same_sats r r0"
  shows "meas_at h ext r nav obs f i so = meas_at h ext r0 nav obs f i so"
proof -
  from same_sats_sel [OF assms] have o: "rtk_opt r = rtk_opt r0" by simp
  from assms have "ssat_azel (rtk_ssat r (obs_sat (obs i) - 1)) = ssat_azel (rtk_ssat r0 (obs_sat (obs i) - 1))"
    "slip (rtk_ssat r (obs_sat (obs i) - 1)) = slip (rtk_ssat r0 (obs_sat (obs i) - 1))"
    by (simp_all add: same_sats_def)
  from meas_cong [OF this] show ?thesis
    unfolding meas_at_def o .
qed

lemma NX_pos: "0 < NX h opt"
  by (simp add: NX_def NR_def NP_def)

lemma reset_same_sats:
  assumes nx: "rtk_nx r0 = NX h (rtk_opt r0)" and f: "f < nat (NF (rtk_opt r0))"
  shows "same_sats (udbias_reset h c f r0) r0"
proof -
  from nx NX_pos [of h "rtk_opt r0"] have m: "0 < rtk_nx r0" by simp
  from udbias_reset_view(1,2,3) [OF nx f m] show ?thesis
    by (simp add: same_sats_def)
qed

lemma jump_same_sats: "same_sats (udbias_jump h f loc k r) r"
  using jump_fold [of h f "ub_offset loc / real_of_int k" "MAXSAT h" r]
  by (simp add: udbias_jump_def same_sats_def static_def)

lemma jump_P: "rtk_P (udbias_jump h f loc k r) = rtk_P r"
  using jump_fold [of h f "ub_offset loc / real_of_int k" "MAXSAT h" r]
  by (simp add: udbias_jump_def)

lemma jump_x_frame:
  assumes "\<And>i. i < MAXSAT h \<Longrightarrow> m \<noteq> IB h (i + 1) f (rtk_opt r)"
  shows "rtk_x (udbias_jump h f loc k r) m = rtk_x r m"
  using jump_fold [of h f "ub_offset loc / real_of_int k" "MAXSAT h" r] assms
  by (auto simp: udbias_jump_def)

lemma reinit_same_sats: "same_sats (fold (udbias_reinit h obs f loc) js r) r"
  using reinit_fold_static [of h obs f loc js r] by (simp add: same_sats_def)

lemma freq_unfold:
  "fst (udbias_freq h ext nav obs n c f (r, loc)) =
     fold (udbias_reinit h obs f
             (fst (fold (udbias_collect h ext (udbias_reset h c f r) nav obs f) (obs_range h n) (loc, 0))))
       (obs_range h n)
       (udbias_jump h f
          (fst (fold (udbias_collect h ext (udbias_reset h c f r) nav obs f) (obs_range h n) (loc, 0)))
          (snd (fold (udbias_collect h ext (udbias_reset h c f r) nav obs f) (obs_range h n) (loc, 0)))
          (udbias_reset h c f r))"
  "snd (udbias_freq h ext nav obs n c f (r, loc)) =
     fst (fold (udbias_collect h ext (udbias_reset h c f r) nav obs f) (obs_range h n) (loc, 0))"
  by (simp_all add: udbias_freq_def Let_def)

lemma freq_same_sats:
  assumes nx: "rtk_nx r = NX h (rtk_opt r)" and f: "f < nat (NF (rtk_opt r))"
  shows "same_sats (fst (udbias_freq h ext nav obs n c f (r, loc))) r"
  unfolding freq_unfold
  by (rule same_sats_trans [OF reinit_same_sats], rule same_sats_trans [OF jump_same_sats],
      rule reset_same_sats [OF nx f])

lemma obs_range_upt: "obs_range h n = [0..<min (nat n) (MAXOBS h)]"
  by (simp add: obs_range_def)

lemma freq_frame:
  assumes nx: "rtk_nx r = NX h (rtk_opt r)"
    and f': "f' < nat (NF (rtk_opt r))" and f: "f < nat (NF (rtk_opt r))" and ne: "f' \<noteq> f"
    and s: "1 \<le> s" "s \<le> MAXSAT h"
    and ok: "obs_ok h obs (min (nat n) (MAXOBS h))"
    and m: "m = IB h s f (rtk_opt r)"
  shows "rtk_x (fst (udbias_freq h ext nav obs n c f' (r, loc))) m = rtk_x r m \<and>
         rtk_P (fst (udbias_freq h ext nav obs n c f' (r, loc))) (m + m * rtk_nx r) = rtk_P r (m + m * rtk_nx r)"
proof -
  define r1 where "r1 = udbias_reset h c f' r"
  define cl where "cl = fold (udbias_collect h ext r1 nav obs f') (obs_range h n) (loc, 0)"
  define r2 where "r2 = udbias_jump h f' (fst cl) (snd cl) r1"
  have e: "fst (udbias_freq h ext nav obs n c f' (r, loc))
             = fold (udbias_reinit h obs f' (fst cl)) (obs_range h n) r2"
    unfolding freq_unfold r1_def cl_def r2_def ..
  from IB_less_NX [OF s, where f = f and opt = "rtk_opt r"] f nx m have mn: "m < rtk_nx r"
    by simp
  have other: "m \<noteq> IB h s' f' (rtk_opt r)" if "1 \<le> s'" "s' \<le> MAXSAT h" for s'
    using IB_inj [OF s that, of f "rtk_opt r" f'] ne m by auto
  have other': "m \<noteq> IB h (i + 1) f' (rtk_opt r)" if "i < MAXSAT h" for i
    by (rule other) (use that in simp_all)
  then have noex: "\<not> (\<exists>i<MAXSAT h. m = IB h (i + 1) f' (rtk_opt r) \<and> reset_cond c f' r i)"
    by blast
  have x1: "rtk_x r1 m = rtk_x r m"
    unfolding r1_def udbias_reset_view(4) [OF nx f' mn, where c = c] by (simp only: noex if_False)
  have P1: "rtk_P r1 (m + m * rtk_nx r) = rtk_P r (m + m * rtk_nx r)"
    unfolding r1_def udbias_reset_view(5) [OF nx f' mn, where c = c] by (simp only: noex if_False)
  from same_sats_sel [OF reset_same_sats [OF nx f', of c]]
  have s1: "rtk_opt r1 = rtk_opt r" "rtk_nx r1 = rtk_nx r"
    unfolding r1_def by simp_all
  from same_sats_sel [OF jump_same_sats [of h f' "fst cl" "snd cl" r1]]
  have s2: "rtk_opt r2 = rtk_opt r" "rtk_nx r2 = rtk_nx r"
    unfolding r2_def by (simp_all add: s1)
  have "rtk_x r2 m = rtk_x r1 m"
    unfolding r2_def by (rule jump_x_frame) (simp only: s1 other' not_False_eq_True)
  with x1 have x2: "rtk_x r2 m = rtk_x r m" by simp
  from P1 have P2: "rtk_P r2 (m + m * rtk_nx r) = rtk_P r (m + m * rtk_nx r)"
    unfolding r2_def jump_P .
  have "rtk_x (fold (udbias_reinit h obs f' (fst cl)) (obs_range h n) r2) m = rtk_x r2 m \<and>
        rtk_P (fold (udbias_reinit h obs f' (fst cl)) (obs_range h n) r2) (m + m * rtk_nx r2)
          = rtk_P r2 (m + m * rtk_nx r2)"
  proof (rule reinit_fold_frame)
    show "m < rtk_nx r2" using mn by (simp add: s2)
    fix i assume "i \<in> set (obs_range h n)"
    then have i: "i < min (nat n) (MAXOBS h)" by (simp add: obs_range_upt)
    with ok have si: "1 \<le> obs_sat (obs i)" "obs_sat (obs i) \<le> MAXSAT h"
      by (simp_all add: obs_ok_def)
    from IB_less_NX [OF si, where f = f' and opt = "rtk_opt r"] f' nx other [OF si]
    show "IB h (obs_sat (obs i)) f' (rtk_opt r2) < rtk_nx r2 \<and> IB h (obs_sat (obs i)) f' (rtk_opt r2) \<noteq> m"
      by (simp add: s2)
  qed
  with x2 P2 show ?thesis
    unfolding e by (simp add: s2)
qed

lemma freq_hit:
  assumes nx: "rtk_nx r = NX h (rtk_opt r)"
    and f: "f < nat (NF (rtk_opt r))"
    and ok: "obs_ok h obs (min (nat n) (MAXOBS h))"
    and i0: "i0 < min (nat n) (MAXOBS h)"
    and sl: "slip (rtk_ssat r (obs_sat (obs i0) - 1)) f \<noteq> 0"
    and b: "fst (meas_at h ext r nav obs f i0 0) \<noteq> 0"
    and m: "m = IB h (obs_sat (obs i0)) f (rtk_opt r)"
  shows "rtk_x (fst (udbias_freq h ext nav obs n c f (r, loc))) m = fst (meas_at h ext r nav obs f i0 0) \<and>
         rtk_P (fst (udbias_freq h ext nav obs n c f (r, loc))) (m + m * rtk_nx r) = VAR_BIAS"
proof -
  define r1 where "r1 = udbias_reset h c f r"
  define cl where "cl = fold (udbias_collect h ext r1 nav obs f) (obs_range h n) (loc, 0)"
  define r2 where "r2 = udbias_jump h f (fst cl) (snd cl) r1"
  define N where "N = min (nat n) (MAXOBS h)"
  have e: "fst (udbias_freq h ext nav obs n c f (r, loc))
             = fold (udbias_reinit h obs f (fst cl)) [0..<N] r2"
    unfolding freq_unfold r1_def cl_def r2_def N_def obs_range_upt ..
  have ss1: "same_sats r1 r"
    unfolding r1_def by (rule reset_same_sats [OF nx f])
  from same_sats_sel [OF ss1] have s1: "rtk_opt r1 = rtk_opt r" "rtk_nx r1 = rtk_nx r"
    by simp_all
  from same_sats_sel [OF jump_same_sats [of h f "fst cl" "snd cl" r1]]
  have s2: "rtk_opt r2 = rtk_opt r" "rtk_nx r2 = rtk_nx r"
    unfolding r2_def by (simp_all add: s1)
  from collect_fold [of h ext r1 nav obs f N "(loc, 0)"] i0
  have cb: "ub_bias (fst cl) i0 = fst (meas_at h ext r1 nav obs f i0 (ub_slip loc i0))"
    and cs: "ub_slip (fst cl) i0 = snd (meas_at h ext r1 nav obs f i0 (ub_slip loc i0))"
    unfolding cl_def obs_range_upt N_def by simp_all
  have fi: "fst (meas_at h ext r nav obs f i0 so) = fst (meas_at h ext r nav obs f i0 0)" for so
    unfolding meas_at_def by (rule meas_fst_indep)
  from cb have cb': "ub_bias (fst cl) i0 = fst (meas_at h ext r nav obs f i0 0)"
    unfolding meas_at_cong [OF ss1] fi [of "ub_slip loc i0"] .
  from b have "fst (udbias_meas h ext (rtk_opt r) (rtk_ssat r (obs_sat (obs i0) - 1)) nav (obs i0) f
                 (ub_slip loc i0)) \<noteq> 0"
    using fi [of "ub_slip loc i0"] unfolding meas_at_def by simp
  from meas_slip [OF this sl f]
  have "snd (meas_at h ext r nav obs f i0 (ub_slip loc i0)) \<noteq> 0"
    unfolding meas_at_def .
  moreover from cs have "ub_slip (fst cl) i0 = snd (meas_at h ext r nav obs f i0 (ub_slip loc i0))"
    unfolding meas_at_cong [OF ss1] .
  ultimately have cs': "ub_slip (fst cl) i0 \<noteq> 0"
    by simp
  have "rtk_x (fold (udbias_reinit h obs f (fst cl)) [0..<N] r2) m = ub_bias (fst cl) i0 \<and>
        rtk_P (fold (udbias_reinit h obs f (fst cl)) [0..<N] r2) (m + m * rtk_nx r2) = VAR_BIAS"
  proof (rule reinit_fold_hit [where ?i0.0 = i0])
    show "i0 < N" using i0 by (simp add: N_def)
    show "ub_bias (fst cl) i0 \<noteq> 0" using b cb' by simp
    show "ub_slip (fst cl) i0 \<noteq> 0" by (rule cs')
    show "m = IB h (obs_sat (obs i0)) f (rtk_opt r2)" by (simp add: m s2)
  next
    fix i assume i: "i < N"
    with ok have si: "1 \<le> obs_sat (obs i)" "obs_sat (obs i) \<le> MAXSAT h"
      by (simp_all add: obs_ok_def N_def)
    from IB_less_NX [OF si, where f = f and opt = "rtk_opt r"] f nx
    show "IB h (obs_sat (obs i)) f (rtk_opt r2) < rtk_nx r2"
      by (simp add: s2)
  next
    fix i assume i: "i < N" and ne: "i \<noteq> i0"
    with ok i0 have si: "1 \<le> obs_sat (obs i)" "obs_sat (obs i) \<le> MAXSAT h"
      and s0: "1 \<le> obs_sat (obs i0)" "obs_sat (obs i0) \<le> MAXSAT h"
      and d: "obs_sat (obs i) \<noteq> obs_sat (obs i0)"
      by (auto simp: obs_ok_def N_def)
    from IB_inj [OF si s0, of f "rtk_opt r" f] d
    show "IB h (obs_sat (obs i)) f (rtk_opt r2) \<noteq> IB h (obs_sat (obs i0)) f (rtk_opt r2)"
      by (auto simp: s2)
  qed
  then show ?thesis
    unfolding e cb' by (simp add: s2)
qed

lemma freq_same_sats_st:
  assumes "rtk_nx (fst st) = NX h (rtk_opt (fst st))" "f < nat (NF (rtk_opt (fst st)))"
  shows "same_sats (fst (udbias_freq h ext nav obs n c f st)) (fst st)"
  using freq_same_sats [OF assms, of ext nav obs n c "snd st"] by simp

lemma loop_same_sats:
  assumes nx: "rtk_nx r0 = NX h (rtk_opt r0)"
    and fs: "\<And>f'. f' \<in> set fs \<Longrightarrow> f' < nat (NF (rtk_opt r0))"
    and st: "same_sats (fst st) r0"
  shows "same_sats (fst (fold (udbias_freq h ext nav obs n c) fs st)) r0"
proof -
  have "same_sats (fst (fold (udbias_freq h ext nav obs n c) fs st)) r0 \<and>
        (\<lambda>_. ()) (fold (udbias_freq h ext nav obs n c) fs st) = (\<lambda>_. ()) st"
  proof (rule fold_inv [where I = "\<lambda>s. same_sats (fst s) r0"])
    show "same_sats (fst st) r0" by (rule st)
    fix f' and s :: "rtk_t \<times> udb_t" assume f': "f' \<in> set fs" and s: "same_sats (fst s) r0"
    from same_sats_sel [OF s] nx fs [OF f']
    have "rtk_nx (fst s) = NX h (rtk_opt (fst s))" "f' < nat (NF (rtk_opt (fst s)))"
      by simp_all
    from same_sats_trans [OF freq_same_sats_st [OF this] s]
    show "same_sats (fst (udbias_freq h ext nav obs n c f' s)) r0 \<and> () = ()"
      by simp
  qed
  then show ?thesis by simp
qed

lemma loop_frame:
  assumes nx: "rtk_nx r0 = NX h (rtk_opt r0)"
    and fs: "\<And>f'. f' \<in> set fs \<Longrightarrow> f' < nat (NF (rtk_opt r0)) \<and> f' \<noteq> f"
    and f: "f < nat (NF (rtk_opt r0))"
    and s: "1 \<le> s" "s \<le> MAXSAT h"
    and ok: "obs_ok h obs (min (nat n) (MAXOBS h))"
    and m: "m = IB h s f (rtk_opt r0)"
    and st: "same_sats (fst st) r0"
  shows "rtk_x (fst (fold (udbias_freq h ext nav obs n c) fs st)) m = rtk_x (fst st) m \<and>
         rtk_P (fst (fold (udbias_freq h ext nav obs n c) fs st)) (m + m * rtk_nx r0)
           = rtk_P (fst st) (m + m * rtk_nx r0)"
proof -
  have "same_sats (fst (fold (udbias_freq h ext nav obs n c) fs st)) r0 \<and>
        (\<lambda>s. (rtk_x (fst s) m, rtk_P (fst s) (m + m * rtk_nx r0)))
            (fold (udbias_freq h ext nav obs n c) fs st)
          = (\<lambda>s. (rtk_x (fst s) m, rtk_P (fst s) (m + m * rtk_nx r0))) st"
  proof (rule fold_inv [where I = "\<lambda>s. same_sats (fst s) r0"])
    show "same_sats (fst st) r0" by (rule st)
    fix f' and q :: "rtk_t \<times> udb_t" assume f': "f' \<in> set fs" and q: "same_sats (fst q) r0"
    from same_sats_sel [OF q] have sq: "rtk_opt (fst q) = rtk_opt r0" "rtk_nx (fst q) = rtk_nx r0"
      by simp_all
    from sq nx fs [OF f'] f
    have a: "rtk_nx (fst q) = NX h (rtk_opt (fst q))" "f' < nat (NF (rtk_opt (fst q)))"
      "f < nat (NF (rtk_opt (fst q)))" "f' \<noteq> f"
      by simp_all
    from m have m': "m = IB h s f (rtk_opt (fst q))" by (simp add: sq)
    from freq_frame [OF a s ok m', of ext nav c "snd q"]
    have "rtk_x (fst (udbias_freq h ext nav obs n c f' q)) m = rtk_x (fst q) m \<and>
          rtk_P (fst (udbias_freq h ext nav obs n c f' q)) (m + m * rtk_nx r0)
            = rtk_P (fst q) (m + m * rtk_nx r0)"
      by (simp add: sq)
    with same_sats_trans [OF freq_same_sats_st [OF a(1,2)] q]
    show "same_sats (fst (udbias_freq h ext nav obs n c f' q)) r0 \<and>
          (rtk_x (fst (udbias_freq h ext nav obs n c f' q)) m,
           rtk_P (fst (udbias_freq h ext nav obs n c f' q)) (m + m * rtk_nx r0))
          = (rtk_x (fst q) m, rtk_P (fst q) (m + m * rtk_nx r0))"
      by simp
  qed
  then show ?thesis by simp
qed

lemma loop_hit:
  assumes nx: "rtk_nx r0 = NX h (rtk_opt r0)"
    and f: "f < NFn" and NFn: "NFn = nat (NF (rtk_opt r0))"
    and ok: "obs_ok h obs (min (nat n) (MAXOBS h))"
    and i0: "i0 < min (nat n) (MAXOBS h)"
    and sl: "slip (rtk_ssat r0 (obs_sat (obs i0) - 1)) f \<noteq> 0"
    and b: "fst (meas_at h ext r0 nav obs f i0 0) \<noteq> 0"
    and m: "m = IB h (obs_sat (obs i0)) f (rtk_opt r0)"
    and fin: "fin = fst (fold (udbias_freq h ext nav obs n c) [0..<NFn] (r0, loc))"
  shows "rtk_x fin m = fst (meas_at h ext r0 nav obs f i0 0) \<and>
         rtk_P fin (m + m * rtk_nx r0) = VAR_BIAS \<and> same_sats fin r0"
proof -
  define st1 where "st1 = fold (udbias_freq h ext nav obs n c) [0..<f] (r0, loc)"
  define st2 where "st2 = udbias_freq h ext nav obs n c f st1"
  have e: "fin = fst (fold (udbias_freq h ext nav obs n c) [Suc f..<NFn] st2)"
    unfolding fin upt_split [OF f] st1_def st2_def by simp
  have ss1: "same_sats (fst st1) r0"
    unfolding st1_def by (rule loop_same_sats [OF nx]) (use f NFn same_sats_refl in simp_all)
  from same_sats_sel [OF ss1] have s1: "rtk_opt (fst st1) = rtk_opt r0" "rtk_nx (fst st1) = rtk_nx r0"
    by simp_all
  from s1 nx f NFn have a: "rtk_nx (fst st1) = NX h (rtk_opt (fst st1))" "f < nat (NF (rtk_opt (fst st1)))"
    by simp_all
  from ss1 sl have sl1: "slip (rtk_ssat (fst st1) (obs_sat (obs i0) - 1)) f \<noteq> 0"
    by (simp add: same_sats_def)
  from b have b1: "fst (meas_at h ext (fst st1) nav obs f i0 0) \<noteq> 0"
    unfolding meas_at_cong [OF ss1] .
  from m have m1: "m = IB h (obs_sat (obs i0)) f (rtk_opt (fst st1))"
    by (simp add: s1)
  from freq_hit [OF a ok i0 sl1 b1 m1, of c "snd st1"]
  have h2: "rtk_x (fst st2) m = fst (meas_at h ext r0 nav obs f i0 0)"
    "rtk_P (fst st2) (m + m * rtk_nx r0) = VAR_BIAS"
    unfolding st2_def meas_at_cong [OF ss1] by (simp_all add: s1)
  have ss2: "same_sats (fst st2) r0"
    unfolding st2_def by (rule same_sats_trans [OF freq_same_sats_st [OF a] ss1])
  from ok i0 have s: "1 \<le> obs_sat (obs i0)" "obs_sat (obs i0) \<le> MAXSAT h"
    by (simp_all add: obs_ok_def)
  have fr: "rtk_x (fst (fold (udbias_freq h ext nav obs n c) [Suc f..<NFn] st2)) m = rtk_x (fst st2) m \<and>
        rtk_P (fst (fold (udbias_freq h ext nav obs n c) [Suc f..<NFn] st2)) (m + m * rtk_nx r0)
          = rtk_P (fst st2) (m + m * rtk_nx r0)"
    by (rule loop_frame [OF nx _ _ s ok m ss2]) (use f NFn in simp_all)
  have "same_sats (fst (fold (udbias_freq h ext nav obs n c) [Suc f..<NFn] st2)) r0"
    by (rule loop_same_sats [OF nx _ ss2]) (use NFn in simp)
  with fr h2 show ?thesis
    unfolding e by simp
qed

lemma on_ssat_static: "static (on_ssat s g r) = static r"
  by (simp add: static_def on_ssat_def)

lemma fold_on_ssat_static:
  "static (fold (\<lambda>i r. on_ssat (sel i) (g i r) r) js r0) = static r0"
proof -
  have "True \<and> static (fold (\<lambda>i r. on_ssat (sel i) (g i r) r) js r0) = static r0"
    by (rule fold_inv [where I = "\<lambda>_. True"]) (simp_all add: on_ssat_static)
  then show ?thesis by simp
qed

lemma detectors_static:
  "static (udbias_clear h r) = static r"
  "static (detslp_ll h r obs n) = static r"
  "static (detslp_mw h ext r obs n nav) = static r"
  "static (detslp_gf h ext r obs n nav) = static r"
  unfolding udbias_clear_def detslp_ll_def detslp_mw_def detslp_gf_def Let_def
  by (rule fold_on_ssat_static)+

text \<open>
  C4. Let the epoch have one observation per satellite, with satellite numbers from 1 to
  \<^verbatim>\<open>MAXSAT\<close>. For every observed satellite and every frequency \<open>f < NF\<close>: if a slip
  detector set \<open>slip[sat,f]\<close> at this epoch and the locally computed bias is not 0, then
  after \<open>udbias_ppp\<close> the ambiguity state \<open>IB sat f\<close> equals that bias and its variance
  equals \<open>VAR_BIAS\<close> exactly. (With a bias of 0 the state is not reinitialised, line 931.)
\<close>

theorem udbias_ppp_slip_reinit:
  assumes nx: "rtk_nx rtk = NX h (rtk_opt rtk)"
    and ok: "obs_ok h obs (min (nat n) (MAXOBS h))"
    and i: "i < min (nat n) (MAXOBS h)"
    and f: "f < nat (NF (rtk_opt rtk))"
    and r': "rtk' = udbias_ppp h ext tow rtk obs n nav"
    and sat: "sat = obs_sat (obs i)"
    and sl: "slip (rtk_ssat rtk' (sat - 1)) f \<noteq> 0"
    and b: "bias = fst (udbias_meas h ext (rtk_opt rtk') (rtk_ssat rtk' (sat - 1)) nav (obs i) f 0)"
    and bn: "bias \<noteq> 0"
    and j: "j = IB h sat f (rtk_opt rtk)"
  shows "rtk_x rtk' j = bias \<and> rtk_P rtk' (j + j * rtk_nx rtk) = VAR_BIAS"
proof -
  define r3 where "r3 = detslp_gf h ext (detslp_mw h ext (detslp_ll h (udbias_clear h rtk) obs n) obs n nav) obs n nav"
  define c where "c = udbias_clk_jump (rtk_opt rtk) tow"
  define loc where "loc = \<lparr>ub_bias = (\<lambda>_. 0), ub_offset = 0, ub_offseti = (\<lambda>_. 0), ub_slip = (\<lambda>_. (0::int))\<rparr>"
  have e: "rtk' = fst (fold (udbias_freq h ext nav obs n c) [0..<nat (NF (rtk_opt r3))] (r3, loc))"
    unfolding r' udbias_ppp_def Let_def r3_def c_def loc_def ..
  have "static r3 = static rtk"
    unfolding r3_def by (simp add: detectors_static)
  from static_sel [OF this] have s3: "rtk_opt r3 = rtk_opt rtk" "rtk_nx r3 = rtk_nx rtk"
    by simp_all
  from nx s3 have nx3: "rtk_nx r3 = NX h (rtk_opt r3)"
    by simp
  have ss: "same_sats rtk' r3"
    unfolding e by (rule loop_same_sats [OF nx3]) (simp_all add: same_sats_refl)
  from ss sl have sl3: "slip (rtk_ssat r3 (obs_sat (obs i) - 1)) f \<noteq> 0"
    by (simp add: same_sats_def sat)
  from b have "bias = fst (meas_at h ext rtk' nav obs f i 0)"
    by (simp add: meas_at_def sat)
  then have b3: "bias = fst (meas_at h ext r3 nav obs f i 0)"
    unfolding meas_at_cong [OF ss] .
  with bn have bn3: "fst (meas_at h ext r3 nav obs f i 0) \<noteq> 0"
    by simp
  from f s3 have f3: "f < nat (NF (rtk_opt r3))"
    by simp
  from j have j3: "j = IB h (obs_sat (obs i)) f (rtk_opt r3)"
    by (simp add: s3 sat)
  from loop_hit [OF nx3 f3 refl ok i sl3 bn3 j3 e] show ?thesis
    by (simp add: b3 s3)
qed


subsection \<open>C1, C2: the Melbourne-Wubbena slip detector\<close>

lemma mw_mark_fold:
  "fold (\<lambda>j s. s\<lparr>slip := (slip s)(j := slip s j OR 1), slipMW := (slipMW s)(j := 1)\<rparr>) [0..<n] st
   = st\<lparr>slip := (\<lambda>j. if j < n then slip st j OR 1 else slip st j),
         slipMW := (\<lambda>j. if j < n then 1 else slipMW st j)\<rparr>"
proof (induction n)
  case 0
  show ?case by simp
next
  case (Suc n)
  show ?case
    unfolding upt_Suc_append [OF le0] fold_append o_apply Suc
    by (auto simp: fun_eq_iff less_Suc_eq)
qed

lemma mw_mark_eq:
  "mw_mark nfreq st
   = st\<lparr>slip := (\<lambda>j. if j < nat nfreq then slip st j OR 1 else slip st j),
         slipMW := (\<lambda>j. if j < nat nfreq then 1 else slipMW st j)\<rparr>"
  unfolding mw_mark_def for_freq_def by (rule mw_mark_fold)

lemma ssat_example_sel:
  "mw ssat_example = 3" "mwmean ssat_example = 3" "mwmean2 ssat_example = 1 / 100"
  "mwarc ssat_example = 10" "slip ssat_example = (\<lambda>_. 0)" "slipMW ssat_example = (\<lambda>_. 0)"
  by (simp_all add: ssat_example_def)

lemma sqrt_hundredth: "sqrt (1 / 100) = 1 / 10"
  by (rule real_sqrt_unique) (simp_all add: power2_eq_square)

lemma detslp_mw_sat_accept:
  assumes mw1: "mw1 \<noteq> 0"
    and first: "mwarc st \<noteq> 0" "mw st \<noteq> 0"
    and prior: "slip st 0 \<noteq> 1" "slip st 1 \<noteq> 1"
    and gap: "\<bar>mw1 - mw st\<bar> \<le> MWGAPMAX"
    and arc: "mwarc st \<ge> 4"
    and thr: "thr = min MWGAPMAX (max (4 * sqrt (mwmean2 st)) (4 / 5))"
    and n: "n = min (mwarc st + 1) 100"
    and st': "st' = detslp_mw_sat nfreq lamW mw1 st"
  shows "(\<bar>mw1 - mwmean st\<bar> > thr \<longrightarrow>
            (\<forall>j < nat nfreq. slip st' j = slip st j OR 1 \<and> slipMW st' j = 1) \<and>
            mwmean st' = mw1 \<and> mwmean2 st' = lamW / 2 \<and> mwarc st' = 1) \<and>
         (\<not> \<bar>mw1 - mwmean st\<bar> > thr \<longrightarrow>
            slip st' = slip st \<and> slipMW st' = slipMW st \<and>
            mwmean st' = (real_of_int (n - 1) * mwmean st + mw1) / real_of_int n \<and>
            mwmean2 st' = (real_of_int (n - 1) * mwmean2 st + (mw1 - mwmean st)\<^sup>2) / real_of_int n \<and>
            mwarc st' = n)"
proof -
  have thr': "MIN_macro MWGAPMAX (MAX_macro (4 * sqrt (mwmean2 st)) MWCSMIN) = thr"
    unfolding thr MIN_macro_def MAX_macro_def MWCSMIN_def by (simp add: min_def max_def)
  have n': "(if real_of_int (mwarc st + 1) \<ge> MWARCMAX then int_cast MWARCMAX else mwarc st + 1) = n"
    unfolding n MWARCMAX_def int_cast_def by (simp add: min_def)
  show ?thesis
  proof (cases "\<bar>mw1 - mwmean st\<bar> > thr")
    case True
    with mw1 first prior gap arc thr' have "st' = mw_reset lamW mw1 (mw_mark nfreq (st\<lparr>mw := mw1\<rparr>))"
      unfolding st' detslp_mw_sat_def by (simp add: Let_def)
    with True show ?thesis
      by (simp add: mw_reset_def mw_mark_eq)
  next
    case False
    with mw1 first prior gap arc thr' n' have
      "st' = st\<lparr>mw := mw1, mwmean := (real_of_int (n - 1) * mwmean st + mw1) / real_of_int n,
                mwmean2 := (real_of_int (n - 1) * mwmean2 st + (mw1 - mwmean st) * (mw1 - mwmean st)) / real_of_int n,
                mwarc := n\<rparr>"
      unfolding st' detslp_mw_sat_def by (simp add: Let_def)
    with False show ?thesis
      by (simp add: power2_eq_square)
  qed
qed

lemma fold_on_ssat_frame:
  assumes "\<And>j. j \<in> set js \<Longrightarrow> key j \<noteq> k"
  shows "rtk_ssat (fold (\<lambda>j r. on_ssat (key j) (F j r) r) js r0) k = rtk_ssat r0 k"
  using assms
proof (induction js arbitrary: r0)
  case Nil
  show ?case by simp
next
  case (Cons a js)
  from Cons.prems [of a] have a: "key a \<noteq> k"
    by simp
  have "rtk_ssat (fold (\<lambda>j r. on_ssat (key j) (F j r) r) js (on_ssat (key a) (F a r0) r0)) k
      = rtk_ssat (on_ssat (key a) (F a r0) r0) k"
    by (rule Cons.IH) (use Cons.prems in simp)
  with a show ?case
    by (simp add: on_ssat_def)
qed

lemma fold_on_ssat_at:
  assumes inj: "\<And>j. j \<in> set js \<Longrightarrow> j \<noteq> i \<Longrightarrow> key j \<noteq> key i"
    and i: "i \<in> set js" and dist: "distinct js"
    and F: "\<And>j r. static r = static r0 \<Longrightarrow> F j r = F j r0"
  shows "rtk_ssat (fold (\<lambda>j r. on_ssat (key j) (F j r) r) js r0) (key i)
           = F i r0 (rtk_ssat r0 (key i))"
proof -
  from i obtain xs ys where js: "js = xs @ i # ys"
    by (auto dest: split_list)
  with dist have nx: "i \<notin> set xs" and ny: "i \<notin> set ys"
    by simp_all
  let ?B = "\<lambda>j r. on_ssat (key j) (F j r) r"
  let ?r1 = "fold ?B xs r0"
  have s1: "static ?r1 = static r0"
    by (rule fold_on_ssat_static)
  have x: "rtk_ssat ?r1 (key i) = rtk_ssat r0 (key i)"
    by (rule fold_on_ssat_frame) (use inj js nx in auto)
  have "rtk_ssat (fold ?B js r0) (key i) = rtk_ssat (fold ?B ys (?B i ?r1)) (key i)"
    unfolding js by simp
  also have "\<dots> = rtk_ssat (?B i ?r1) (key i)"
    by (rule fold_on_ssat_frame) (use inj js ny in auto)
  also have "\<dots> = F i ?r1 (rtk_ssat ?r1 (key i))"
    by (simp add: on_ssat_def)
  also have "\<dots> = F i r0 (rtk_ssat r0 (key i))"
    unfolding x F [OF s1] ..
  finally show ?thesis .
qed

lemma detslp_mw_at:
  assumes ok: "obs_ok h obs (min (nat n) (MAXOBS h))" and i: "i < min (nat n) (MAXOBS h)"
  shows "rtk_ssat (detslp_mw h ext rtk obs n nav) (obs_sat (obs i) - 1)
           = detslp_mw_sat (nf (rtk_opt rtk)) (wide_lane nav) (mwmeas ext (obs i) nav)
               (rtk_ssat rtk (obs_sat (obs i) - 1))"
proof -
  have key: "obs_sat (obs j) - 1 \<noteq> obs_sat (obs i) - 1"
    if "j \<in> set (obs_range h n)" "j \<noteq> i" for j
  proof -
    from that(1) have j: "j < min (nat n) (MAXOBS h)"
      by (simp add: obs_range_def)
    from ok i j have "1 \<le> obs_sat (obs i)" "1 \<le> obs_sat (obs j)"
      by (simp_all add: obs_ok_def)
    moreover from ok i j that(2) have "obs_sat (obs j) \<noteq> obs_sat (obs i)"
      unfolding obs_ok_def by blast
    ultimately show ?thesis by simp
  qed
  have F: "detslp_mw_sat (nf (rtk_opt r)) (wide_lane nav) (mwmeas ext (obs j) nav)
         = detslp_mw_sat (nf (rtk_opt rtk)) (wide_lane nav) (mwmeas ext (obs j) nav)"
    if "static r = static rtk" for j r
    using that by (simp add: static_def)
  have "rtk_ssat (fold (\<lambda>j r. on_ssat (obs_sat (obs j) - 1)
           (detslp_mw_sat (nf (rtk_opt r)) (wide_lane nav) (mwmeas ext (obs j) nav)) r)
           (obs_range h n) rtk) (obs_sat (obs i) - 1)
      = detslp_mw_sat (nf (rtk_opt rtk)) (wide_lane nav) (mwmeas ext (obs i) nav)
               (rtk_ssat rtk (obs_sat (obs i) - 1))"
  proof (rule fold_on_ssat_at [where key = "\<lambda>j. obs_sat (obs j) - 1"
          and F = "\<lambda>j r. detslp_mw_sat (nf (rtk_opt r)) (wide_lane nav) (mwmeas ext (obs j) nav)"])
    show "obs_sat (obs j) - 1 \<noteq> obs_sat (obs i) - 1" if "j \<in> set (obs_range h n)" "j \<noteq> i" for j
      using that by (rule key)
    show "i \<in> set (obs_range h n)"
      using i by (simp add: obs_range_def)
    show "distinct (obs_range h n)"
      by (simp add: obs_range_def)
    show "detslp_mw_sat (nf (rtk_opt r)) (wide_lane nav) (mwmeas ext (obs j) nav)
         = detslp_mw_sat (nf (rtk_opt rtk)) (wide_lane nav) (mwmeas ext (obs j) nav)"
      if "static r = static rtk" for j r
      using that by (rule F)
  qed
  then show ?thesis
    unfolding detslp_mw_def Let_def wide_lane_def .
qed

lemma detslp_mw_frame:
  assumes "\<And>j. j < min (nat n) (MAXOBS h) \<Longrightarrow> obs_sat (obs j) - 1 \<noteq> k"
  shows "rtk_ssat (detslp_mw h ext rtk obs n nav) k = rtk_ssat rtk k"
  unfolding detslp_mw_def Let_def
  by (rule fold_on_ssat_frame) (use assms in \<open>simp add: obs_range_def\<close>)

lemma mwmeas_obs_mw: "v \<noteq> - 30 \<Longrightarrow> mwmeas ext_gps (obs_mw v) nav_example = v"
  by (simp add: mwmeas_def ext_gps_def obs_mw_def nav_example_def lc_index_def Let_def
      add_eq_0_iff2 field_simps)

lemma wide_lane_example: "wide_lane nav_example = 1"
  by (simp add: wide_lane_def nav_example_def)

lemma obs_ok_single: "1 \<le> obs_sat ob \<Longrightarrow> obs_sat ob \<le> MAXSAT h \<Longrightarrow> obs_ok h (\<lambda>_. ob) (min (nat 1) (MAXOBS h))"
  by (simp add: obs_ok_def min_def)

lemma obs_mw_sat: "obs_sat (obs_mw v) = 1"
  by (simp add: obs_mw_def)

lemma rtk_example_sel: "rtk_ssat rtk_example = (\<lambda>_. ssat_example)" "rtk_opt rtk_example = opt_example"
  "rtk_nx rtk_example = 11" "rtk_tt rtk_example = 30"
  by (simp_all add: rtk_example_def)

text \<open>
  C1. In \<open>detslp_mw\<close>, for an epoch with one observation per satellite: for the satellite of
  observation \<open>i\<close>, with \<open>mw1 = mwmeas\<close> of the observation nonzero, arc length at least 4 and
  the measurement past the gap test (so the statistics were not restarted before: nonzero
  previous value and arc, no slip flagged on the first two frequencies, and
  \<open>\<bar>mw1 - mw\<bar> \<le> MWGAPMAX\<close>): with \<open>thr = min MWGAPMAX (max (4 * sqrt mwmean2) 0.8)\<close>, if
  \<open>\<bar>mw1 - mwmean\<bar> > thr\<close> the slip is marked on every frequency \<open>j < nf\<close> and the
  statistics restart with \<open>mwmean = mw1\<close>, \<open>mwmean2 = lamW / 2\<close>, \<open>mwarc = 1\<close>, where \<open>lamW\<close>
  is the wide-lane wavelength of \<^verbatim>\<open>nav->lam[0]\<close>; otherwise no slip flag changes and,
  with \<open>n = min (mwarc + 1) 100\<close>, the mean becomes \<open>((n - 1) * mwmean + mw1) / n\<close>, the second
  moment becomes \<open>((n - 1) * mwmean2 + (mw1 - mwmean)\<^sup>2) / n\<close> and the arc length becomes \<open>n\<close>.
\<close>

theorem detslp_mw_threshold:
  assumes ok: "obs_ok h obs (min (nat n) (MAXOBS h))" and i: "i < min (nat n) (MAXOBS h)"
    and st: "st = rtk_ssat rtk (obs_sat (obs i) - 1)"
    and st': "st' = rtk_ssat (detslp_mw h ext rtk obs n nav) (obs_sat (obs i) - 1)"
    and mw1: "mw1 = mwmeas ext (obs i) nav" and nz: "mw1 \<noteq> 0"
    and lamW: "lamW = nav_lam nav 0 0 * nav_lam nav 0 1 / (nav_lam nav 0 1 - nav_lam nav 0 0)"
    and first: "mwarc st \<noteq> 0" "mw st \<noteq> 0"
    and prior: "slip st 0 \<noteq> 1" "slip st 1 \<noteq> 1"
    and gap: "\<bar>mw1 - mw st\<bar> \<le> MWGAPMAX"
    and arc: "mwarc st \<ge> 4"
    and thr: "thr = min MWGAPMAX (max (4 * sqrt (mwmean2 st)) (4 / 5))"
    and m: "m = min (mwarc st + 1) 100"
  shows "(\<bar>mw1 - mwmean st\<bar> > thr \<longrightarrow>
            (\<forall>j < nat (nf (rtk_opt rtk)). slip st' j = slip st j OR 1 \<and> slipMW st' j = 1) \<and>
            mwmean st' = mw1 \<and> mwmean2 st' = lamW / 2 \<and> mwarc st' = 1) \<and>
         (\<not> \<bar>mw1 - mwmean st\<bar> > thr \<longrightarrow>
            slip st' = slip st \<and> slipMW st' = slipMW st \<and>
            mwmean st' = (real_of_int (m - 1) * mwmean st + mw1) / real_of_int m \<and>
            mwmean2 st' = (real_of_int (m - 1) * mwmean2 st + (mw1 - mwmean st)\<^sup>2) / real_of_int m \<and>
            mwarc st' = m)"
proof -
  have "st' = detslp_mw_sat (nf (rtk_opt rtk)) lamW mw1 st"
    unfolding st' st mw1 lamW detslp_mw_at [OF ok i] wide_lane_def ..
  from detslp_mw_sat_accept [OF nz first prior gap arc thr m this]
  show ?thesis .
qed

theorem detslp_mw_threshold_witness:
  "mwmean (rtk_ssat (detslp_mw rtklib_h_std ext_gps rtk_example (\<lambda>_. obs_mw (7 / 2)) 1 nav_example) 0) = 67 / 22 \<and>
   mwmean2 (rtk_ssat (detslp_mw rtklib_h_std ext_gps rtk_example (\<lambda>_. obs_mw (7 / 2)) 1 nav_example) 0) = 7 / 220 \<and>
   mwarc (rtk_ssat (detslp_mw rtklib_h_std ext_gps rtk_example (\<lambda>_. obs_mw (7 / 2)) 1 nav_example) 0) = 11 \<and>
   slipMW (rtk_ssat (detslp_mw rtklib_h_std ext_gps rtk_example (\<lambda>_. obs_mw (7 / 2)) 1 nav_example) 0) = (\<lambda>_. 0) \<and>
   slipMW (rtk_ssat (detslp_mw rtklib_h_std ext_gps rtk_example (\<lambda>_. obs_mw (9 / 2)) 1 nav_example) 0) 1 = 1 \<and>
   mwmean (rtk_ssat (detslp_mw rtklib_h_std ext_gps rtk_example (\<lambda>_. obs_mw (9 / 2)) 1 nav_example) 0) = 9 / 2 \<and>
   mwmean2 (rtk_ssat (detslp_mw rtklib_h_std ext_gps rtk_example (\<lambda>_. obs_mw (9 / 2)) 1 nav_example) 0) = 1 / 2 \<and>
   mwarc (rtk_ssat (detslp_mw rtklib_h_std ext_gps rtk_example (\<lambda>_. obs_mw (9 / 2)) 1 nav_example) 0) = 1"
proof -
  have ok: "obs_ok rtklib_h_std (\<lambda>_. obs_mw v) (min (nat 1) (MAXOBS rtklib_h_std))" for v
    by (rule obs_ok_single) (simp_all add: obs_mw_sat rtklib_h_std_def)
  have i: "0 < min (nat 1) (MAXOBS rtklib_h_std)"
    by (simp add: rtklib_h_std_def)
  have st: "ssat_example = rtk_ssat rtk_example (obs_sat (obs_mw v) - 1)" for v
    by (simp add: rtk_example_sel)
  have st': "rtk_ssat (detslp_mw rtklib_h_std ext_gps rtk_example (\<lambda>_. obs_mw v) 1 nav_example) 0
      = rtk_ssat (detslp_mw rtklib_h_std ext_gps rtk_example (\<lambda>_. obs_mw v) 1 nav_example)
          (obs_sat (obs_mw v) - 1)" for v
    by (simp add: obs_mw_sat)
  have m1: "7 / 2 = mwmeas ext_gps (obs_mw (7 / 2)) nav_example"
    and m2: "9 / 2 = mwmeas ext_gps (obs_mw (9 / 2)) nav_example"
    by (simp_all add: mwmeas_obs_mw)
  have lamW: "1 = nav_lam nav_example 0 0 * nav_lam nav_example 0 1
                   / (nav_lam nav_example 0 1 - nav_lam nav_example 0 0)"
    by (simp add: nav_example_def)
  have a: "mwarc ssat_example \<noteq> 0" "mw ssat_example \<noteq> 0"
    "slip ssat_example 0 \<noteq> 1" "slip ssat_example 1 \<noteq> 1" "mwarc ssat_example \<ge> 4"
    by (simp_all add: ssat_example_def)
  have g1: "\<bar>7 / 2 - mw ssat_example\<bar> \<le> MWGAPMAX" and g2: "\<bar>9 / 2 - mw ssat_example\<bar> \<le> MWGAPMAX"
    by (simp_all add: ssat_example_def MWGAPMAX_def)
  have t: "4 / 5 = min MWGAPMAX (max (4 * sqrt (mwmean2 ssat_example)) (4 / 5))"
    by (simp add: ssat_example_def MWGAPMAX_def sqrt_hundredth)
  have n: "11 = min (mwarc ssat_example + 1) 100"
    by (simp add: ssat_example_def)
  have nz: "(7 / 2 :: real) \<noteq> 0" "(9 / 2 :: real) \<noteq> 0"
    by simp_all
  from detslp_mw_threshold [OF ok i st st' m1 nz(1) lamW a(1) a(2) a(3) a(4) g1 a(5) t n]
       detslp_mw_threshold [OF ok i st st' m2 nz(2) lamW a(1) a(2) a(3) a(4) g2 a(5) t n]
  show ?thesis
    by (simp add: ssat_example_sel rtk_example_sel opt_example_def power2_eq_square)
qed

lemma detslp_mw_sat_gapmax:
  assumes mw1: "mw1 \<noteq> 0"
    and first: "mwarc st \<noteq> 0" "mw st \<noteq> 0"
    and prior: "slip st 0 \<noteq> 1" "slip st 1 \<noteq> 1"
    and gap: "\<bar>mw1 - mw st\<bar> > MWGAPMAX"
  shows "detslp_mw_sat nfreq lamW mw1 st = mw_reset lamW mw1 (mw_mark nfreq (st\<lparr>mw := mw1\<rparr>))"
  using assms unfolding detslp_mw_sat_def by (simp add: Let_def)

text \<open>
  C2. In \<open>detslp_mw\<close>, for an epoch with one observation per satellite: for the satellite of
  observation \<open>i\<close>, with a current Melbourne-Wubbena value (\<open>mw1 = mwmeas \<noteq> 0\<close>), a nonzero
  previous value and arc length, and no slip flagged before on the first two frequencies:
  if \<open>\<bar>mw1 - mw\<bar>\<close> exceeds 10.0, the detector sets bit 0 of \<open>slip[j]\<close> and sets
  \<open>slipMW[j]\<close> for every frequency \<open>j < nf\<close>, and restarts the statistics with
  \<open>mwmean = mw1\<close>, \<open>mwmean2 = lamW / 2\<close>, \<open>mwarc = 1\<close>, where \<open>lamW\<close> is the wide-lane
  wavelength of \<^verbatim>\<open>nav->lam[0]\<close>. (The source compares with \<open>MWGAPMAX\<close>, which is 5.0,
  so the same happens for every gap above 5.0.)
\<close>

theorem detslp_mw_gap:
  assumes ok: "obs_ok h obs (min (nat n) (MAXOBS h))" and i: "i < min (nat n) (MAXOBS h)"
    and st: "st = rtk_ssat rtk (obs_sat (obs i) - 1)"
    and st': "st' = rtk_ssat (detslp_mw h ext rtk obs n nav) (obs_sat (obs i) - 1)"
    and mw1: "mw1 = mwmeas ext (obs i) nav" and nz: "mw1 \<noteq> 0"
    and lamW: "lamW = nav_lam nav 0 0 * nav_lam nav 0 1 / (nav_lam nav 0 1 - nav_lam nav 0 0)"
    and first: "mwarc st \<noteq> 0" "mw st \<noteq> 0"
    and prior: "slip st 0 \<noteq> 1" "slip st 1 \<noteq> 1"
    and gap: "\<bar>mw1 - mw st\<bar> > 10"
  shows "(\<forall>j < nat (nf (rtk_opt rtk)). slip st' j = slip st j OR 1 \<and> slipMW st' j = 1) \<and>
         mw st' = mw1 \<and> mwmean st' = mw1 \<and> mwmean2 st' = lamW / 2 \<and> mwarc st' = 1"
proof -
  have e: "st' = detslp_mw_sat (nf (rtk_opt rtk)) lamW mw1 st"
    unfolding st' st mw1 lamW detslp_mw_at [OF ok i] wide_lane_def ..
  from gap have "\<bar>mw1 - mw st\<bar> > MWGAPMAX"
    by (simp add: MWGAPMAX_def)
  from detslp_mw_sat_gapmax [OF nz first prior this]
  have "st' = mw_reset lamW mw1 (mw_mark (nf (rtk_opt rtk)) (st\<lparr>mw := mw1\<rparr>))"
    unfolding e .
  then show ?thesis
    by (simp add: mw_reset_def mw_mark_eq)
qed

theorem detslp_mw_gap_witness:
  "\<bar>14 - mw ssat_example\<bar> > 10 \<and>
   slip (rtk_ssat (detslp_mw rtklib_h_std ext_gps rtk_example (\<lambda>_. obs_mw 14) 1 nav_example) 0) 0 = 1 \<and>
   slip (rtk_ssat (detslp_mw rtklib_h_std ext_gps rtk_example (\<lambda>_. obs_mw 14) 1 nav_example) 0) 1 = 1 \<and>
   slipMW (rtk_ssat (detslp_mw rtklib_h_std ext_gps rtk_example (\<lambda>_. obs_mw 14) 1 nav_example) 0) 0 = 1 \<and>
   slipMW (rtk_ssat (detslp_mw rtklib_h_std ext_gps rtk_example (\<lambda>_. obs_mw 14) 1 nav_example) 0) 1 = 1 \<and>
   mwmean (rtk_ssat (detslp_mw rtklib_h_std ext_gps rtk_example (\<lambda>_. obs_mw 14) 1 nav_example) 0) = 14 \<and>
   mwmean2 (rtk_ssat (detslp_mw rtklib_h_std ext_gps rtk_example (\<lambda>_. obs_mw 14) 1 nav_example) 0) = 1 / 2 \<and>
   mwarc (rtk_ssat (detslp_mw rtklib_h_std ext_gps rtk_example (\<lambda>_. obs_mw 14) 1 nav_example) 0) = 1"
proof -
  have ok: "obs_ok rtklib_h_std (\<lambda>_. obs_mw 14) (min (nat 1) (MAXOBS rtklib_h_std))"
    by (rule obs_ok_single) (simp_all add: obs_mw_sat rtklib_h_std_def)
  have i: "0 < min (nat 1) (MAXOBS rtklib_h_std)"
    by (simp add: rtklib_h_std_def)
  have st: "ssat_example = rtk_ssat rtk_example (obs_sat (obs_mw 14) - 1)"
    by (simp add: rtk_example_sel)
  have st': "rtk_ssat (detslp_mw rtklib_h_std ext_gps rtk_example (\<lambda>_. obs_mw 14) 1 nav_example) 0
      = rtk_ssat (detslp_mw rtklib_h_std ext_gps rtk_example (\<lambda>_. obs_mw 14) 1 nav_example)
          (obs_sat (obs_mw 14) - 1)"
    by (simp add: obs_mw_sat)
  have m1: "14 = mwmeas ext_gps (obs_mw 14) nav_example"
    by (simp add: mwmeas_obs_mw)
  have lamW: "1 = nav_lam nav_example 0 0 * nav_lam nav_example 0 1
                   / (nav_lam nav_example 0 1 - nav_lam nav_example 0 0)"
    by (simp add: nav_example_def)
  have a: "mwarc ssat_example \<noteq> 0" "mw ssat_example \<noteq> 0"
    "slip ssat_example 0 \<noteq> 1" "slip ssat_example 1 \<noteq> 1"
    by (simp_all add: ssat_example_def)
  have g: "\<bar>14 - mw ssat_example\<bar> > 10"
    by (simp add: ssat_example_def)
  have nz: "(14 :: real) \<noteq> 0"
    by simp
  from detslp_mw_gap [OF ok i st st' m1 nz lamW a g] g
  show ?thesis
    by (simp add: ssat_example_sel rtk_example_sel opt_example_def)
qed


subsection \<open>C8: the iono-free variance and the single-frequency one\<close>

lemma rne_int: "rne (of_int k) = k"
  by (simp add: rne_def)

lemma rne_cases: "rne y = \<lfloor>y\<rfloor> \<or> rne y = \<lfloor>y\<rfloor> + 1"
  by (simp add: rne_def Let_def)

lemma rne_err: "\<bar>of_int (rne y) - y\<bar> \<le> 1 / 2"
proof -
  define r where "r = y - of_int \<lfloor>y\<rfloor>"
  have r: "0 \<le> r" "r < 1"
    unfolding r_def by linarith+
  have y: "y = of_int \<lfloor>y\<rfloor> + r"
    unfolding r_def by simp
  consider "r < 1 / 2" | "r > 1 / 2" | "r = 1 / 2" by linarith
  then show ?thesis
  proof cases
    case 1
    then have "rne y = \<lfloor>y\<rfloor>" by (simp add: rne_def r_def)
    with 1 r y show ?thesis by linarith
  next
    case 2
    then have "rne y = \<lfloor>y\<rfloor> + 1" by (simp add: rne_def r_def)
    then have "of_int (rne y) = of_int \<lfloor>y\<rfloor> + (1::real)" by simp
    with 2 r y show ?thesis by linarith
  next
    case 3
    from rne_cases [of y] have "of_int (rne y) = (of_int \<lfloor>y\<rfloor> :: real) \<or> of_int (rne y) = of_int \<lfloor>y\<rfloor> + (1::real)"
      by auto
    with 3 y show ?thesis by linarith
  qed
qed

lemma rne_lower: "of_int k \<le> y \<Longrightarrow> k \<le> rne y"
proof -
  assume "of_int k \<le> y"
  then have "k \<le> \<lfloor>y\<rfloor>" by (simp add: le_floor_iff)
  with rne_cases [of y] show ?thesis by auto
qed

lemma rne_upper: "y \<le> of_int k \<Longrightarrow> rne y \<le> k"
proof (cases "y = of_int k")
  case True
  then show ?thesis by (simp add: rne_int)
next
  case False
  assume "y \<le> of_int k"
  with False have "y < of_int k" by simp
  then have "\<lfloor>y\<rfloor> < k" by (simp add: floor_less_iff)
  with rne_cases [of y] show ?thesis by auto
qed

lemma binade:
  assumes "x \<noteq> 0"
  shows "2 powr of_int \<lfloor>log 2 \<bar>x\<bar>\<rfloor> \<le> \<bar>x\<bar>" "\<bar>x\<bar> < 2 powr (of_int \<lfloor>log 2 \<bar>x\<bar>\<rfloor> + 1)"
proof -
  from assms have p: "0 < \<bar>x\<bar>" by simp
  have "of_int \<lfloor>log 2 \<bar>x\<bar>\<rfloor> \<le> log 2 \<bar>x\<bar>" by simp
  then have "2 powr of_int \<lfloor>log 2 \<bar>x\<bar>\<rfloor> \<le> 2 powr log 2 \<bar>x\<bar>"
    by (simp add: powr_le_cancel_iff)
  with p show "2 powr of_int \<lfloor>log 2 \<bar>x\<bar>\<rfloor> \<le> \<bar>x\<bar>" by simp
  have "log 2 \<bar>x\<bar> < of_int \<lfloor>log 2 \<bar>x\<bar>\<rfloor> + 1" by linarith
  then have "2 powr log 2 \<bar>x\<bar> < 2 powr (of_int \<lfloor>log 2 \<bar>x\<bar>\<rfloor> + 1)"
    by (simp add: powr_less_cancel_iff)
  with p show "\<bar>x\<bar> < 2 powr (of_int \<lfloor>log 2 \<bar>x\<bar>\<rfloor> + 1)" by simp
qed

lemma floor_log2:
  assumes "2 powr of_int e \<le> x" "x < 2 powr (of_int e + 1)"
  shows "\<lfloor>log 2 x\<rfloor> = e"
proof -
  have "0 < 2 powr real_of_int e" by simp
  with assms(1) have p: "0 < x" by linarith
  from assms(1) p have 1: "of_int e \<le> log 2 x"
    by (simp add: le_log_iff)
  from assms(2) p have 2: "log 2 x < of_int e + 1"
    by (simp add: log_less_iff)
  from 1 2 show ?thesis
    by (simp add: floor_unique)
qed

lemma fl64_acc: "\<bar>fl64 x - x\<bar> \<le> 2 powr (- 53) * \<bar>x\<bar>"
proof (cases "x = 0")
  case True
  then show ?thesis by (simp add: fl64_def)
next
  case False
  define q :: real where "q = 2 powr (of_int \<lfloor>log 2 \<bar>x\<bar>\<rfloor> - 52)"
  have q: "0 < q" unfolding q_def by simp
  have fx: "fl64 x = sgn x * of_int (rne (\<bar>x\<bar> / q)) * q"
    using False by (simp add: fl64_def q_def Let_def)
  have x: "x = sgn x * (\<bar>x\<bar> / q) * q"
    using q by (simp add: sgn_if)
  have "fl64 x - x = sgn x * (of_int (rne (\<bar>x\<bar> / q)) - \<bar>x\<bar> / q) * q"
    unfolding fx by (subst (2) x) (simp add: algebra_simps)
  then have "\<bar>fl64 x - x\<bar> = \<bar>of_int (rne (\<bar>x\<bar> / q)) - \<bar>x\<bar> / q\<bar> * q"
    using q False by (simp add: abs_mult abs_sgn_eq)
  also have "\<dots> \<le> 1 / 2 * q"
    using rne_err [of "\<bar>x\<bar> / q"] q by (intro mult_right_mono) simp_all
  also have "\<dots> = 2 powr (- 53) * 2 powr of_int \<lfloor>log 2 \<bar>x\<bar>\<rfloor>"
    unfolding q_def by (simp add: powr_diff powr_minus field_simps)
  also have "\<dots> \<le> 2 powr (- 53) * \<bar>x\<bar>"
    using binade(1) [OF False] by (intro mult_left_mono) simp_all
  finally show ?thesis .
qed


lemma fl64_eval:
  assumes "2 powr of_int e \<le> x" "x < 2 powr (of_int e + 1)"
  shows "fl64 x = of_int (rne (x / 2 powr (of_int e - 52))) * 2 powr (of_int e - 52)"
proof -
  have "0 < 2 powr real_of_int e" by simp
  with assms(1) have p: "0 < x" by linarith
  from floor_log2 [OF assms] p show ?thesis
    by (simp add: fl64_def Let_def)
qed

lemma fl64_idem: "fl64 (fl64 x) = fl64 x"
proof (cases "x = 0")
  case True
  then show ?thesis by (simp add: fl64_def)
next
  case False
  define e where "e = \<lfloor>log 2 \<bar>x\<bar>\<rfloor>"
  define q :: real where "q = 2 powr (of_int e - 52)"
  define n where "n = rne (\<bar>x\<bar> / q)"
  define y where "y = fl64 x"
  have q: "0 < q" unfolding q_def by simp
  have qe: "2 powr of_int e = 2 ^ 52 * q" "2 powr (of_int e + 1) = 2 ^ 53 * q"
    "2 powr (of_int (e + 1) + 1) = 2 ^ 54 * q" "2 powr (of_int (e + 1) - 52) = 2 * q"
    unfolding q_def by (simp_all add: powr_diff powr_add)
  have y: "y = sgn x * of_int n * q"
    using False by (simp add: y_def fl64_def q_def n_def e_def Let_def)
  from binade [OF False] have "2 ^ 52 * q \<le> \<bar>x\<bar>" "\<bar>x\<bar> < 2 ^ 53 * q"
    unfolding e_def [symmetric] qe by simp_all
  with q have m: "of_int (2 ^ 52) \<le> \<bar>x\<bar> / q" "\<bar>x\<bar> / q \<le> of_int (2 ^ 53)"
    by (simp_all add: field_simps)
  have n: "2 ^ 52 \<le> n" "n \<le> 2 ^ 53"
    unfolding n_def using rne_lower [OF m(1)] rne_upper [OF m(2)] by simp_all
  then have npos: "0 < n" by simp
  have ay: "\<bar>y\<bar> = of_int n * q"
    unfolding y using False q npos by (simp add: abs_mult abs_sgn_eq)
  have sy: "sgn y = sgn x"
    unfolding y using False q npos by (simp add: sgn_mult)
  have y0: "y \<noteq> 0"
    using ay q npos by auto
  show ?thesis
  proof (cases "n < 2 ^ 53")
    case True
    then have "n + 1 \<le> 2 ^ 53" by simp
    then have "real_of_int (n + 1) \<le> real_of_int (2 ^ 53)" by (rule of_int_le_iff [THEN iffD2])
    then have lt: "real_of_int n < 2 ^ 53" by simp
    from n(1) have "real_of_int (2 ^ 52) \<le> real_of_int n" by (rule of_int_le_iff [THEN iffD2])
    then have ge: "2 ^ 52 \<le> real_of_int n" by simp
    have "2 powr of_int e \<le> \<bar>y\<bar>" "\<bar>y\<bar> < 2 powr (of_int e + 1)"
      unfolding qe ay using q ge lt by simp_all
    then have "\<lfloor>log 2 \<bar>y\<bar>\<rfloor> = e" by (rule floor_log2)
    then have "fl64 y = sgn y * of_int (rne (\<bar>y\<bar> / q)) * q"
      using y0 by (simp add: fl64_def q_def Let_def)
    also have "\<bar>y\<bar> / q = of_int n" using q by (simp add: ay)
    finally have "fl64 y = sgn y * of_int n * q"
      unfolding rne_int .
    with sy y have "fl64 y = y" by simp
    then show ?thesis
      unfolding y_def .
  next
    case False
    with n(2) have n53: "n = 2 ^ 53" by simp
    have ay': "\<bar>y\<bar> = 2 ^ 53 * q" unfolding ay n53 by simp
    have "2 powr of_int (e + 1) \<le> \<bar>y\<bar>" "\<bar>y\<bar> < 2 powr (of_int (e + 1) + 1)"
      unfolding qe ay' using q by (simp_all add: qe(2) [simplified add.commute [of _ 1]] add.commute)
    then have "\<lfloor>log 2 \<bar>y\<bar>\<rfloor> = e + 1" by (rule floor_log2)
    then have "fl64 y = sgn y * of_int (rne (\<bar>y\<bar> / (2 * q))) * (2 * q)"
      using y0 by (simp add: fl64_def qe(4) [symmetric] Let_def)
    also have "\<bar>y\<bar> / (2 * q) = of_int (2 ^ 52)" using q by (simp add: ay')
    finally have "fl64 y = sgn x * 2 ^ 52 * (2 * q)"
      unfolding rne_int sy by simp
    also have "\<dots> = y"
      unfolding y n53 by simp
    finally show ?thesis
      unfolding y_def .
  qed
qed

lemma fl64_ge1:
  assumes "2 ^ k \<le> x" "x < 2 * 2 ^ k" "k \<le> 52"
  shows "fl64 x = of_int (rne (x * 2 ^ (52 - k))) / 2 ^ (52 - k)"
proof -
  have p: "2 powr (real k) = (2::real) ^ k"
    by (simp add: powr_realpow)
  have q: "2 powr (of_int (int k) - 52) = 1 / (2::real) ^ (52 - k)"
  proof -
    have "2 powr (of_int (int k) - 52) = 2 powr (- real (52 - k))"
      using assms(3) by (simp add: of_nat_diff)
    also have "\<dots> = 1 / (2::real) ^ (52 - k)"
      by (simp add: powr_minus powr_realpow field_simps)
    finally show ?thesis .
  qed
  have "fl64 x = of_int (rne (x / 2 powr (of_int (int k) - 52))) * 2 powr (of_int (int k) - 52)"
    by (rule fl64_eval) (use assms in \<open>simp_all add: p powr_add\<close>)
  then show ?thesis
    unfolding q by simp
qed

lemma fl64_lt1:
  assumes "1 \<le> x * 2 ^ k" "x * 2 ^ k < 2"
  shows "fl64 x = of_int (rne (x * 2 ^ (52 + k))) / 2 ^ (52 + k)"
proof -
  have p: "2 powr (- real k) = 1 / (2::real) ^ k"
    by (simp add: powr_minus powr_realpow field_simps)
  have "- real k - 52 = - real (52 + k)"
    by simp
  then have "2 powr (- real k - 52) = 2 powr (- real (52 + k))"
    by (rule arg_cong)
  also have "\<dots> = 1 / (2::real) ^ (52 + k)"
    by (simp only: powr_minus powr_realpow [of 2, simplified] inverse_eq_divide)
  finally have q: "2 powr (- real k - 52) = 1 / (2::real) ^ (52 + k)" .
  have "fl64 x = of_int (rne (x / 2 powr (of_int (- int k) - 52))) * 2 powr (of_int (- int k) - 52)"
    by (rule fl64_eval) (use assms in \<open>simp_all add: p powr_diff powr_realpow field_simps\<close>)
  then show ?thesis
    by (simp add: q)
qed

lemma fl64_9: "fl64 9 = 9"
  by (simp add: fl64_ge1 [where k = 3] rne_def)

lemma fl64_tenth: "fl64 (1 / 10) = 3602879701896397 / 36028797018963968"
  by (simp add: fl64_lt1 [where k = 4] rne_def)

lemma fl64_sq: "fl64 ((134217733 / 134217728) * (134217733 / 134217728)) = 2251799981457411 / 2251799813685248"
  by (simp add: fl64_ge1 [where k = 0] rne_def)

lemma round_bound:
  fixes r :: "real \<Rightarrow> real"
  assumes acc: "\<forall>x. \<bar>r x - x\<bar> \<le> u * \<bar>x\<bar>" and u: "0 \<le> u" "u < 1"
  shows "(1 - u) * \<bar>r (r (9 * A) * p) - 9 * r (A * p)\<bar> \<le> 9 * (3 * u + u\<^sup>2) * \<bar>r (A * p)\<bar>"
proof -
  define x where "x = A * p"
  define e1 where "e1 = r (9 * A) - 9 * A"
  define e2 where "e2 = r (r (9 * A) * p) - r (9 * A) * p"
  define e3 where "e3 = r x - x"
  have b1: "\<bar>e1\<bar> \<le> 9 * u * \<bar>A\<bar>"
    unfolding e1_def using acc [rule_format, of "9 * A"] by (simp add: abs_mult)
  have b3: "\<bar>e3\<bar> \<le> u * \<bar>x\<bar>"
    unfolding e3_def using acc [rule_format, of x] .
  have t: "r (9 * A) = 9 * A + e1"
    unfolding e1_def by simp
  have e1p: "\<bar>e1 * p\<bar> \<le> 9 * u * \<bar>x\<bar>"
  proof -
    have "\<bar>e1 * p\<bar> = \<bar>e1\<bar> * \<bar>p\<bar>" by (simp add: abs_mult)
    also have "\<dots> \<le> (9 * u * \<bar>A\<bar>) * \<bar>p\<bar>"
      using b1 by (rule mult_right_mono) simp
    also have "\<dots> = 9 * u * \<bar>x\<bar>"
      unfolding x_def by (simp add: abs_mult)
    finally show ?thesis .
  qed
  have tp: "\<bar>r (9 * A) * p\<bar> \<le> 9 * \<bar>x\<bar> + 9 * u * \<bar>x\<bar>"
  proof -
    have "r (9 * A) * p = 9 * x + e1 * p"
      unfolding t x_def by (simp add: algebra_simps)
    then have "\<bar>r (9 * A) * p\<bar> \<le> \<bar>9 * x\<bar> + \<bar>e1 * p\<bar>"
      by (simp only: abs_triangle_ineq)
    with e1p show ?thesis by simp
  qed
  have b2: "\<bar>e2\<bar> \<le> u * (9 * \<bar>x\<bar> + 9 * u * \<bar>x\<bar>)"
  proof -
    have "\<bar>e2\<bar> \<le> u * \<bar>r (9 * A) * p\<bar>"
      unfolding e2_def using acc [rule_format, of "r (9 * A) * p"] .
    also have "\<dots> \<le> u * (9 * \<bar>x\<bar> + 9 * u * \<bar>x\<bar>)"
      using tp u(1) by (rule mult_left_mono)
    finally show ?thesis .
  qed
  have d: "r (r (9 * A) * p) - 9 * r x = e2 + e1 * p - 9 * e3"
    unfolding e2_def e3_def t x_def by (simp add: algebra_simps)
  have "\<bar>r (r (9 * A) * p) - 9 * r x\<bar> \<le> \<bar>e2\<bar> + \<bar>e1 * p\<bar> + 9 * \<bar>e3\<bar>"
    unfolding d by linarith
  also have "\<dots> \<le> u * (9 * \<bar>x\<bar> + 9 * u * \<bar>x\<bar>) + 9 * u * \<bar>x\<bar> + 9 * (u * \<bar>x\<bar>)"
    using b2 e1p b3 by linarith
  also have "\<dots> = 9 * (3 * u + u\<^sup>2) * \<bar>x\<bar>"
    by (simp add: algebra_simps power2_eq_square)
  finally have diff: "\<bar>r (r (9 * A) * p) - 9 * r x\<bar> \<le> 9 * (3 * u + u\<^sup>2) * \<bar>x\<bar>" .
  have x: "(1 - u) * \<bar>x\<bar> \<le> \<bar>r x\<bar>"
  proof -
    have "\<bar>x\<bar> \<le> \<bar>r x\<bar> + \<bar>e3\<bar>"
      unfolding e3_def by linarith
    with b3 show ?thesis by (simp add: algebra_simps)
  qed
  have c: "0 \<le> 9 * (3 * u + u\<^sup>2)"
    using u(1) by simp
  have "(1 - u) * \<bar>r (r (9 * A) * p) - 9 * r x\<bar> \<le> (1 - u) * (9 * (3 * u + u\<^sup>2) * \<bar>x\<bar>)"
    using diff u(2) by (intro mult_left_mono) simp_all
  also have "\<dots> = 9 * (3 * u + u\<^sup>2) * ((1 - u) * \<bar>x\<bar>)"
    by simp
  also have "\<dots> \<le> 9 * (3 * u + u\<^sup>2) * \<bar>r x\<bar>"
    using x c by (rule mult_left_mono)
  finally show ?thesis
    unfolding x_def .
qed


lemma ieee_double_sel: "fp_round ieee_double = fl64" "fp_pow ieee_double = (\<lambda>x y. fl64 (x powr y))"
  "fp_sin ieee_double = (\<lambda>x. fl64 (sin x))"
  by (simp_all add: ieee_double_def)

text \<open>
  C8. With the arithmetic of doubles made explicit, the variance that \<open>varerr\<close> returns with
  \<open>ionoopt = IONOOPT_IFLC\<close> is 9 times the variance it returns with the same arguments and
  options in any other ionosphere mode only up to rounding. For a platform whose rounding is
  idempotent, keeps 9 and has relative error at most \<open>u < 1\<close>:
  \<^item> under elevation weighting both results are undefined when \<open>sin el\<close> is 0, and otherwise
    the iono-free variance is the rounded product of 9 and the other variance;
  \<^item> under SNR weighting the iono-free variance \<open>y\<close> and the other variance \<open>x\<close> satisfy
    \<open>(1 - u) * \<bar>y - 9 * x\<bar> \<le> 9 * (3 * u + u\<^sup>2) * \<bar>x\<bar>\<close>;
  \<^item> under any other weighting both are 0.
\<close>

theorem varerr_iflc_nine_times:
  assumes ne: "ionoopt opt \<noteq> IONOOPT_IFLC"
    and idem: "\<forall>x. fp_round fp (fp_round fp x) = fp_round fp x"
    and nine: "fp_round fp 9 = 9"
    and acc: "\<forall>x. \<bar>fp_round fp x - x\<bar> \<le> u * \<bar>x\<bar>" and u: "0 \<le> u" "u < 1"
    and vi: "vi = varerr fp h sat sys el snr freq type (opt\<lparr>ionoopt := IONOOPT_IFLC\<rparr>)"
    and vn: "vn = varerr fp h sat sys el snr freq type opt"
  shows "case weightmode opt of
           WEIGHTOPT_ELEVATION \<Rightarrow>
             (fp_sin fp el = 0 \<and> vi = None \<and> vn = None) \<or>
             (fp_sin fp el \<noteq> 0 \<and> (\<exists>x. vn = Some x \<and> vi = Some (fp_round fp (9 * x))))
         | WEIGHTOPT_SNR \<Rightarrow>
             (\<exists>x y. vn = Some x \<and> vi = Some y \<and>
                    (1 - u) * \<bar>y - 9 * x\<bar> \<le> 9 * (3 * u + u\<^sup>2) * \<bar>x\<bar>)
         | WEIGHTOPT_other k \<Rightarrow> vi = Some 0 \<and> vn = Some 0"
proof -
  define rnd where "rnd = fp_round fp"
  define fact1 where
    "fact1 = (if type = 1 then rnd (1 * eratio opt (if freq = 0 then 0 else 1)) else 1)"
  define fact2 where
    "fact2 = (case sys of
                SYS_GPS \<Rightarrow> rnd (fact1 * EFACT_GPS h)
              | SYS_GLO \<Rightarrow> rnd (fact1 * EFACT_GLO h)
              | SYS_SBS \<Rightarrow> rnd (fact1 * EFACT_SBS h)
              | _ \<Rightarrow> rnd (fact1 * EFACT_GPS h))"
  define fact3 where
    "fact3 = (if sys = SYS_GPS \<or> sys = SYS_QZS
              then (if freq = 2 then rnd (fact2 * EFACT_GPS_L5) else fact2) else fact2)"
  define A where "A = rnd (SQR (rnd (fact3 * err opt 1)))"
  define B where "B = rnd (SQR (rnd (rnd (fact3 * err opt 2) / fp_sin fp el)))"
  define p where
    "p = fp_pow fp 10 (rnd (rnd (1 / 10) * MAX_macro (rnd (err opt 5 - snr)) 0))"
  have shape: "varerr fp h sat sys el snr freq type opt' =
     (case weightmode opt of
        WEIGHTOPT_ELEVATION \<Rightarrow>
          if fp_sin fp el = 0 then None
          else Some (rnd ((if ionoopt opt' = IONOOPT_IFLC then rnd (SQR 3) else 1) * rnd (A + B)))
      | WEIGHTOPT_SNR \<Rightarrow>
          Some (rnd (rnd ((if ionoopt opt' = IONOOPT_IFLC then rnd (SQR 3) else 1) * A) * p))
      | WEIGHTOPT_other k \<Rightarrow> Some 0)"
    if "eratio opt' = eratio opt" "err opt' = err opt" "weightmode opt' = weightmode opt" for opt'
    unfolding varerr_def Let_def that A_def B_def p_def fact3_def fact2_def fact1_def rnd_def ..
  have r9: "rnd (SQR 3) = 9"
    unfolding rnd_def SQR_def using nine by simp
  have idA: "rnd A = A" and idS: "rnd (rnd (A + B)) = rnd (A + B)"
    unfolding A_def using idem unfolding rnd_def by simp_all
  have n: "vn = (case weightmode opt of
        WEIGHTOPT_ELEVATION \<Rightarrow> if fp_sin fp el = 0 then None else Some (rnd (A + B))
      | WEIGHTOPT_SNR \<Rightarrow> Some (rnd (A * p))
      | WEIGHTOPT_other k \<Rightarrow> Some 0)"
    unfolding vn shape [OF refl refl refl] using ne
    by (cases "weightmode opt") (simp_all add: idA idS)
  have i: "vi = (case weightmode opt of
        WEIGHTOPT_ELEVATION \<Rightarrow> if fp_sin fp el = 0 then None else Some (rnd (9 * rnd (A + B)))
      | WEIGHTOPT_SNR \<Rightarrow> Some (rnd (rnd (9 * A) * p))
      | WEIGHTOPT_other k \<Rightarrow> Some 0)"
    unfolding vi shape [of "opt\<lparr>ionoopt := IONOOPT_IFLC\<rparr>", simplified]
    by (cases "weightmode opt") (simp_all add: r9)
  note rb = round_bound [OF acc u, of A p, folded rnd_def]
  show ?thesis
  proof (cases "weightmode opt")
    case WEIGHTOPT_ELEVATION
    then show ?thesis
      unfolding n i by (simp add: rnd_def)
  next
    case WEIGHTOPT_SNR
    with rb show ?thesis
      unfolding n i by simp
  next
    case (WEIGHTOPT_other k)
    then show ?thesis
      unfolding n i by simp
  qed
qed


lemmas fl64_binades =
  fl64_ge1 [where k = 0] fl64_ge1 [where k = 1] fl64_ge1 [where k = 3] fl64_ge1 [where k = 4]
  fl64_ge1 [where k = 6] fl64_ge1 [where k = 9] fl64_lt1 [where k = 4]

lemma varerr_snr_example:
  "varerr ieee_double rtklib_h_std 1 SYS_GPS (pi / 4) 0 0 0 opt_snr
     = Some (7036874942054409 / 70368744177664)"
  "varerr ieee_double rtklib_h_std 1 SYS_GPS (pi / 4) 0 0 0 (opt_snr\<lparr>ionoopt := IONOOPT_IFLC\<rparr>)
     = Some (7916484309811211 / 8796093022208)"
  by (simp_all add: varerr_def Let_def opt_snr_def opt_example_def ieee_double_def rtklib_h_std_def
      SQR_def MAX_macro_def fl64_binades rne_def)

text \<open>The theorem at the IEEE 754 binary64 platform, with \<open>u = 2\<^sup>-\<^sup>5\<^sup>3\<close>.\<close>

theorem varerr_iflc_nine_times_witness:
  "varerr ieee_double rtklib_h_std 1 SYS_GPS (pi / 4) 0 0 0 opt_snr
     = Some (7036874942054409 / 70368744177664) \<and>
   varerr ieee_double rtklib_h_std 1 SYS_GPS (pi / 4) 0 0 0 (opt_snr\<lparr>ionoopt := IONOOPT_IFLC\<rparr>)
     = Some (7916484309811211 / 8796093022208) \<and>
   (1 - 2 powr (- 53)) * \<bar>7916484309811211 / 8796093022208 - 9 * (7036874942054409 / 70368744177664)\<bar>
     \<le> 9 * (3 * 2 powr (- 53) + (2 powr (- 53))\<^sup>2) * \<bar>7036874942054409 / 70368744177664 :: real\<bar>"
proof -
  have ne: "ionoopt opt_snr \<noteq> IONOOPT_IFLC"
    by (simp add: opt_snr_def opt_example_def)
  have idem: "\<forall>x. fp_round ieee_double (fp_round ieee_double x) = fp_round ieee_double x"
    by (simp add: ieee_double_sel fl64_idem)
  have nine: "fp_round ieee_double 9 = 9"
    by (simp add: ieee_double_sel fl64_9)
  have acc: "\<forall>x. \<bar>fp_round ieee_double x - x\<bar> \<le> 2 powr (- 53) * \<bar>x\<bar>"
    by (simp add: ieee_double_sel fl64_acc)
  have u: "0 \<le> (2::real) powr (- 53)" "(2::real) powr (- 53) < 1"
    by (simp_all add: powr_neg_numeral)
  have w: "weightmode opt_snr = WEIGHTOPT_SNR"
    by (simp add: opt_snr_def)
  let ?vn = "varerr ieee_double rtklib_h_std 1 SYS_GPS (pi / 4) 0 0 0 opt_snr"
  let ?vi = "varerr ieee_double rtklib_h_std 1 SYS_GPS (pi / 4) 0 0 0 (opt_snr\<lparr>ionoopt := IONOOPT_IFLC\<rparr>)"
  from varerr_iflc_nine_times [where h = rtklib_h_std and sat = 1 and sys = SYS_GPS
      and el = "pi / 4" and snr = 0 and freq = 0 and type = 0, OF ne idem nine acc u refl refl]
  have "\<exists>x y. ?vn = Some x \<and> ?vi = Some y \<and>
          (1 - 2 powr (- 53)) * \<bar>y - 9 * x\<bar> \<le> 9 * (3 * 2 powr (- 53) + (2 powr (- 53))\<^sup>2) * \<bar>x\<bar>"
    unfolding w by (simp only: weightopt_t.case)
  then obtain x y where xy: "?vn = Some x" "?vi = Some y"
      "(1 - 2 powr (- 53)) * \<bar>y - 9 * x\<bar> \<le> 9 * (3 * 2 powr (- 53) + (2 powr (- 53))\<^sup>2) * \<bar>x\<bar>"
    by blast
  from xy(1,2) have "x = 7036874942054409 / 70368744177664" "y = 7916484309811211 / 8796093022208"
    unfolding varerr_snr_example by (simp_all only: option.inject)
  with xy(3)
  have "(1 - 2 powr (- 53)) * \<bar>7916484309811211 / 8796093022208 - 9 * (7036874942054409 / 70368744177664)\<bar>
     \<le> 9 * (3 * 2 powr (- 53) + (2 powr (- 53))\<^sup>2) * \<bar>7036874942054409 / 70368744177664 :: real\<bar>"
    by (simp only:)
  with varerr_snr_example show ?thesis
    by (simp only: simp_thms)
qed

text \<open>
  The products of the SNR branch are rounded in a different order in the two modes, so the
  iono-free variance is not exactly 9 times the other one: in IEEE 754 binary64, for a GPS
  phase measurement with \<open>err[1] = 1 + 5 / 2\<^sup>2\<^sup>7\<close>, \<open>err[5] = 20\<close> and an SNR of 0, the
  iono-free variance is 900.0000670552266, the other one is 100.00000745058072, and 9 times
  the latter is 900.0000670552265 also when that product is rounded to a double.
\<close>

theorem varerr_iflc_not_exact_counterexample:
  "ionoopt opt_snr \<noteq> IONOOPT_IFLC \<and>
   varerr ieee_double rtklib_h_std 1 SYS_GPS (pi / 4) 0 0 0 opt_snr
     = Some (7036874942054409 / 70368744177664) \<and>
   varerr ieee_double rtklib_h_std 1 SYS_GPS (pi / 4) 0 0 0 (opt_snr\<lparr>ionoopt := IONOOPT_IFLC\<rparr>)
     = Some (7916484309811211 / 8796093022208) \<and>
   (7916484309811211 / 8796093022208 :: real) \<noteq> 9 * (7036874942054409 / 70368744177664) \<and>
   7916484309811211 / 8796093022208 \<noteq> fl64 (9 * (7036874942054409 / 70368744177664))"
proof -
  have "ionoopt opt_snr \<noteq> IONOOPT_IFLC"
    by (simp add: opt_snr_def opt_example_def)
  then show ?thesis
    by (simp add: varerr_snr_example fl64_binades rne_def)
qed


subsection \<open>C3, C4, C5: the state at the end of the update\<close>

lemma udbias_ppp_unfold:
  "udbias_ppp h ext tow rtk obs n nav =
     fst (fold (udbias_freq h ext nav obs n (udbias_clk_jump (rtk_opt rtk) tow))
            [0..<nat (NF (rtk_opt (udbias_detect h ext rtk obs n nav)))]
            (udbias_detect h ext rtk obs n nav, udb_init))"
  unfolding udbias_ppp_def Let_def udbias_detect_def udb_init_def ..

lemma udbias_detect_static: "static (udbias_detect h ext rtk obs n nav) = static rtk"
  unfolding udbias_detect_def by (simp add: detectors_static)

lemma udbias_ppp_same_sats:
  assumes nx: "rtk_nx rtk = NX h (rtk_opt rtk)"
  shows "same_sats (udbias_ppp h ext tow rtk obs n nav) (udbias_detect h ext rtk obs n nav)"
proof -
  from static_sel [OF udbias_detect_static, of h ext rtk obs n nav] nx
  have "rtk_nx (udbias_detect h ext rtk obs n nav) = NX h (rtk_opt (udbias_detect h ext rtk obs n nav))"
    by simp
  then show ?thesis
    unfolding udbias_ppp_unfold by (rule loop_same_sats) (simp_all add: same_sats_refl)
qed

text \<open>The detectors change only the satellite status.\<close>

lemma on_ssat_xP: "rtk_x (on_ssat s g r) = rtk_x r" "rtk_P (on_ssat s g r) = rtk_P r"
  by (simp_all add: on_ssat_def)

lemma fold_on_ssat_xP:
  "rtk_x (fold (\<lambda>i r. on_ssat (sel i) (g i r) r) js r0) = rtk_x r0"
  "rtk_P (fold (\<lambda>i r. on_ssat (sel i) (g i r) r) js r0) = rtk_P r0"
proof -
  have "True \<and> (\<lambda>r. (rtk_x r, rtk_P r)) (fold (\<lambda>i r. on_ssat (sel i) (g i r) r) js r0)
          = (\<lambda>r. (rtk_x r, rtk_P r)) r0"
    by (rule fold_inv [where I = "\<lambda>_. True"]) (simp_all add: on_ssat_xP)
  then show "rtk_x (fold (\<lambda>i r. on_ssat (sel i) (g i r) r) js r0) = rtk_x r0"
    "rtk_P (fold (\<lambda>i r. on_ssat (sel i) (g i r) r) js r0) = rtk_P r0"
    by simp_all
qed

lemma udbias_detect_xP:
  "rtk_x (udbias_detect h ext rtk obs n nav) = rtk_x rtk"
  "rtk_P (udbias_detect h ext rtk obs n nav) = rtk_P rtk"
  unfolding udbias_detect_def udbias_clear_def detslp_ll_def detslp_mw_def detslp_gf_def Let_def
  by (simp_all only: fold_on_ssat_xP)

text \<open>The outage counters: the detectors keep them, the reset of frequency \<open>f'\<close> increments
  those of \<open>f'\<close> only.\<close>

lemma for_freq_outc:
  assumes "\<And>j s. outc (body j s) = outc s"
  shows "outc (for_freq nfreq body st) = outc st"
proof -
  have "True \<and> outc (fold body [0..<nat nfreq] st) = outc st"
    by (rule fold_inv [where I = "\<lambda>_. True"]) (simp_all add: assms)
  then show ?thesis by (simp add: for_freq_def)
qed

lemma fold_on_ssat_outc:
  assumes "\<And>j r s. outc (g j r s) = outc s"
  shows "outc (rtk_ssat (fold (\<lambda>i r. on_ssat (sel i) (g i r) r) js r0) i) = outc (rtk_ssat r0 i)"
proof -
  have "True \<and> (\<lambda>r. outc (rtk_ssat r i)) (fold (\<lambda>i r. on_ssat (sel i) (g i r) r) js r0)
          = (\<lambda>r. outc (rtk_ssat r i)) r0"
    by (rule fold_inv [where I = "\<lambda>_. True"]) (simp_all add: on_ssat_def assms)
  then show ?thesis by simp
qed

lemma detslp_ll_sat_outc: "outc (detslp_ll_sat nfreq ob st) = outc st"
  unfolding detslp_ll_sat_def by (rule for_freq_outc) simp

lemma mw_mark_outc: "outc (mw_mark nfreq st) = outc st"
  unfolding mw_mark_def by (rule for_freq_outc) simp

lemma detslp_mw_sat_outc: "outc (detslp_mw_sat nfreq lamW mw1 st) = outc st"
  by (simp add: detslp_mw_sat_def Let_def mw_reset_def mw_mark_outc for_freq_outc)

lemma detslp_gf_sat_outc: "outc (detslp_gf_sat nfreq thres g1 st) = outc st"
  by (simp add: detslp_gf_sat_def Let_def for_freq_outc)

lemma udbias_detect_outc:
  "outc (rtk_ssat (udbias_detect h ext rtk obs n nav) i) = outc (rtk_ssat rtk i)"
proof -
  have 1: "outc (rtk_ssat (udbias_clear h rtk) i) = outc (rtk_ssat rtk i)" for rtk
    unfolding udbias_clear_def by (rule fold_on_ssat_outc) (simp add: for_freq_outc)
  have 2: "outc (rtk_ssat (detslp_ll h rtk obs n) i) = outc (rtk_ssat rtk i)" for rtk
    unfolding detslp_ll_def by (rule fold_on_ssat_outc) (rule detslp_ll_sat_outc)
  have 3: "outc (rtk_ssat (detslp_mw h ext rtk obs n nav) i) = outc (rtk_ssat rtk i)" for rtk
    unfolding detslp_mw_def Let_def by (rule fold_on_ssat_outc) (rule detslp_mw_sat_outc)
  have 4: "outc (rtk_ssat (detslp_gf h ext rtk obs n nav) i) = outc (rtk_ssat rtk i)" for rtk
    unfolding detslp_gf_def by (rule fold_on_ssat_outc) (rule detslp_gf_sat_outc)
  show ?thesis
    unfolding udbias_detect_def by (simp only: 1 2 3 4)
qed

lemma reset_outc:
  assumes "f' \<noteq> f"
  shows "outc (rtk_ssat (udbias_reset h c f' r0) i) f = outc (rtk_ssat r0 i) f"
proof -
  have "True \<and> (\<lambda>r. outc (rtk_ssat r i) f) (fold (udbias_reset_sat h c f') [0..<MAXSAT h] r0)
          = (\<lambda>r. outc (rtk_ssat r i) f) r0"
    by (rule fold_inv [where I = "\<lambda>_. True"]) (use assms in \<open>simp_all add: reset_sat_ssat\<close>)
  then show ?thesis by (simp add: udbias_reset_def)
qed

lemma jump_ssat: "rtk_ssat (udbias_jump h f loc k r) = rtk_ssat r"
  using jump_fold [of h f "ub_offset loc / real_of_int k" "MAXSAT h" r]
  by (simp add: udbias_jump_def)

lemma reinit_fold_ssat: "rtk_ssat (fold (udbias_reinit h obs f loc) js r) = rtk_ssat r"
proof -
  have "True \<and> rtk_ssat (fold (udbias_reinit h obs f loc) js r) = rtk_ssat r"
    by (rule fold_inv [where I = "\<lambda>_. True"]) (simp_all add: reinit_ssat)
  then show ?thesis by simp
qed

lemma freq_outc:
  assumes "f' \<noteq> f"
  shows "outc (rtk_ssat (fst (udbias_freq h ext nav obs n c f' st)) i) f = outc (rtk_ssat (fst st) i) f"
proof -
  obtain r loc where st: "st = (r, loc)" by (cases st)
  show ?thesis
    unfolding st freq_unfold reinit_fold_ssat jump_ssat using reset_outc [OF assms] by simp
qed

lemma loop_outc:
  assumes "\<And>f'. f' \<in> set fs \<Longrightarrow> f' \<noteq> f"
  shows "outc (rtk_ssat (fst (fold (udbias_freq h ext nav obs n c) fs st)) i) f
           = outc (rtk_ssat (fst st) i) f"
proof -
  have "True \<and> (\<lambda>s. outc (rtk_ssat (fst s) i) f) (fold (udbias_freq h ext nav obs n c) fs st)
          = (\<lambda>s. outc (rtk_ssat (fst s) i) f) st"
    by (rule fold_inv [where I = "\<lambda>_. True"]) (use assms in \<open>simp_all add: freq_outc\<close>)
  then show ?thesis by simp
qed

lemma reinit_fold_at:
  assumes i0: "i0 < N"
    and ok: "\<And>i. i < N \<Longrightarrow> IB h (obs_sat (obs i)) f (rtk_opt r0) < rtk_nx r0"
    and dist: "\<And>i. i < N \<Longrightarrow> i \<noteq> i0 \<Longrightarrow>
                 IB h (obs_sat (obs i)) f (rtk_opt r0) \<noteq> IB h (obs_sat (obs i0)) f (rtk_opt r0)"
    and J: "J = IB h (obs_sat (obs i0)) f (rtk_opt r0)"
  shows "rtk_x (fold (udbias_reinit h obs f loc) [0..<N] r0) J
           = (if reinit_cond loc i0 r0 J then ub_bias loc i0 else rtk_x r0 J) \<and>
         rtk_P (fold (udbias_reinit h obs f loc) [0..<N] r0) (J + J * rtk_nx r0)
           = (if reinit_cond loc i0 r0 J then VAR_BIAS
              else rtk_P r0 (J + J * rtk_nx r0) + SQR (prn (rtk_opt r0) 0) * \<bar>rtk_tt r0\<bar>)"
proof -
  define r1 where "r1 = fold (udbias_reinit h obs f loc) [0..<i0] r0"
  define r2 where "r2 = udbias_reinit h obs f loc i0 r1"
  have f: "fold (udbias_reinit h obs f loc) [0..<N] r0
           = fold (udbias_reinit h obs f loc) [Suc i0..<N] r2"
    unfolding upt_split [OF i0] r1_def r2_def by simp
  from reinit_fold_static [of h obs f loc "[0..<i0]" r0] have st1: "static r1 = static r0"
    unfolding r1_def by simp
  from static_sel [OF this] have s1: "rtk_opt r1 = rtk_opt r0" "rtk_nx r1 = rtk_nx r0" "rtk_tt r1 = rtk_tt r0"
    by simp_all
  from reinit_static [of h obs f loc i0 r1] st1 have "static r2 = static r0"
    unfolding r2_def by simp
  from static_sel [OF this] have s2: "rtk_opt r2 = rtk_opt r0" "rtk_nx r2 = rtk_nx r0"
    by simp_all
  from ok [OF i0] have Jn: "J < rtk_nx r0"
    by (simp add: J)
  have fr1: "rtk_x r1 J = rtk_x r0 J \<and> rtk_P r1 (J + J * rtk_nx r0) = rtk_P r0 (J + J * rtk_nx r0)"
    unfolding r1_def
  proof (rule reinit_fold_frame)
    show "J < rtk_nx r0" by (rule Jn)
    fix i assume "i \<in> set [0..<i0]"
    with i0 have "i < N" "i \<noteq> i0" by simp_all
    from ok [OF this(1)] dist [OF this]
    show "IB h (obs_sat (obs i)) f (rtk_opt r0) < rtk_nx r0 \<and> IB h (obs_sat (obs i)) f (rtk_opt r0) \<noteq> J"
      by (simp add: J)
  qed
  then have c: "reinit_cond loc i0 r1 J = reinit_cond loc i0 r0 J"
    by (simp add: reinit_cond_def)
  have Jr1: "IB h (obs_sat (obs i0)) f (rtk_opt r1) = J"
    by (simp add: s1 J)
  have "rtk_x r2 J = (if J = IB h (obs_sat (obs i0)) f (rtk_opt r1) \<and> reinit_cond loc i0 r1 J
                       then ub_bias loc i0 else rtk_x r1 J)"
    unfolding r2_def by (rule reinit_x)
  then have x2: "rtk_x r2 J = (if reinit_cond loc i0 r0 J then ub_bias loc i0 else rtk_x r0 J)"
    unfolding Jr1 c using fr1 by simp
  from Jn have a: "IB h (obs_sat (obs i0)) f (rtk_opt r1) < rtk_nx r1" "J < rtk_nx r1"
    by (simp_all add: s1 J)
  from reinit_P [where h = h and obs = obs and i = i0 and f = f and r = r1 and m = J and loc = loc, OF a]
  have "rtk_P r2 (J + J * rtk_nx r1)
      = (if reinit_cond loc i0 r1 J then VAR_BIAS
         else rtk_P r1 (J + J * rtk_nx r1) + SQR (prn (rtk_opt r1) 0) * \<bar>rtk_tt r1\<bar>)"
    unfolding r2_def Jr1 by simp
  then have P2: "rtk_P r2 (J + J * rtk_nx r0)
      = (if reinit_cond loc i0 r0 J then VAR_BIAS
         else rtk_P r0 (J + J * rtk_nx r0) + SQR (prn (rtk_opt r0) 0) * \<bar>rtk_tt r0\<bar>)"
    unfolding c s1 using fr1 by simp
  have "rtk_x (fold (udbias_reinit h obs f loc) [Suc i0..<N] r2) J = rtk_x r2 J \<and>
        rtk_P (fold (udbias_reinit h obs f loc) [Suc i0..<N] r2) (J + J * rtk_nx r2)
          = rtk_P r2 (J + J * rtk_nx r2)"
  proof (rule reinit_fold_frame)
    show "J < rtk_nx r2" using Jn by (simp add: s2)
    fix i assume "i \<in> set [Suc i0..<N]"
    then have "i < N" "i \<noteq> i0" by simp_all
    from ok [OF this(1)] dist [OF this]
    show "IB h (obs_sat (obs i)) f (rtk_opt r2) < rtk_nx r2 \<and> IB h (obs_sat (obs i)) f (rtk_opt r2) \<noteq> J"
      by (simp add: s2 J)
  qed
  with x2 P2 show ?thesis
    unfolding f by (simp add: s2)
qed

lemma jump_x_at:
  assumes s: "1 \<le> s" "s \<le> MAXSAT h" and m: "m = IB h s f (rtk_opt r)"
  shows "rtk_x (udbias_jump h f loc k r) m
           = (if jump_cond h loc k \<and> rtk_x r m \<noteq> 0 then rtk_x r m + ub_offset loc / real_of_int k
              else rtk_x r m)"
proof (cases "jump_cond h loc k")
  case True
  then have e: "udbias_jump h f loc k r
      = fold (udbias_jump_sat h f (ub_offset loc / real_of_int k)) [0..<MAXSAT h] r"
    unfolding udbias_jump_def jump_cond_def by (rule if_P)
  from s have "s - 1 < MAXSAT h" "m = IB h (s - 1 + 1) f (rtk_opt r)"
    by (simp_all add: m)
  then have ex: "\<exists>i<MAXSAT h. m = IB h (i + 1) f (rtk_opt r)"
    by blast
  from jump_fold [of h f "ub_offset loc / real_of_int k" "MAXSAT h" r] ex True
  show ?thesis
    unfolding e by simp
next
  case False
  then have "udbias_jump h f loc k r = r"
    unfolding udbias_jump_def jump_cond_def by (rule if_not_P)
  with False show ?thesis by simp
qed

lemma reset_at:
  assumes nx: "rtk_nx r0 = NX h (rtk_opt r0)" and f: "f < nat (NF (rtk_opt r0))"
    and s: "1 \<le> s" "s \<le> MAXSAT h" and m: "m = IB h s f (rtk_opt r0)"
  shows "rtk_x (udbias_reset h c f r0) m = (if reset_cond c f r0 (s - 1) then 0 else rtk_x r0 m)"
    and "rtk_P (udbias_reset h c f r0) (m + m * rtk_nx r0)
           = (if reset_cond c f r0 (s - 1) then 0 else rtk_P r0 (m + m * rtk_nx r0))"
proof -
  from IB_less_NX [OF s f] nx m have mn: "m < rtk_nx r0"
    by simp
  have ex: "(\<exists>i<MAXSAT h. m = IB h (i + 1) f (rtk_opt r0) \<and> reset_cond c f r0 i)
          = reset_cond c f r0 (s - 1)"
  proof
    assume "\<exists>i<MAXSAT h. m = IB h (i + 1) f (rtk_opt r0) \<and> reset_cond c f r0 i"
    then obtain i where i: "i < MAXSAT h" "m = IB h (i + 1) f (rtk_opt r0)" "reset_cond c f r0 i"
      by blast
    from i(1) have "1 \<le> i + 1" "i + 1 \<le> MAXSAT h" by simp_all
    from IB_inj [OF s this, of f "rtk_opt r0" f] i(2) m have "s = i + 1"
      by simp
    with i(3) show "reset_cond c f r0 (s - 1)" by simp
  next
    assume "reset_cond c f r0 (s - 1)"
    moreover from s have "s - 1 < MAXSAT h" "m = IB h (s - 1 + 1) f (rtk_opt r0)"
      by (simp_all add: m)
    ultimately show "\<exists>i<MAXSAT h. m = IB h (i + 1) f (rtk_opt r0) \<and> reset_cond c f r0 i"
      by blast
  qed
  show "rtk_x (udbias_reset h c f r0) m = (if reset_cond c f r0 (s - 1) then 0 else rtk_x r0 m)"
    unfolding udbias_reset_view(4) [OF nx f mn] ex ..
  show "rtk_P (udbias_reset h c f r0) (m + m * rtk_nx r0)
           = (if reset_cond c f r0 (s - 1) then 0 else rtk_P r0 (m + m * rtk_nx r0))"
    unfolding udbias_reset_view(5) [OF nx f mn] ex ..
qed

lemma collect_at:
  assumes nx: "rtk_nx r = NX h (rtk_opt r)" and f: "f < nat (NF (rtk_opt r))"
    and i0: "i0 < min (nat n) (MAXOBS h)"
    and cl: "cl = fold (udbias_collect h ext (udbias_reset h c f r) nav obs f) (obs_range h n) (loc, k0)"
  shows "ub_bias (fst cl) i0 = fst (meas_at h ext r nav obs f i0 0)"
    and "ub_slip (fst cl) i0 = snd (meas_at h ext r nav obs f i0 (ub_slip loc i0))"
proof -
  have ss1: "same_sats (udbias_reset h c f r) r"
    by (rule reset_same_sats [OF nx f])
  from collect_fold [of h ext "udbias_reset h c f r" nav obs f "min (nat n) (MAXOBS h)" "(loc, k0)"] i0
  have cb: "ub_bias (fst cl) i0 = fst (meas_at h ext (udbias_reset h c f r) nav obs f i0 (ub_slip loc i0))"
    and cs: "ub_slip (fst cl) i0 = snd (meas_at h ext (udbias_reset h c f r) nav obs f i0 (ub_slip loc i0))"
    unfolding cl obs_range_upt by simp_all
  have fi: "fst (meas_at h ext r nav obs f i0 so) = fst (meas_at h ext r nav obs f i0 0)" for so
    unfolding meas_at_def by (rule meas_fst_indep)
  from cb show "ub_bias (fst cl) i0 = fst (meas_at h ext r nav obs f i0 0)"
    unfolding meas_at_cong [OF ss1] fi [of "ub_slip loc i0"] .
  from cs show "ub_slip (fst cl) i0 = snd (meas_at h ext r nav obs f i0 (ub_slip loc i0))"
    unfolding meas_at_cong [OF ss1] .
qed

lemma freq_at:
  assumes nx: "rtk_nx r = NX h (rtk_opt r)"
    and f: "f < nat (NF (rtk_opt r))"
    and ok: "obs_ok h obs (min (nat n) (MAXOBS h))"
    and s: "1 \<le> s" "s \<le> MAXSAT h"
    and m: "m = IB h s f (rtk_opt r)"
    and r1: "r1 = udbias_reset h c f r"
    and cl: "cl = fold (udbias_collect h ext r1 nav obs f) (obs_range h n) (loc, 0)"
    and x2: "x2 = (if jump_cond h (fst cl) (snd cl) \<and> rtk_x r1 m \<noteq> 0
                   then rtk_x r1 m + ub_offset (fst cl) / real_of_int (snd cl) else rtk_x r1 m)"
    and fin: "fin = fst (udbias_freq h ext nav obs n c f (r, loc))"
  shows "(\<And>i. i < min (nat n) (MAXOBS h) \<Longrightarrow> obs_sat (obs i) \<noteq> s) \<Longrightarrow>
           rtk_x fin m = x2 \<and> rtk_P fin (m + m * rtk_nx r) = rtk_P r1 (m + m * rtk_nx r)"
    and "i0 < min (nat n) (MAXOBS h) \<Longrightarrow> obs_sat (obs i0) = s \<Longrightarrow>
           rtk_x fin m = (if ub_bias (fst cl) i0 = 0 \<or> (x2 \<noteq> 0 \<and> ub_slip (fst cl) i0 = 0) then x2
                          else ub_bias (fst cl) i0) \<and>
           rtk_P fin (m + m * rtk_nx r)
             = (if ub_bias (fst cl) i0 = 0 \<or> (x2 \<noteq> 0 \<and> ub_slip (fst cl) i0 = 0)
                then rtk_P r1 (m + m * rtk_nx r) + SQR (prn (rtk_opt r) 0) * \<bar>rtk_tt r\<bar>
                else VAR_BIAS)"
proof -
  define r2 where "r2 = udbias_jump h f (fst cl) (snd cl) r1"
  define N where "N = min (nat n) (MAXOBS h)"
  have e: "fin = fold (udbias_reinit h obs f (fst cl)) [0..<N] r2"
    unfolding fin freq_unfold r1 cl r2_def N_def obs_range_upt ..
  have ss1: "same_sats r1 r"
    unfolding r1 by (rule reset_same_sats [OF nx f])
  from same_sats_sel [OF ss1] have s1: "rtk_opt r1 = rtk_opt r" "rtk_nx r1 = rtk_nx r" "rtk_tt r1 = rtk_tt r"
    by simp_all
  from same_sats_sel [OF jump_same_sats [of h f "fst cl" "snd cl" r1]]
  have s2: "rtk_opt r2 = rtk_opt r" "rtk_nx r2 = rtk_nx r" "rtk_tt r2 = rtk_tt r"
    unfolding r2_def by (simp_all add: s1)
  from IB_less_NX [OF s f] nx m have mn: "m < rtk_nx r"
    by simp
  from m have m1: "m = IB h s f (rtk_opt r1)" by (simp add: s1)
  have xr2: "rtk_x r2 m = x2"
    unfolding r2_def x2 by (rule jump_x_at [OF s m1])
  have Pr2: "rtk_P r2 = rtk_P r1"
    unfolding r2_def by (rule jump_P)
  have inb: "IB h (obs_sat (obs i)) f (rtk_opt r2) < rtk_nx r2" if "i < N" for i
  proof -
    from that ok have si: "1 \<le> obs_sat (obs i)" "obs_sat (obs i) \<le> MAXSAT h"
      by (simp_all add: obs_ok_def N_def)
    from IB_less_NX [OF si f] nx show ?thesis
      by (simp add: s2)
  qed
  {
    assume un: "\<And>i. i < min (nat n) (MAXOBS h) \<Longrightarrow> obs_sat (obs i) \<noteq> s"
    have "rtk_x (fold (udbias_reinit h obs f (fst cl)) [0..<N] r2) m = rtk_x r2 m \<and>
          rtk_P (fold (udbias_reinit h obs f (fst cl)) [0..<N] r2) (m + m * rtk_nx r2)
            = rtk_P r2 (m + m * rtk_nx r2)"
    proof (rule reinit_fold_frame)
      show "m < rtk_nx r2" using mn by (simp add: s2)
      fix i assume "i \<in> set [0..<N]"
      then have i: "i < N" by simp
      with ok have si: "1 \<le> obs_sat (obs i)" "obs_sat (obs i) \<le> MAXSAT h"
        by (simp_all add: obs_ok_def N_def)
      from un [of i] i have "obs_sat (obs i) \<noteq> s" by (simp add: N_def)
      with IB_inj [OF si s, of f "rtk_opt r" f] m have "IB h (obs_sat (obs i)) f (rtk_opt r) \<noteq> m"
        by auto
      with inb [OF i]
      show "IB h (obs_sat (obs i)) f (rtk_opt r2) < rtk_nx r2 \<and> IB h (obs_sat (obs i)) f (rtk_opt r2) \<noteq> m"
        by (simp add: s2)
    qed
    then show "rtk_x fin m = x2 \<and> rtk_P fin (m + m * rtk_nx r) = rtk_P r1 (m + m * rtk_nx r)"
      unfolding e by (simp add: s2 xr2 Pr2)
  }
  {
    assume i0: "i0 < min (nat n) (MAXOBS h)" and s0: "obs_sat (obs i0) = s"
    have J: "m = IB h (obs_sat (obs i0)) f (rtk_opt r2)"
      by (simp add: m s0 s2)
    have "rtk_x (fold (udbias_reinit h obs f (fst cl)) [0..<N] r2) m
           = (if reinit_cond (fst cl) i0 r2 m then ub_bias (fst cl) i0 else rtk_x r2 m) \<and>
         rtk_P (fold (udbias_reinit h obs f (fst cl)) [0..<N] r2) (m + m * rtk_nx r2)
           = (if reinit_cond (fst cl) i0 r2 m then VAR_BIAS
              else rtk_P r2 (m + m * rtk_nx r2) + SQR (prn (rtk_opt r2) 0) * \<bar>rtk_tt r2\<bar>)"
    proof (rule reinit_fold_at [where ?i0.0 = i0])
      show "i0 < N" using i0 by (simp add: N_def)
      show "m = IB h (obs_sat (obs i0)) f (rtk_opt r2)" by (rule J)
    next
      fix i assume "i < N"
      then show "IB h (obs_sat (obs i)) f (rtk_opt r2) < rtk_nx r2" by (rule inb)
    next
      fix i assume i: "i < N" and ne: "i \<noteq> i0"
      with ok i0 have si: "1 \<le> obs_sat (obs i)" "obs_sat (obs i) \<le> MAXSAT h"
        and s0': "1 \<le> obs_sat (obs i0)" "obs_sat (obs i0) \<le> MAXSAT h"
        and d: "obs_sat (obs i) \<noteq> obs_sat (obs i0)"
        by (auto simp: obs_ok_def N_def)
      from IB_inj [OF si s0', of f "rtk_opt r" f] d
      show "IB h (obs_sat (obs i)) f (rtk_opt r2) \<noteq> IB h (obs_sat (obs i0)) f (rtk_opt r2)"
        by (auto simp: s2)
    qed
    moreover have "reinit_cond (fst cl) i0 r2 m
        = (\<not> (ub_bias (fst cl) i0 = 0 \<or> (x2 \<noteq> 0 \<and> ub_slip (fst cl) i0 = 0)))"
      by (simp add: reinit_cond_def xr2)
    ultimately show "rtk_x fin m = (if ub_bias (fst cl) i0 = 0 \<or> (x2 \<noteq> 0 \<and> ub_slip (fst cl) i0 = 0) then x2
                          else ub_bias (fst cl) i0) \<and>
           rtk_P fin (m + m * rtk_nx r)
             = (if ub_bias (fst cl) i0 = 0 \<or> (x2 \<noteq> 0 \<and> ub_slip (fst cl) i0 = 0)
                then rtk_P r1 (m + m * rtk_nx r) + SQR (prn (rtk_opt r) 0) * \<bar>rtk_tt r\<bar>
                else VAR_BIAS)"
      unfolding e by (simp add: s2 xr2 Pr2)
  }
qed

text \<open>The state before the iteration of frequency \<open>f\<close>, and the state at its end.\<close>

lemma ppp_at:
  assumes nx: "rtk_nx rtk = NX h (rtk_opt rtk)" and f: "f < nat (NF (rtk_opt rtk))"
    and ok: "obs_ok h obs (min (nat n) (MAXOBS h))"
    and s: "1 \<le> s" "s \<le> MAXSAT h"
    and m: "m = IB h s f (rtk_opt rtk)"
    and c: "c = udbias_clk_jump (rtk_opt rtk) tow"
    and st: "st = fold (udbias_freq h ext nav obs n c) [0..<f] (udbias_detect h ext rtk obs n nav, udb_init)"
    and fin: "fin = fst (udbias_freq h ext nav obs n c f st)"
  shows "rtk_x (udbias_ppp h ext tow rtk obs n nav) m = rtk_x fin m"
    and "rtk_P (udbias_ppp h ext tow rtk obs n nav) (m + m * rtk_nx rtk) = rtk_P fin (m + m * rtk_nx rtk)"
    and "same_sats (fst st) (udbias_detect h ext rtk obs n nav)"
    and "static (fst st) = static rtk"
    and "rtk_x (fst st) m = rtk_x rtk m"
    and "rtk_P (fst st) (m + m * rtk_nx rtk) = rtk_P rtk (m + m * rtk_nx rtk)"
    and "outc (rtk_ssat (fst st) i) f = outc (rtk_ssat rtk i) f"
proof -
  define r0 where "r0 = udbias_detect h ext rtk obs n nav"
  have st0: "static r0 = static rtk"
    unfolding r0_def by (rule udbias_detect_static)
  from static_sel [OF st0] have s0: "rtk_opt r0 = rtk_opt rtk" "rtk_nx r0 = rtk_nx rtk"
    by simp_all
  from nx f m s0 have nx0: "rtk_nx r0 = NX h (rtk_opt r0)" and f0: "f < nat (NF (rtk_opt r0))"
    and m0: "m = IB h s f (rtk_opt r0)"
    by simp_all
  have ss1: "same_sats (fst st) r0"
    unfolding st r0_def [symmetric]
    by (rule loop_same_sats [OF nx0]) (use f0 same_sats_refl in simp_all)
  then show "same_sats (fst st) (udbias_detect h ext rtk obs n nav)"
    unfolding r0_def .
  from ss1 st0 show st1: "static (fst st) = static rtk"
    by (simp add: same_sats_def)
  from static_sel [OF st1] nx f
  have a: "rtk_nx (fst st) = NX h (rtk_opt (fst st))" "f < nat (NF (rtk_opt (fst st)))"
    by simp_all
  have fr0: "rtk_x (fst st) m = rtk_x (fst (r0, udb_init)) m \<and>
        rtk_P (fst st) (m + m * rtk_nx r0) = rtk_P (fst (r0, udb_init)) (m + m * rtk_nx r0)"
    unfolding st r0_def [symmetric]
    by (rule loop_frame [OF nx0 _ f0 s ok m0]) (use f0 same_sats_refl in simp_all)
  then show "rtk_x (fst st) m = rtk_x rtk m"
    "rtk_P (fst st) (m + m * rtk_nx rtk) = rtk_P rtk (m + m * rtk_nx rtk)"
    unfolding r0_def by (simp_all add: udbias_detect_xP s0 [unfolded r0_def])
  have "outc (rtk_ssat (fst st) i) f = outc (rtk_ssat (fst (r0, udb_init)) i) f"
    unfolding st r0_def [symmetric] by (rule loop_outc) simp
  then show "outc (rtk_ssat (fst st) i) f = outc (rtk_ssat rtk i) f"
    unfolding r0_def by (simp add: udbias_detect_outc)
  define st2 where "st2 = udbias_freq h ext nav obs n c f st"
  have ss2: "same_sats (fst st2) r0"
    unfolding st2_def by (rule same_sats_trans [OF freq_same_sats_st [OF a] ss1])
  have e: "udbias_ppp h ext tow rtk obs n nav
      = fst (fold (udbias_freq h ext nav obs n c) [Suc f..<nat (NF (rtk_opt r0))] st2)"
    unfolding udbias_ppp_unfold r0_def [symmetric] c [symmetric] upt_split [OF f0] st st2_def
    by simp
  have "rtk_x (fst (fold (udbias_freq h ext nav obs n c) [Suc f..<nat (NF (rtk_opt r0))] st2)) m
          = rtk_x (fst st2) m \<and>
        rtk_P (fst (fold (udbias_freq h ext nav obs n c) [Suc f..<nat (NF (rtk_opt r0))] st2))
            (m + m * rtk_nx r0)
          = rtk_P (fst st2) (m + m * rtk_nx r0)"
    by (rule loop_frame [OF nx0 _ f0 s ok m0 ss2]) simp
  then show "rtk_x (udbias_ppp h ext tow rtk obs n nav) m = rtk_x fin m"
    "rtk_P (udbias_ppp h ext tow rtk obs n nav) (m + m * rtk_nx rtk) = rtk_P fin (m + m * rtk_nx rtk)"
    unfolding e fin st2_def by (simp_all add: s0)
qed

lemma same_sats_sym: "same_sats r r0 \<Longrightarrow> same_sats r0 r"
  by (simp add: same_sats_def)

lemma ppp_view:
  assumes nx: "rtk_nx rtk = NX h (rtk_opt rtk)" and f: "f < nat (NF (rtk_opt rtk))"
    and ok: "obs_ok h obs (min (nat n) (MAXOBS h))"
    and s: "1 \<le> s" "s \<le> MAXSAT h"
    and m: "m = IB h s f (rtk_opt rtk)"
    and c: "c = udbias_clk_jump (rtk_opt rtk) tow"
    and st: "st = fold (udbias_freq h ext nav obs n c) [0..<f] (udbias_detect h ext rtk obs n nav, udb_init)"
    and r1: "r1 = udbias_reset h c f (fst st)"
    and cl: "cl = fold (udbias_collect h ext r1 nav obs f) (obs_range h n) (snd st, 0)"
    and x2: "x2 = (if jump_cond h (fst cl) (snd cl) \<and> rtk_x r1 m \<noteq> 0
                   then rtk_x r1 m + ub_offset (fst cl) / real_of_int (snd cl) else rtk_x r1 m)"
    and r': "rtk' = udbias_ppp h ext tow rtk obs n nav"
  shows "rtk_x r1 m = (if reset_cond c f rtk (s - 1) then 0 else rtk_x rtk m)"
    and "rtk_P r1 (m + m * rtk_nx rtk)
           = (if reset_cond c f rtk (s - 1) then 0 else rtk_P rtk (m + m * rtk_nx rtk))"
    and "(\<And>i. i < min (nat n) (MAXOBS h) \<Longrightarrow> obs_sat (obs i) \<noteq> s) \<Longrightarrow>
           rtk_x rtk' m = x2 \<and> rtk_P rtk' (m + m * rtk_nx rtk) = rtk_P r1 (m + m * rtk_nx rtk)"
    and "i0 < min (nat n) (MAXOBS h) \<Longrightarrow> obs_sat (obs i0) = s \<Longrightarrow>
           rtk_x rtk' m = (if ub_bias (fst cl) i0 = 0 \<or> (x2 \<noteq> 0 \<and> ub_slip (fst cl) i0 = 0) then x2
                           else ub_bias (fst cl) i0) \<and>
           rtk_P rtk' (m + m * rtk_nx rtk)
             = (if ub_bias (fst cl) i0 = 0 \<or> (x2 \<noteq> 0 \<and> ub_slip (fst cl) i0 = 0)
                then rtk_P r1 (m + m * rtk_nx rtk) + SQR (prn (rtk_opt rtk) 0) * \<bar>rtk_tt rtk\<bar>
                else VAR_BIAS)"
    and "i0 < min (nat n) (MAXOBS h) \<Longrightarrow>
           ub_bias (fst cl) i0
             = fst (udbias_meas h ext (rtk_opt rtk') (rtk_ssat rtk' (obs_sat (obs i0) - 1)) nav (obs i0) f 0)"
    and "i0 < min (nat n) (MAXOBS h) \<Longrightarrow>
           ub_slip (fst cl) i0
             = snd (udbias_meas h ext (rtk_opt rtk') (rtk_ssat rtk' (obs_sat (obs i0) - 1)) nav (obs i0) f
                      (ub_slip (snd st) i0))"
proof -
  define fin where "fin = fst (udbias_freq h ext nav obs n c f st)"
  note pa = ppp_at [OF nx f ok s m c st fin_def]
  from static_sel [OF pa(4)] have s1: "rtk_opt (fst st) = rtk_opt rtk" "rtk_nx (fst st) = rtk_nx rtk"
    "rtk_tt (fst st) = rtk_tt rtk"
    by simp_all
  from s1 nx f m have a: "rtk_nx (fst st) = NX h (rtk_opt (fst st))" "f < nat (NF (rtk_opt (fst st)))"
    and m1: "m = IB h s f (rtk_opt (fst st))"
    by simp_all
  have rc: "reset_cond c f (fst st) (s - 1) = reset_cond c f rtk (s - 1)"
    unfolding reset_cond_def s1 pa(7) ..
  from reset_at [OF a s m1, of c]
  show "rtk_x r1 m = (if reset_cond c f rtk (s - 1) then 0 else rtk_x rtk m)"
    and "rtk_P r1 (m + m * rtk_nx rtk)
           = (if reset_cond c f rtk (s - 1) then 0 else rtk_P rtk (m + m * rtk_nx rtk))"
    unfolding r1 rc s1 pa(5) pa(6) by simp_all
  have fin': "fin = fst (udbias_freq h ext nav obs n c f (fst st, snd st))"
    unfolding fin_def by simp
  note fa = freq_at [OF a ok s m1 r1 cl x2 fin']
  show "rtk_x rtk' m = x2 \<and> rtk_P rtk' (m + m * rtk_nx rtk) = rtk_P r1 (m + m * rtk_nx rtk)"
    if "\<And>i. i < min (nat n) (MAXOBS h) \<Longrightarrow> obs_sat (obs i) \<noteq> s"
    using fa(1) [OF that] unfolding r' pa(1) pa(2) s1 by simp
  show "rtk_x rtk' m = (if ub_bias (fst cl) i0 = 0 \<or> (x2 \<noteq> 0 \<and> ub_slip (fst cl) i0 = 0) then x2
                           else ub_bias (fst cl) i0) \<and>
           rtk_P rtk' (m + m * rtk_nx rtk)
             = (if ub_bias (fst cl) i0 = 0 \<or> (x2 \<noteq> 0 \<and> ub_slip (fst cl) i0 = 0)
                then rtk_P r1 (m + m * rtk_nx rtk) + SQR (prn (rtk_opt rtk) 0) * \<bar>rtk_tt rtk\<bar>
                else VAR_BIAS)"
    if "i0 < min (nat n) (MAXOBS h)" "obs_sat (obs i0) = s"
    using fa(2) [OF that] unfolding r' pa(1) pa(2) s1 by simp
  have ss: "same_sats rtk' (fst st)"
    unfolding r'
    by (rule same_sats_trans [OF udbias_ppp_same_sats [OF nx] same_sats_sym [OF pa(3)]])
  have ma: "meas_at h ext (fst st) nav obs f i0 so
      = udbias_meas h ext (rtk_opt rtk') (rtk_ssat rtk' (obs_sat (obs i0) - 1)) nav (obs i0) f so" for so
    using meas_at_cong [OF ss, of h ext nav obs f i0 so] by (simp add: meas_at_def)
  note ca = collect_at [OF a _ cl [unfolded r1]]
  show "ub_bias (fst cl) i0
          = fst (udbias_meas h ext (rtk_opt rtk') (rtk_ssat rtk' (obs_sat (obs i0) - 1)) nav (obs i0) f 0)"
    if "i0 < min (nat n) (MAXOBS h)"
    using ca(1) [OF that] unfolding ma .
  show "ub_slip (fst cl) i0
          = snd (udbias_meas h ext (rtk_opt rtk') (rtk_ssat rtk' (obs_sat (obs i0) - 1)) nav (obs i0) f
                   (ub_slip (snd st) i0))"
    if "i0 < min (nat n) (MAXOBS h)"
    using ca(2) [OF that] unfolding ma .
qed

lemma CausedByOneSat_fold:
  "fold (\<lambda>i st. case st of (mx, sm) \<Rightarrow> ((if a i > mx then a i else mx), sm + a i)) [0..<N]
      (a 0, a 0 :: real)
   = (Max (insert (a 0) (a ` {..<N})), a 0 + sum a {..<N})"
proof (induction N)
  case 0
  show ?case by simp
next
  case (Suc N)
  let ?F = "\<lambda>i st. case st of (mx, sm) \<Rightarrow> ((if a i > mx then a i else mx), sm + a i)"
  let ?M = "Max (insert (a 0) (a ` {..<N}))"
  have "insert (a 0) (a ` {..<Suc N}) = insert (a N) (insert (a 0) (a ` {..<N}))"
    by (auto simp: lessThan_Suc)
  moreover have "Max (insert (a N) (insert (a 0) (a ` {..<N}))) = max (a N) ?M"
    by (rule Max_insert) simp_all
  ultimately have "Max (insert (a 0) (a ` {..<Suc N})) = max (a N) ?M"
    by (simp only:)
  also have "\<dots> = (if a N > ?M then a N else ?M)"
    by (simp only: max_def not_less [symmetric] if_not_P if_P split: if_split) auto
  finally have m: "(if a N > ?M then a N else ?M) = Max (insert (a 0) (a ` {..<Suc N}))"
    by (rule sym)
  have sm: "a 0 + sum a {..<N} + a N = a 0 + sum a {..<Suc N}"
    by simp
  have "fold ?F [0..<Suc N] (a 0, a 0) = ?F N (fold ?F [0..<N] (a 0, a 0))"
    by simp
  also have "\<dots> = ?F N (?M, a 0 + sum a {..<N})"
    by (simp only: Suc)
  also have "\<dots> = ((if a N > ?M then a N else ?M), a 0 + sum a {..<N} + a N)"
    by (simp only: prod.case)
  also have "\<dots> = (Max (insert (a 0) (a ` {..<Suc N})), a 0 + sum a {..<Suc N})"
    by (simp only: m sm)
  finally show ?case .
qed

lemma CausedByOneSat_eq:
  "CausedByOneSat a k
     = (if Max (insert (a 0) (a ` {..<nat k})) > 2 * (a 0 + sum a {..<nat k}) / real_of_int k
        then 0 else 1)"
  unfolding CausedByOneSat_def CausedByOneSat_fold by simp


text \<open>
  C5. In \<open>udbias_ppp\<close>, for an epoch with one observation per satellite, every satellite
  \<open>s\<close> from 1 to \<^verbatim>\<open>MAXSAT\<close> and every frequency \<open>f < NF\<close>: when the day-boundary test
  is enabled (\<^verbatim>\<open>posopt[5]\<close> set) and \<open>ROUND (tow * 10) mod 864000 = 0\<close>, or the ambiguity
  resolution mode is instantaneous, or the incremented outage counter of \<open>(s, f)\<close> exceeds
  \<^verbatim>\<open>maxout\<close>, then at the end of the update the ambiguity state \<open>IB s f\<close> is 0 with
  variance 0 if the satellite is not observed at the epoch. If it is observed, the state
  is reinitialised to its bias with variance \<open>VAR_BIAS\<close> when the bias is not 0, and is 0
  with variance \<open>SQR (prn[0]) * \<bar>tt\<bar>\<close> when the bias is 0.
\<close>

theorem udbias_ppp_reset:
  assumes nx: "rtk_nx rtk = NX h (rtk_opt rtk)" and f: "f < nat (NF (rtk_opt rtk))"
    and ok: "obs_ok h obs (min (nat n) (MAXOBS h))"
    and s: "1 \<le> s" "s \<le> MAXSAT h"
    and cond: "udbias_clk_jump (rtk_opt rtk) tow \<or> modear (rtk_opt rtk) = ARMODE_INST \<or>
               outc (rtk_ssat rtk (s - 1)) f + 1 > word_of_int (maxout (rtk_opt rtk))"
    and j: "j = IB h s f (rtk_opt rtk)"
    and r': "rtk' = udbias_ppp h ext tow rtk obs n nav"
  shows "((\<forall>i < min (nat n) (MAXOBS h). obs_sat (obs i) \<noteq> s) \<longrightarrow>
            rtk_x rtk' j = 0 \<and> rtk_P rtk' (j + j * rtk_nx rtk) = 0) \<and>
         (\<forall>i < min (nat n) (MAXOBS h). obs_sat (obs i) = s \<longrightarrow>
            (let b = fst (udbias_meas h ext (rtk_opt rtk') (rtk_ssat rtk' (s - 1)) nav (obs i) f 0)
             in if b = 0
                then rtk_x rtk' j = 0 \<and>
                     rtk_P rtk' (j + j * rtk_nx rtk) = SQR (prn (rtk_opt rtk) 0) * \<bar>rtk_tt rtk\<bar>
                else rtk_x rtk' j = b \<and> rtk_P rtk' (j + j * rtk_nx rtk) = VAR_BIAS))"
proof -
  define c where "c = udbias_clk_jump (rtk_opt rtk) tow"
  define st where "st = fold (udbias_freq h ext nav obs n c) [0..<f] (udbias_detect h ext rtk obs n nav, udb_init)"
  define r1 where "r1 = udbias_reset h c f (fst st)"
  define cl where "cl = fold (udbias_collect h ext r1 nav obs f) (obs_range h n) (snd st, 0)"
  define x2 where "x2 = (if jump_cond h (fst cl) (snd cl) \<and> rtk_x r1 j \<noteq> 0
                   then rtk_x r1 j + ub_offset (fst cl) / real_of_int (snd cl) else rtk_x r1 j)"
  note pv = ppp_view [OF nx f ok s j c_def st_def r1_def cl_def x2_def r']
  from cond have rc: "reset_cond c f rtk (s - 1)"
    unfolding reset_cond_def c_def by blast
  from pv(1,2) rc have z: "rtk_x r1 j = 0" "rtk_P r1 (j + j * rtk_nx rtk) = 0"
    by simp_all
  then have x2z: "x2 = 0"
    unfolding x2_def by simp
  have un: "rtk_x rtk' j = 0 \<and> rtk_P rtk' (j + j * rtk_nx rtk) = 0"
    if "\<forall>i < min (nat n) (MAXOBS h). obs_sat (obs i) \<noteq> s"
  proof -
    from that have "\<And>i. i < min (nat n) (MAXOBS h) \<Longrightarrow> obs_sat (obs i) \<noteq> s"
      by blast
    from pv(3) [OF this] show ?thesis
      by (simp add: x2z z)
  qed
  have ob: "let b = fst (udbias_meas h ext (rtk_opt rtk') (rtk_ssat rtk' (s - 1)) nav (obs i) f 0)
             in if b = 0
                then rtk_x rtk' j = 0 \<and>
                     rtk_P rtk' (j + j * rtk_nx rtk) = SQR (prn (rtk_opt rtk) 0) * \<bar>rtk_tt rtk\<bar>
                else rtk_x rtk' j = b \<and> rtk_P rtk' (j + j * rtk_nx rtk) = VAR_BIAS"
    if i: "i < min (nat n) (MAXOBS h)" "obs_sat (obs i) = s" for i
  proof -
    from pv(5) [OF i(1)] have b: "ub_bias (fst cl) i
        = fst (udbias_meas h ext (rtk_opt rtk') (rtk_ssat rtk' (s - 1)) nav (obs i) f 0)"
      unfolding i(2) .
    from pv(4) [OF i] show ?thesis
      unfolding Let_def b [symmetric] by (simp add: x2z z)
  qed
  from un ob show ?thesis
    by blast
qed

text \<open>The satellite status after the detectors, for an observed satellite.\<close>

lemma udbias_clear_at:
  assumes "i < MAXSAT h"
  shows "rtk_ssat (udbias_clear h rtk) i
       = for_freq (nf (rtk_opt rtk))
           (\<lambda>j s. s\<lparr>slip := (slip s)(j := 0), slipLLI := (slipLLI s)(j := 0),
                    slipMW := (slipMW s)(j := 0), slipGF := (slipGF s)(j := 0)\<rparr>) (rtk_ssat rtk i)"
proof -
  let ?F = "\<lambda>(j::nat) r. for_freq (nf (rtk_opt r))
           (\<lambda>j s. s\<lparr>slip := (slip s)(j := 0), slipLLI := (slipLLI s)(j := 0),
                    slipMW := (slipMW s)(j := 0), slipGF := (slipGF s)(j := 0)\<rparr>)"
  have "rtk_ssat (fold (\<lambda>j r. on_ssat ((\<lambda>j. j) j) (?F j r) r) [0..<MAXSAT h] rtk) ((\<lambda>j. j) i)
      = ?F i rtk (rtk_ssat rtk ((\<lambda>j. j) i))"
  proof (rule fold_on_ssat_at)
    show "i \<in> set [0..<MAXSAT h]" using assms by simp
    show "distinct [0..<MAXSAT h]" by simp
    show "?F j r = ?F j rtk" if "static r = static rtk" for j r
      using that by (simp add: static_def)
  qed simp
  then show ?thesis
    unfolding udbias_clear_def by simp
qed

lemma obs_keys:
  assumes ok: "obs_ok h obs (min (nat n) (MAXOBS h))" and i: "i < min (nat n) (MAXOBS h)"
  shows "\<And>j. j \<in> set (obs_range h n) \<Longrightarrow> j \<noteq> i \<Longrightarrow> obs_sat (obs j) - 1 \<noteq> obs_sat (obs i) - 1"
    and "i \<in> set (obs_range h n)" and "distinct (obs_range h n)"
proof -
  show "obs_sat (obs j) - 1 \<noteq> obs_sat (obs i) - 1" if "j \<in> set (obs_range h n)" "j \<noteq> i" for j
  proof -
    from that(1) have j: "j < min (nat n) (MAXOBS h)"
      by (simp add: obs_range_def)
    from ok i j have "1 \<le> obs_sat (obs i)" "1 \<le> obs_sat (obs j)"
      by (simp_all add: obs_ok_def)
    moreover from ok i j that(2) have "obs_sat (obs j) \<noteq> obs_sat (obs i)"
      unfolding obs_ok_def by blast
    ultimately show ?thesis by simp
  qed
  show "i \<in> set (obs_range h n)" using i by (simp add: obs_range_def)
  show "distinct (obs_range h n)" by (simp add: obs_range_def)
qed

lemma detslp_ll_at:
  assumes ok: "obs_ok h obs (min (nat n) (MAXOBS h))" and i: "i < min (nat n) (MAXOBS h)"
  shows "rtk_ssat (detslp_ll h rtk obs n) (obs_sat (obs i) - 1)
           = detslp_ll_sat (nf (rtk_opt rtk)) (obs i) (rtk_ssat rtk (obs_sat (obs i) - 1))"
  unfolding detslp_ll_def
proof (rule fold_on_ssat_at [where key = "\<lambda>j. obs_sat (obs j) - 1"
          and F = "\<lambda>j r. detslp_ll_sat (nf (rtk_opt r)) (obs j)"])
  show "detslp_ll_sat (nf (rtk_opt r)) (obs j) = detslp_ll_sat (nf (rtk_opt rtk)) (obs j)"
    if "static r = static rtk" for j r
    using that by (simp add: static_def)
qed (use obs_keys [OF ok i] in blast)+

lemma detslp_gf_at:
  assumes ok: "obs_ok h obs (min (nat n) (MAXOBS h))" and i: "i < min (nat n) (MAXOBS h)"
  shows "rtk_ssat (detslp_gf h ext rtk obs n nav) (obs_sat (obs i) - 1)
           = detslp_gf_sat (nf (rtk_opt rtk)) (thresslip (rtk_opt rtk)) (gfmeas ext (obs i) nav)
               (rtk_ssat rtk (obs_sat (obs i) - 1))"
  unfolding detslp_gf_def
proof (rule fold_on_ssat_at [where key = "\<lambda>j. obs_sat (obs j) - 1"
          and F = "\<lambda>j r. detslp_gf_sat (nf (rtk_opt r)) (thresslip (rtk_opt r)) (gfmeas ext (obs j) nav)"])
  show "detslp_gf_sat (nf (rtk_opt r)) (thresslip (rtk_opt r)) (gfmeas ext (obs j) nav)
      = detslp_gf_sat (nf (rtk_opt rtk)) (thresslip (rtk_opt rtk)) (gfmeas ext (obs j) nav)"
    if "static r = static rtk" for j r
    using that by (simp add: static_def)
qed (use obs_keys [OF ok i] in blast)+

lemma udbias_detect_at:
  assumes ok: "obs_ok h obs (min (nat n) (MAXOBS h))" and i: "i < min (nat n) (MAXOBS h)"
  shows "rtk_ssat (udbias_detect h ext rtk obs n nav) (obs_sat (obs i) - 1)
       = detslp_gf_sat (nf (rtk_opt rtk)) (thresslip (rtk_opt rtk)) (gfmeas ext (obs i) nav)
           (detslp_mw_sat (nf (rtk_opt rtk)) (wide_lane nav) (mwmeas ext (obs i) nav)
              (detslp_ll_sat (nf (rtk_opt rtk)) (obs i)
                 (for_freq (nf (rtk_opt rtk))
                    (\<lambda>j s. s\<lparr>slip := (slip s)(j := 0), slipLLI := (slipLLI s)(j := 0),
                             slipMW := (slipMW s)(j := 0), slipGF := (slipGF s)(j := 0)\<rparr>)
                    (rtk_ssat rtk (obs_sat (obs i) - 1)))))"
proof -
  from ok i have "obs_sat (obs i) - 1 < MAXSAT h"
    by (auto simp: obs_ok_def)
  note c = udbias_clear_at [OF this, of rtk]
  have o: "rtk_opt (detslp_mw h ext (detslp_ll h (udbias_clear h rtk) obs n) obs n nav) = rtk_opt rtk"
    "rtk_opt (detslp_ll h (udbias_clear h rtk) obs n) = rtk_opt rtk"
    "rtk_opt (udbias_clear h rtk) = rtk_opt rtk"
    using static_sel [OF detectors_static(1), of h rtk]
      static_sel [OF detectors_static(2), of h "udbias_clear h rtk" obs n]
      static_sel [OF detectors_static(3), of h ext "detslp_ll h (udbias_clear h rtk) obs n" obs n nav]
    by simp_all
  show ?thesis
    unfolding udbias_detect_def detslp_gf_at [OF ok i] detslp_mw_at [OF ok i] detslp_ll_at [OF ok i] c o ..
qed

text \<open>At most one offset is collected per observation.\<close>

lemma collect_count_le:
  "snd (fold (udbias_collect h ext r nav obs f) js st) \<le> snd st + int (length js)"
proof (induction js arbitrary: st)
  case Nil
  show ?case by simp
next
  case (Cons j js)
  have "snd (udbias_collect h ext r nav obs f j st) \<le> snd st + 1"
    by (cases st) (simp add: udbias_collect_def Let_def)
  with Cons [of "udbias_collect h ext r nav obs f j st"] show ?case
    by simp
qed

lemma jump_cond_single: "snd cl \<le> 1 \<Longrightarrow> \<not> jump_cond h (fst cl) (snd cl)"
  by (simp add: jump_cond_def)

lemma const_upd: "(\<lambda>_. c)(i := c) = (\<lambda>_. c)"
  by auto

lemma upt_0_1: "[0..<1] = [0::nat]"
  by simp

lemma small_consts: "MAXSAT rtklib_h_small = 2" "NFREQ rtklib_h_small = 3" "NSYS rtklib_h_small = 4"
  "CLIGHT rtklib_h_small = 299792458" "MAXOBS rtklib_h_small = 64"
  by (simp_all add: rtklib_h_small_def rtklib_h_std_def)

lemma obs_range_small: "obs_range rtklib_h_small 1 = [0]" "obs_range rtklib_h_small 2 = [0, 1]"
  by (simp_all add: obs_range_def small_consts upt_0_2)

lemma opt_single_sel: "nf opt_single = 1" "ionoopt opt_single = IONOOPT_OFF" "dynamics opt_single = 0"
  "tropopt opt_single = TROPOPT_OFF" "maxout opt_single = 5" "modear opt_single = ARMODE_OFF"
  "posopt opt_single = (\<lambda>_. 0)" "prn opt_single = (\<lambda>_. 0)" "sateph opt_single = EPHOPT_PREC"
  "thresslip opt_single = 1 / 20"
  by (simp_all add: opt_single_def opt_example_def)

lemma opt_day_sel: "nf opt_day = 1" "ionoopt opt_day = IONOOPT_OFF" "dynamics opt_day = 0"
  "tropopt opt_day = TROPOPT_OFF" "maxout opt_day = 5" "modear opt_day = ARMODE_OFF"
  "posopt opt_day 5 = 1" "prn opt_day = (\<lambda>_. 0)" "sateph opt_day = EPHOPT_PREC"
  "thresslip opt_day = 1 / 20"
  by (simp_all add: opt_day_def opt_single_def opt_example_def)

lemma NF_epoch: "NF opt_single = 1" "NF opt_day = 1"
  by (simp_all add: NF_def opt_single_sel opt_day_sel)

lemma NX_epoch: "NX rtklib_h_small opt_single = 9" "NX rtklib_h_small opt_day = 9"
  by (simp_all add: NX_def NB_def NF_epoch NR_def NP_def NC_def NT_def NI_def ND_def small_consts
      opt_single_sel opt_day_sel)

lemma IB_epoch: "IB rtklib_h_small s f opt_single = 7 + 2 * f + s - 1"
  "IB rtklib_h_small s f opt_day = 7 + 2 * f + s - 1"
  by (simp_all add: IB_def NR_def NP_def NC_def NT_def NI_def ND_def small_consts opt_single_sel opt_day_sel)

lemma obs_epoch_sel: "obs_sat (obs_epoch s lli p0) = s" "obs_LLI (obs_epoch s lli p0) = (\<lambda>_. lli)"
  "obs_L (obs_epoch s lli p0) = (\<lambda>f. if f = 0 then 101000500 else 80000400)"
  "obs_P (obs_epoch s lli p0) = (\<lambda>f. if f = 0 then p0 else 20000000)"
  by (simp_all add: obs_epoch_def)

lemma rtk_epoch_sel: "rtk_opt (rtk_epoch opt) = opt" "rtk_nx (rtk_epoch opt) = 9"
  "rtk_x (rtk_epoch opt) = (\<lambda>_. 100)" "rtk_ssat (rtk_epoch opt) = (\<lambda>_. ssat_fresh)"
  "rtk_tt (rtk_epoch opt) = 30" "rtk_P (rtk_epoch opt) = (\<lambda>_. 4)"
  by (simp_all add: rtk_epoch_def rtk_example_def)

lemma ssat_fresh_sel: "slip ssat_fresh = (\<lambda>_. 0)" "mw ssat_fresh = 0" "mwarc ssat_fresh = 0" "gf ssat_fresh = 0"
  "outc ssat_fresh = (\<lambda>_. 0)" "slipLLI ssat_fresh = (\<lambda>_. 0)" "slipMW ssat_fresh = (\<lambda>_. 0)" "slipGF ssat_fresh = (\<lambda>_. 0)"
  by (simp_all add: ssat_fresh_def ssat_example_def)

lemma obs_ok_epoch:
  "obs_ok rtklib_h_small (\<lambda>_. obs_epoch 1 lli p0) (min (nat 1) (MAXOBS rtklib_h_small))"
  "obs_ok rtklib_h_small (\<lambda>i. obs_epoch (i + 1) lli p0) (min (nat 2) (MAXOBS rtklib_h_small))"
  by (simp_all add: obs_ok_def small_consts obs_epoch_sel)

lemma corr_meas_epoch:
  assumes "sateph opt = EPHOPT_PREC"
  shows "corr_meas rtklib_h_small ext_gps (obs_epoch s lli 20000000) nav_example az opt (\<lambda>_. 0) (\<lambda>_. 0) 0
    = ((\<lambda>_. 0)(0 := 20200100, 1 := 20000100, 2 := 24000120),
       (\<lambda>_. 0)(0 := 20000000, 1 := 20000000, 2 := 20000000), 
       25 / 9 * 20200100 - 16 / 9 * 20000100, 20000000)"
  using assms
  by (simp add: corr_meas_def small_consts upt_0_3 corr_meas_freq_def ext_gps_def obs_epoch_def
      nav_example_def lc_index_def SQR_def Let_def)

lemma meas_epoch:
  assumes "sateph opt = EPHOPT_PREC" "ionoopt opt = IONOOPT_OFF"
  shows "udbias_meas rtklib_h_small ext_gps opt ss nav_example (obs_epoch s lli 20000000) 0 so
     = (200100, uint (slip ss 0))"
  unfolding udbias_meas_def corr_meas_epoch [OF assms(1)] using assms(2)
  by (simp add: obs_epoch_def nav_example_def ext_gps_def lc_index_def SQR_def Let_def)

lemma corr_meas_phase:
  assumes "sateph opt = EPHOPT_PREC"
  shows "corr_meas rtklib_h_small ext_gps (obs_epoch s lli 0) nav_example az opt (\<lambda>_. 0) (\<lambda>_. 0) 0
    = ((\<lambda>_. 0)(0 := 0, 1 := 20000100, 2 := 24000120),
       (\<lambda>_. 0)(0 := 0, 1 := 20000000, 2 := 20000000), 0, 0)"
  using assms
  by (simp add: corr_meas_def small_consts upt_0_3 corr_meas_freq_def ext_gps_def obs_epoch_def
      nav_example_def lc_index_def SQR_def Let_def)

lemma meas_phase:
  assumes "sateph opt = EPHOPT_PREC" "ionoopt opt = IONOOPT_OFF"
  shows "udbias_meas rtklib_h_small ext_gps opt ss nav_example (obs_epoch s lli 0) 0 so = (0, so)"
  unfolding udbias_meas_def corr_meas_phase [OF assms(1)] using assms(2)
  by simp

lemma detect_slip_epoch:
  assumes ok: "obs_ok rtklib_h_small obs (min (nat n) (MAXOBS rtklib_h_small))"
    and i: "i < min (nat n) (MAXOBS rtklib_h_small)"
    and o: "obs i = obs_epoch s lli p0"
  shows "slip (rtk_ssat (udbias_detect rtklib_h_small ext_gps (rtk_epoch opt_single) obs n nav_example)
           (s - 1)) 0 = (if lli AND 3 = 0 then 0 else 1)"
proof -
  have s: "obs_sat (obs i) = s"
    by (simp add: o obs_epoch_sel)
  show ?thesis
    unfolding udbias_detect_at [OF ok i, unfolded s] o
    by (simp add: rtk_epoch_sel opt_single_sel for_freq_def upt_0_1 ssat_fresh_sel detslp_ll_sat_def
        obs_epoch_sel detslp_mw_sat_def detslp_gf_sat_def mw_reset_def Let_def)
qed

lemma udbias_ppp_static:
  assumes nx: "rtk_nx rtk = NX h (rtk_opt rtk)"
  shows "rtk_opt (udbias_ppp h ext tow rtk obs n nav) = rtk_opt rtk"
    and "slip (rtk_ssat (udbias_ppp h ext tow rtk obs n nav) i)
           = slip (rtk_ssat (udbias_detect h ext rtk obs n nav) i)"
proof -
  note ss = udbias_ppp_same_sats [OF nx, of ext tow obs n nav]
  from same_sats_sel [OF ss] static_sel [OF udbias_detect_static, of h ext rtk obs n nav]
  show "rtk_opt (udbias_ppp h ext tow rtk obs n nav) = rtk_opt rtk"
    by simp
  from ss show "slip (rtk_ssat (udbias_ppp h ext tow rtk obs n nav) i)
           = slip (rtk_ssat (udbias_detect h ext rtk obs n nav) i)"
    by (simp add: same_sats_def)
qed

lemma clk_jump_day: "udbias_clk_jump opt_day 86400" "\<not> udbias_clk_jump opt_single tow"
  "c_rem (ROUND (86400 * 10)) 864000 = 0"
  by (simp_all add: udbias_clk_jump_def opt_day_sel opt_single_sel ROUND_def c_rem_def)

lemma epoch_hyps:
  "rtk_nx (rtk_epoch opt_single) = NX rtklib_h_small (rtk_opt (rtk_epoch opt_single))"
  "rtk_nx (rtk_epoch opt_day) = NX rtklib_h_small (rtk_opt (rtk_epoch opt_day))"
  "0 < nat (NF (rtk_opt (rtk_epoch opt_single)))" "0 < nat (NF (rtk_opt (rtk_epoch opt_day)))"
  "0 < min (nat 1) (MAXOBS rtklib_h_small)" "0 < min (nat 2) (MAXOBS rtklib_h_small)"
  "1 < min (nat 2) (MAXOBS rtklib_h_small)"
  "(1::nat) \<le> 1" "1 \<le> MAXSAT rtklib_h_small" "(1::nat) \<le> 2" "2 \<le> MAXSAT rtklib_h_small"
  by (simp_all add: rtk_epoch_sel NX_epoch NF_epoch small_consts)

text \<open>
  The theorem at an epoch on the day boundary with \<^verbatim>\<open>posopt[5]\<close> set: satellite 2 is not
  observed, satellite 1 is observed with the bias 200100.
\<close>

theorem udbias_ppp_reset_witness:
  "udbias_clk_jump opt_day 86400 \<and>
   rtk_x (udbias_ppp rtklib_h_small ext_gps 86400 (rtk_epoch opt_day)
            (\<lambda>_. obs_epoch 1 0 20000000) 1 nav_example) 8 = 0 \<and>
   rtk_P (udbias_ppp rtklib_h_small ext_gps 86400 (rtk_epoch opt_day)
            (\<lambda>_. obs_epoch 1 0 20000000) 1 nav_example) 80 = 0 \<and>
   rtk_x (udbias_ppp rtklib_h_small ext_gps 86400 (rtk_epoch opt_day)
            (\<lambda>_. obs_epoch 1 0 20000000) 1 nav_example) 7 = 200100 \<and>
   rtk_P (udbias_ppp rtklib_h_small ext_gps 86400 (rtk_epoch opt_day)
            (\<lambda>_. obs_epoch 1 0 20000000) 1 nav_example) 70 = 3600"
proof -
  let ?rtk' = "udbias_ppp rtklib_h_small ext_gps 86400 (rtk_epoch opt_day)
                 (\<lambda>_. obs_epoch 1 0 20000000) 1 nav_example"
  have cond: "udbias_clk_jump (rtk_opt (rtk_epoch opt_day)) 86400 \<or>
      modear (rtk_opt (rtk_epoch opt_day)) = ARMODE_INST \<or>
      outc (rtk_ssat (rtk_epoch opt_day) (s - 1)) 0 + 1 > word_of_int (maxout (rtk_opt (rtk_epoch opt_day)))" for s
    by (simp add: rtk_epoch_sel clk_jump_day)
  have o: "rtk_opt ?rtk' = opt_day"
    by (simp add: udbias_ppp_static(1) [OF epoch_hyps(2)] rtk_epoch_sel)
  have b: "fst (udbias_meas rtklib_h_small ext_gps (rtk_opt ?rtk') ss nav_example
             (obs_epoch 1 0 20000000) 0 0) = 200100" for ss
    unfolding o by (simp add: meas_epoch opt_day_sel)
  note t = udbias_ppp_reset [where ext = ext_gps and nav = nav_example and tow = 86400
      and obs = "\<lambda>_. obs_epoch 1 0 20000000" and n = 1,
      OF epoch_hyps(2) epoch_hyps(4) obs_ok_epoch(1) _ _ cond refl refl, unfolded b]
  from t [OF epoch_hyps(10,11)]
  have 2: "rtk_x ?rtk' 8 = 0 \<and> rtk_P ?rtk' 80 = 0"
    by (simp add: obs_epoch_sel small_consts IB_epoch rtk_epoch_sel)
  from t [OF epoch_hyps(8,9)]
  have 1: "rtk_x ?rtk' 7 = 200100 \<and> rtk_P ?rtk' 70 = 3600"
    by (simp add: obs_epoch_sel small_consts IB_epoch rtk_epoch_sel VAR_BIAS_def SQR_def)
  from 1 2 clk_jump_day(1) show ?thesis
    by simp
qed

text \<open>
  Without \<^verbatim>\<open>posopt[5]\<close> the day boundary resets nothing: at \<open>tow = 86400\<close> the state of
  the unobserved satellite 2 keeps its value 100 and its variance 4.
\<close>

theorem udbias_ppp_no_reset_counterexample:
  "c_rem (ROUND (86400 * 10)) 864000 = 0 \<and>
   rtk_x (rtk_epoch opt_single) 8 = 100 \<and> rtk_P (rtk_epoch opt_single) 80 = 4 \<and>
   rtk_x (udbias_ppp rtklib_h_small ext_gps 86400 (rtk_epoch opt_single)
            (\<lambda>_. obs_epoch 1 0 20000000) 1 nav_example) 8 = 100 \<and>
   rtk_P (udbias_ppp rtklib_h_small ext_gps 86400 (rtk_epoch opt_single)
            (\<lambda>_. obs_epoch 1 0 20000000) 1 nav_example) 80 = 4"
proof -
  let ?rtk = "rtk_epoch opt_single"
  let ?obs = "\<lambda>_::nat. obs_epoch 1 0 20000000"
  define c where "c = udbias_clk_jump (rtk_opt ?rtk) 86400"
  define st where "st = fold (udbias_freq rtklib_h_small ext_gps nav_example ?obs 1 c) [0..<0]
                          (udbias_detect rtklib_h_small ext_gps ?rtk ?obs 1 nav_example, udb_init)"
  define r1 where "r1 = udbias_reset rtklib_h_small c 0 (fst st)"
  define cl where "cl = fold (udbias_collect rtklib_h_small ext_gps r1 nav_example ?obs 0)
                          (obs_range rtklib_h_small 1) (snd st, 0)"
  define x2 where "x2 = (if jump_cond rtklib_h_small (fst cl) (snd cl) \<and> rtk_x r1 8 \<noteq> 0
                   then rtk_x r1 8 + ub_offset (fst cl) / real_of_int (snd cl) else rtk_x r1 8)"
  have m: "8 = IB rtklib_h_small 2 0 (rtk_opt ?rtk)"
    by (simp add: IB_epoch rtk_epoch_sel)
  note pv = ppp_view [OF epoch_hyps(1) epoch_hyps(3) obs_ok_epoch(1) epoch_hyps(10,11) m c_def st_def
      r1_def cl_def x2_def refl]
  have nc: "\<not> c"
    unfolding c_def by (simp add: rtk_epoch_sel clk_jump_day)
  then have rc: "\<not> reset_cond c 0 ?rtk (2 - 1)"
    by (simp add: reset_cond_def rtk_epoch_sel opt_single_sel ssat_fresh_sel)
  from pv(1,2) rc have z: "rtk_x r1 8 = 100" "rtk_P r1 80 = 4"
    by (simp_all add: rtk_epoch_sel)
  from collect_count_le [of rtklib_h_small ext_gps r1 nav_example ?obs 0 "obs_range rtklib_h_small 1" "(snd st, 0)"]
  have "snd cl \<le> 1"
    unfolding cl_def by (simp add: obs_range_small)
  from jump_cond_single [OF this] have x2: "x2 = 100"
    unfolding x2_def by (simp add: z)
  have "\<And>i. i < min (nat 1) (MAXOBS rtklib_h_small) \<Longrightarrow> obs_sat (?obs i) \<noteq> 2"
    by (simp add: obs_epoch_sel)
  from pv(3) [OF this] x2 z clk_jump_day(3) show ?thesis
    by (simp add: rtk_epoch_sel)
qed


text \<open>
  The theorem of C4 for an observation with the loss-of-lock indicator set and the bias
  200100.
\<close>

theorem udbias_ppp_slip_reinit_witness:
  "slip (rtk_ssat (udbias_ppp rtklib_h_small ext_gps 0 (rtk_epoch opt_single)
                     (\<lambda>_. obs_epoch 1 1 20000000) 1 nav_example) 0) 0 = 1 \<and>
   rtk_x (udbias_ppp rtklib_h_small ext_gps 0 (rtk_epoch opt_single)
            (\<lambda>_. obs_epoch 1 1 20000000) 1 nav_example) 7 = 200100 \<and>
   rtk_P (udbias_ppp rtklib_h_small ext_gps 0 (rtk_epoch opt_single)
            (\<lambda>_. obs_epoch 1 1 20000000) 1 nav_example) 70 = 3600"
proof -
  let ?rtk = "rtk_epoch opt_single"
  let ?obs = "\<lambda>_::nat. obs_epoch 1 1 20000000"
  let ?rtk' = "udbias_ppp rtklib_h_small ext_gps 0 ?rtk ?obs 1 nav_example"
  have o: "rtk_opt ?rtk' = opt_single"
    by (simp add: udbias_ppp_static(1) [OF epoch_hyps(1)] rtk_epoch_sel)
  have sl: "slip (rtk_ssat ?rtk' 0) 0 = 1"
    unfolding udbias_ppp_static(2) [OF epoch_hyps(1)]
    using detect_slip_epoch [where obs = ?obs and n = 1 and i = 0 and s = 1 and lli = 1
        and ?p0.0 = 20000000, OF obs_ok_epoch(1) epoch_hyps(5) refl]
    by simp
  have s0: "obs_sat (?obs 0) - 1 = 0"
    by (simp add: obs_epoch_sel)
  have sl': "slip (rtk_ssat ?rtk' (obs_sat (?obs 0) - 1)) 0 \<noteq> 0"
    unfolding s0 sl by simp
  have me: "fst (udbias_meas rtklib_h_small ext_gps (rtk_opt ?rtk') ss nav_example
             (obs_epoch 1 1 20000000) 0 0) = 200100" for ss
    unfolding o by (simp add: meas_epoch opt_single_sel)
  have bn: "fst (udbias_meas rtklib_h_small ext_gps (rtk_opt ?rtk')
                  (rtk_ssat ?rtk' (obs_sat (?obs 0) - 1)) nav_example (?obs 0) 0 0) \<noteq> 0"
    unfolding me by simp
  from udbias_ppp_slip_reinit [where h = rtklib_h_small and ext = ext_gps and tow = 0 and rtk = ?rtk
      and obs = ?obs and n = 1 and nav = nav_example and i = 0 and f = 0,
      OF epoch_hyps(1) obs_ok_epoch(1) epoch_hyps(5) epoch_hyps(3) refl refl sl' refl bn refl,
      unfolded me]
  have "rtk_x ?rtk' 7 = 200100 \<and> rtk_P ?rtk' 70 = 3600"
    by (simp add: obs_epoch_sel IB_epoch rtk_epoch_sel VAR_BIAS_def SQR_def)
  with sl show ?thesis
    by simp
qed

text \<open>
  An observation with the loss-of-lock indicator set and no code on the first frequency:
  the slip flag is set, the bias is 0, and the state keeps its value 100 and its variance 4.
\<close>

theorem udbias_ppp_slip_no_reinit_counterexample:
  "slip (rtk_ssat (udbias_ppp rtklib_h_small ext_gps 0 (rtk_epoch opt_single)
                     (\<lambda>_. obs_epoch 1 1 0) 1 nav_example) 0) 0 = 1 \<and>
   fst (udbias_meas rtklib_h_small ext_gps opt_single
          (rtk_ssat (udbias_ppp rtklib_h_small ext_gps 0 (rtk_epoch opt_single)
                       (\<lambda>_. obs_epoch 1 1 0) 1 nav_example) 0)
          nav_example (obs_epoch 1 1 0) 0 0) = 0 \<and>
   rtk_x (udbias_ppp rtklib_h_small ext_gps 0 (rtk_epoch opt_single)
            (\<lambda>_. obs_epoch 1 1 0) 1 nav_example) 7 = 100 \<and>
   rtk_P (udbias_ppp rtklib_h_small ext_gps 0 (rtk_epoch opt_single)
            (\<lambda>_. obs_epoch 1 1 0) 1 nav_example) 70 = 4 \<and>
   VAR_BIAS = 3600"
proof -
  let ?rtk = "rtk_epoch opt_single"
  let ?obs = "\<lambda>_::nat. obs_epoch 1 1 0"
  let ?rtk' = "udbias_ppp rtklib_h_small ext_gps 0 ?rtk ?obs 1 nav_example"
  define c where "c = udbias_clk_jump (rtk_opt ?rtk) 0"
  define st where "st = fold (udbias_freq rtklib_h_small ext_gps nav_example ?obs 1 c) [0..<0]
                          (udbias_detect rtklib_h_small ext_gps ?rtk ?obs 1 nav_example, udb_init)"
  define r1 where "r1 = udbias_reset rtklib_h_small c 0 (fst st)"
  define cl where "cl = fold (udbias_collect rtklib_h_small ext_gps r1 nav_example ?obs 0)
                          (obs_range rtklib_h_small 1) (snd st, 0)"
  define x2 where "x2 = (if jump_cond rtklib_h_small (fst cl) (snd cl) \<and> rtk_x r1 7 \<noteq> 0
                   then rtk_x r1 7 + ub_offset (fst cl) / real_of_int (snd cl) else rtk_x r1 7)"
  have m: "7 = IB rtklib_h_small 1 0 (rtk_opt ?rtk)"
    by (simp add: IB_epoch rtk_epoch_sel)
  note pv = ppp_view [OF epoch_hyps(1) epoch_hyps(3) obs_ok_epoch(1) epoch_hyps(8,9) m c_def st_def
      r1_def cl_def x2_def refl]
  have nc: "\<not> c"
    unfolding c_def by (simp add: rtk_epoch_sel clk_jump_day)
  then have rc: "\<not> reset_cond c 0 ?rtk (1 - 1)"
    by (simp add: reset_cond_def rtk_epoch_sel opt_single_sel ssat_fresh_sel)
  from pv(1,2) rc have z: "rtk_x r1 7 = 100" "rtk_P r1 70 = 4"
    by (simp_all add: rtk_epoch_sel)
  from collect_count_le [of rtklib_h_small ext_gps r1 nav_example ?obs 0 "obs_range rtklib_h_small 1" "(snd st, 0)"]
  have "snd cl \<le> 1"
    unfolding cl_def by (simp add: obs_range_small)
  from jump_cond_single [OF this] have x2: "x2 = 100"
    unfolding x2_def by (simp add: z)
  have o: "rtk_opt ?rtk' = opt_single"
    by (simp add: udbias_ppp_static(1) [OF epoch_hyps(1)] rtk_epoch_sel)
  have sl: "slip (rtk_ssat ?rtk' 0) 0 = 1"
    unfolding udbias_ppp_static(2) [OF epoch_hyps(1)]
    using detect_slip_epoch [where obs = ?obs and n = 1 and i = 0 and s = 1 and lli = 1
        and ?p0.0 = 0, OF obs_ok_epoch(1) epoch_hyps(5) refl]
    by simp
  have me: "udbias_meas rtklib_h_small ext_gps (rtk_opt ?rtk') ss nav_example
             (obs_epoch 1 1 0) 0 so = (0, so)" for ss so
    unfolding o by (simp add: meas_phase opt_single_sel)
  have s0: "obs_sat (?obs 0) = 1"
    by (simp add: obs_epoch_sel)
  from pv(5) [OF epoch_hyps(5)] have cb: "ub_bias (fst cl) 0 = 0"
    unfolding me by simp
  from pv(4) [OF epoch_hyps(5) s0] z have x: "rtk_x ?rtk' 7 = 100" "rtk_P ?rtk' 70 = 4"
    unfolding cb x2 by (simp_all add: rtk_epoch_sel opt_single_sel SQR_def)
  have b: "fst (udbias_meas rtklib_h_small ext_gps opt_single (rtk_ssat ?rtk' 0) nav_example
             (obs_epoch 1 1 0) 0 0) = 0"
    by (simp add: meas_phase opt_single_sel)
  from x b sl show ?thesis
    by (simp add: VAR_BIAS_def SQR_def)
qed



end
